theory Spec2Isabelle
  imports Complex_Main "HOL-Library.Sublist"
begin

section \<open>Python values, errors and executions\<close>

text \<open>
  The module \<^verbatim>\<open>nlp_utils/model.py\<close> defines three classes on top of PyTorch, PyTorch
  Lightning and the transformers library: \<^verbatim>\<open>BaseModel\<close>, \<^verbatim>\<open>BiLSTMModel\<close> and
  \<^verbatim>\<open>CustomDistilBertModel\<close>. Every method is embedded as a function that returns the
  sequence of operations it performed together with its outcome: an exception is a value
  \<open>Inl e\<close>, a normal return a value \<open>Inr x\<close>.
\<close>

datatype error =
  KeyError string | IndexError | TypeError | ValueError | RuntimeError | AttributeError | OSError

text \<open>The scalar values a configuration dictionary holds.\<close>

datatype pyval = PInt int | PFloat real | PBool bool | PStr string | PNone

type_synonym config = "string \<rightharpoonup> pyval"

text \<open>
  An operation the code performs is either a call (of a library function, a framework
  hook, a subscript or an operator), recorded with the exception it raised if it raised
  one, or an assignment to an attribute, to a dictionary entry or to a flag.
\<close>

datatype event = Call string "error option" | Assign string

type_synonym 'a exec = "event list \<times> (error + 'a)"

definition ret :: "'a \<Rightarrow> 'a exec" where
  "ret x = ([], Inr x)"

text \<open>A call followed by the rest of the method; an exception ends the method there.\<close>

definition call :: "string \<Rightarrow> error + 'a \<Rightarrow> ('a \<Rightarrow> 'b exec) \<Rightarrow> 'b exec" where
  "call n r k =
     (case r of
        Inl e \<Rightarrow> ([Call n (Some e)], Inl e)
      | Inr x \<Rightarrow> (Call n None # fst (k x), snd (k x)))"

definition assign :: "string \<Rightarrow> 'a exec \<Rightarrow> 'a exec" where
  "assign n c = (Assign n # fst c, snd c)"

text \<open>Sequencing of two pieces of code of this file (a loop, a method called by another).\<close>

definition bind_exec :: "'a exec \<Rightarrow> ('a \<Rightarrow> 'b exec) \<Rightarrow> 'b exec" where
  "bind_exec c k =
     (case snd c of
        Inl e \<Rightarrow> (fst c, Inl e)
      | Inr x \<Rightarrow> (fst c @ fst (k x), snd (k x)))"

text \<open>
  \<^verbatim>\<open>with torch.no_grad(): body\<close>. The context manager is entered, the body runs, and the
  manager is left whether the body raised or not; it does not swallow the exception.
\<close>

definition with_no_grad :: "'a exec \<Rightarrow> ('a \<Rightarrow> 'b exec) \<Rightarrow> 'b exec" where
  "with_no_grad body k =
     (case snd body of
        Inl e \<Rightarrow>
          (Call ''torch.no_grad.__enter__'' None # fst body @
             [Call ''torch.no_grad.__exit__'' None], Inl e)
      | Inr x \<Rightarrow>
          (Call ''torch.no_grad.__enter__'' None # fst body @
             Call ''torch.no_grad.__exit__'' None # fst (k x), snd (k x)))"

text \<open>Python's numeric tower for the comparison \<^verbatim>\<open>v == 0\<close>: \<^verbatim>\<open>0\<close>, \<^verbatim>\<open>0.0\<close> and
  \<^verbatim>\<open>False\<close> are equal to \<^verbatim>\<open>0\<close>, a string or \<^verbatim>\<open>None\<close> is not.\<close>

fun py_num :: "pyval \<Rightarrow> real option" where
  "py_num (PInt i) = Some (of_int i)"
| "py_num (PFloat r) = Some r"
| "py_num (PBool b) = Some (if b then 1 else 0)"
| "py_num (PStr s) = None"
| "py_num PNone = None"

definition py_eq_int :: "pyval \<Rightarrow> int \<Rightarrow> bool" where
  "py_eq_int v i = (py_num v = Some (of_int i))"

text \<open>\<^verbatim>\<open>d[k]\<close> on a dictionary.\<close>

definition getitem :: "(string \<rightharpoonup> 'v) \<Rightarrow> string \<Rightarrow> error + 'v" where
  "getitem d k = (case d k of None \<Rightarrow> Inl (KeyError k) | Some v \<Rightarrow> Inr v)"

section \<open>Tensors and the functions of the numeric library\<close>

text \<open>
  A tensor is its shape and its elements in row-major order. The elements of a floating
  point tensor are modelled as real numbers.
\<close>

record 'a tensor =
  shape :: "nat list"
  data :: "'a list"

definition wf_tensor :: "'a tensor \<Rightarrow> bool" where
  "wf_tensor t = (length (data t) = prod_list (shape t))"

text \<open>The \<open>n\<close> consecutive blocks of \<open>k\<close> elements of a list.\<close>

definition rows :: "nat \<Rightarrow> nat \<Rightarrow> 'a list \<Rightarrow> 'a list list" where
  "rows n k xs = map (\<lambda>i. take k (drop (i * k) xs)) [0..<n]"

definition dot :: "real list \<Rightarrow> real list \<Rightarrow> real" where
  "dot xs ys = sum_list (map2 (*) xs ys)"

text \<open>\<^verbatim>\<open>F.linear(x, w, b)\<close>: \<open>x\<close> of shape \<open>(*, in)\<close>, \<open>w\<close> of shape \<open>(out, in)\<close>, \<open>b\<close> of
  shape \<open>(out)\<close>; the result has shape \<open>(*, out)\<close>.\<close>

definition F_linear :: "real tensor \<Rightarrow> real tensor \<Rightarrow> real tensor \<Rightarrow> error + real tensor" where
  "F_linear x w b =
     (case shape w of
        [out, inp] \<Rightarrow>
          if shape x = [] \<or> last (shape x) \<noteq> inp \<or> shape b \<noteq> [out] then Inl RuntimeError
          else Inr \<lparr>shape = butlast (shape x) @ [out],
                    data = concat (map (\<lambda>r. map2 (\<lambda>wr bj. dot r wr + bj)
                                               (rows out inp (data w)) (data b))
                                       (rows (prod_list (butlast (shape x))) inp (data x)))\<rparr>
      | _ \<Rightarrow> Inl RuntimeError)"

definition F_relu :: "real tensor \<Rightarrow> real tensor" where
  "F_relu x = x\<lparr>data := map (max 0) (data x)\<rparr>"

text \<open>
  \<^verbatim>\<open>F.dropout(x, p, training)\<close>. The random mask is a parameter: \<open>keep i\<close> tells whether
  the element at position \<open>i\<close> survives. Outside training the layer is the identity.
\<close>

definition F_dropout :: "real \<Rightarrow> bool \<Rightarrow> (nat \<Rightarrow> bool) \<Rightarrow> real tensor \<Rightarrow> real tensor" where
  "F_dropout p train keep x =
     (if train \<and> p \<noteq> 0
      then x\<lparr>data := map (\<lambda>(i, v). if p < 1 \<and> keep i then v / (1 - p) else 0)
                        (enumerate 0 (data x))\<rparr>
      else x)"

text \<open>\<^verbatim>\<open>x[:, i]\<close> for a Python int \<open>i\<close>; a negative index counts from the end.\<close>

definition select1 :: "'a tensor \<Rightarrow> int \<Rightarrow> error + 'a tensor" where
  "select1 x i =
     (case shape x of
        b # l # rest \<Rightarrow>
          (let j = (if i < 0 then i + int l else i) in
           if 0 \<le> j \<and> j < int l
           then Inr \<lparr>shape = b # rest,
                     data = concat (map (\<lambda>r. take (prod_list rest) (drop (nat j * prod_list rest) r))
                                        (rows b (l * prod_list rest) (data x)))\<rparr>
           else Inl IndexError)
      | _ \<Rightarrow> Inl IndexError)"

text \<open>\<^verbatim>\<open>x[:, i, :]\<close>: as above, on a tensor of at least three dimensions.\<close>

definition select1_of3 :: "'a tensor \<Rightarrow> int \<Rightarrow> error + 'a tensor" where
  "select1_of3 x i = (if length (shape x) < 3 then Inl IndexError else select1 x i)"

text \<open>\<^verbatim>\<open>x.shape[1]\<close>\<close>

definition shape1 :: "'a tensor \<Rightarrow> error + int" where
  "shape1 x = (if length (shape x) < 2 then Inl IndexError else Inr (int (shape x ! 1)))"

text \<open>
  \<^verbatim>\<open>torch.cat((x, y), 1)\<close>. A one-dimensional empty tensor is skipped; the others must
  have at least two dimensions and agree in every dimension but the second.
\<close>

definition cat1 :: "'a tensor \<Rightarrow> 'a tensor \<Rightarrow> error + 'a tensor" where
  "cat1 x y =
     (if shape x = [0] \<and> shape y = [0] then Inr \<lparr>shape = [0], data = []\<rparr>
      else if shape x = [0] then (if length (shape y) < 2 then Inl IndexError else Inr y)
      else if length (shape x) < 2 then Inl IndexError
      else if shape y = [0] then Inr x
      else if length (shape y) \<noteq> length (shape x) \<or> hd (shape y) \<noteq> hd (shape x)
              \<or> drop 2 (shape y) \<noteq> drop 2 (shape x) then Inl RuntimeError
      else Inr \<lparr>shape = hd (shape x) # (shape x ! 1 + shape y ! 1) # drop 2 (shape x),
                data = concat (map2 (@)
                  (rows (hd (shape x)) (prod_list (tl (shape x))) (data x))
                  (rows (hd (shape y)) (prod_list (tl (shape y))) (data y)))\<rparr>)"

text \<open>\<^verbatim>\<open>x.view(-1)\<close> and \<^verbatim>\<open>x.unsqueeze(1)\<close> (tensors are stored contiguously).\<close>

definition view_flat :: "'a tensor \<Rightarrow> error + 'a tensor" where
  "view_flat x = Inr \<lparr>shape = [prod_list (shape x)], data = data x\<rparr>"

definition unsqueeze1 :: "'a tensor \<Rightarrow> error + 'a tensor" where
  "unsqueeze1 x =
     (case shape x of
        [] \<Rightarrow> Inl IndexError
      | n # rest \<Rightarrow> Inr \<lparr>shape = n # 1 # rest, data = data x\<rparr>)"

text \<open>
  Broadcasting, as \<^verbatim>\<open>torch.broadcast_tensors\<close> does it: shapes are aligned at their last
  dimension, and a dimension of size 1 is repeated.
\<close>

fun broadcast_rev :: "nat list \<Rightarrow> nat list \<Rightarrow> nat list option" where
  "broadcast_rev [] ys = Some ys"
| "broadcast_rev xs [] = Some xs"
| "broadcast_rev (x # xs) (y # ys) =
     (if x = y \<or> y = 1 then map_option ((#) x) (broadcast_rev xs ys)
      else if x = 1 then map_option ((#) y) (broadcast_rev xs ys)
      else None)"

definition broadcast_shapes :: "nat list \<Rightarrow> nat list \<Rightarrow> nat list option" where
  "broadcast_shapes s t = map_option rev (broadcast_rev (rev s) (rev t))"

fun expand_data :: "nat list \<Rightarrow> nat list \<Rightarrow> 'a list \<Rightarrow> 'a list" where
  "expand_data (a # as) (b # bs) xs =
     (if a = b then concat (map (expand_data as bs) (rows a (prod_list as) xs))
      else concat (replicate b (expand_data as bs xs)))"
| "expand_data as bs xs = xs"

definition expand :: "nat list \<Rightarrow> 'a tensor \<Rightarrow> 'a tensor" where
  "expand s x =
     \<lparr>shape = s,
      data = expand_data (replicate (length s - length (shape x)) 1 @ shape x) s (data x)\<rparr>"

text \<open>A loss or a metric is a floating point number that may be \<^verbatim>\<open>nan\<close>: the mean of no
  element is \<^verbatim>\<open>0 / 0\<close>. (Weights, inputs and activations are real numbers; the layers above
  divide by nothing that can be 0.)\<close>

datatype float = Num real | NaN

text \<open>\<^verbatim>\<open>F.mse_loss(x, y)\<close> with the default reduction, the mean; the result is a scalar
  tensor, \<^verbatim>\<open>nan\<close> when the operands have no element.\<close>

definition F_mse_loss :: "real tensor \<Rightarrow> real tensor \<Rightarrow> error + float tensor" where
  "F_mse_loss x y =
     (case broadcast_shapes (shape x) (shape y) of
        None \<Rightarrow> Inl RuntimeError
      | Some s \<Rightarrow>
          (let d = map2 (\<lambda>a b. (a - b) * (a - b)) (data (expand s x)) (data (expand s y))
           in Inr \<lparr>shape = [],
                   data = [if d = [] then NaN else Num (sum_list d / real (length d))]\<rparr>))"

text \<open>\<^verbatim>\<open>F.embedding(ids, w)\<close>: every index selects a row of the table \<open>w\<close>.\<close>

definition F_embedding :: "int tensor \<Rightarrow> real tensor \<Rightarrow> error + real tensor" where
  "F_embedding ids w =
     (case shape w of
        [v, d] \<Rightarrow>
          if \<exists>i\<in>set (data ids). i < 0 \<or> int v \<le> i then Inl IndexError
          else Inr \<lparr>shape = shape ids @ [d],
                    data = concat (map (\<lambda>i. take d (drop (nat i * d) (data w))) (data ids))\<rparr>
      | _ \<Rightarrow> Inl RuntimeError)"

section \<open>Parameters, layers and the pretrained encoder\<close>

record param =
  pdata :: "real tensor"
  requires_grad :: bool

datatype layer = Linear param param | ReLU | Dropout real | Sequential "layer list"

fun layer_parameters :: "layer \<Rightarrow> param list" where
  "layer_parameters (Linear w b) = [w, b]"
| "layer_parameters ReLU = []"
| "layer_parameters (Dropout p) = []"
| "layer_parameters (Sequential ls) = concat (map layer_parameters ls)"

text \<open>Applying a layer to a tensor; a \<^verbatim>\<open>Sequential\<close> applies its layers in order.\<close>

fun layer_forward :: "bool \<Rightarrow> (nat \<Rightarrow> bool) \<Rightarrow> layer \<Rightarrow> real tensor \<Rightarrow> error + real tensor"
  and layers_forward :: "bool \<Rightarrow> (nat \<Rightarrow> bool) \<Rightarrow> layer list \<Rightarrow> real tensor \<Rightarrow> error + real tensor"
  where
  "layer_forward train keep (Linear w b) x = F_linear x (pdata w) (pdata b)"
| "layer_forward train keep ReLU x = Inr (F_relu x)"
| "layer_forward train keep (Dropout p) x = Inr (F_dropout p train keep x)"
| "layer_forward train keep (Sequential ls) x = layers_forward train keep ls x"
| "layers_forward train keep [] x = Inr x"
| "layers_forward train keep (l # ls) x =
     (case layer_forward train keep l x of
        Inl e \<Rightarrow> Inl e
      | Inr y \<Rightarrow> layers_forward train keep ls y)"

text \<open>The configuration of the pretrained encoder; \<^verbatim>\<open>hidden_size\<close> is an alias of
  \<^verbatim>\<open>dim\<close> in \<^verbatim>\<open>DistilBertConfig\<close>.\<close>

record DistilBertConfig =
  vocab_size :: int
  dim :: int
  seq_classif_dropout :: real

definition hidden_size :: "DistilBertConfig \<Rightarrow> int" where
  "hidden_size c = dim c"

text \<open>The pretrained encoder: its parameters, its configuration and its forward pass, which
  returns the tuple of its outputs (the last hidden state first).\<close>

record DistilBertModel =
  bert_parameters :: "param list"
  bert_config :: DistilBertConfig
  bert_forward :: "int tensor \<Rightarrow> int tensor \<Rightarrow> error + real tensor list"

text \<open>\<^verbatim>\<open>t[0]\<close> on a tuple of outputs.\<close>

definition first_output :: "'a list \<Rightarrow> error + 'a" where
  "first_output t = (case t of [] \<Rightarrow> Inl IndexError | x # _ \<Rightarrow> Inr x)"

text \<open>A metric object is the list of the updates it has received.\<close>

type_synonym 'a metric = "('a tensor \<times> 'a tensor) list"

text \<open>
  What this file does not define is a parameter of every method:
  \<^item> \<open>create_config\<close> of \<^verbatim>\<open>nlp_utils.config\<close>;
  \<^item> the loader \<^verbatim>\<open>DistilBertModel.from_pretrained\<close>;
  \<^item> \<open>fails\<close>: for a framework or library call whose result is not modelled further
    (logging, moving a tensor to the device, constructing a metric or a parameterless
    layer), the exception it raises at that call site, if any;
  \<^item> \<open>rand\<close>: the values the named, freshly constructed parameter is initialised with;
  \<^item> the forward pass of \<^verbatim>\<open>nn.LSTM\<close>, which returns the output sequence and the final
    hidden and cell states; \<^verbatim>\<open>torch.argmax(x, axis=1)\<close>; \<^verbatim>\<open>F.cross_entropy\<close>; and the
    \<^verbatim>\<open>compute\<close> methods of the two kinds of metric.
\<close>

record env =
  create_config :: "config \<Rightarrow> error + config"
  from_pretrained :: "string \<Rightarrow> error + DistilBertModel"
  fails :: "string \<Rightarrow> error option"
  rand :: "string \<Rightarrow> nat \<Rightarrow> real"
  torch_lstm :: "param list \<Rightarrow> real tensor \<Rightarrow> error + real tensor \<times> (real tensor \<times> real tensor)"
  torch_argmax1 :: "real tensor \<Rightarrow> error + int tensor"
  F_cross_entropy :: "real tensor \<Rightarrow> int tensor \<Rightarrow> error + float tensor"
  mse_compute :: "real metric \<Rightarrow> error + float tensor"
  f1_compute :: "int metric \<Rightarrow> error + float tensor"

definition ext :: "env \<Rightarrow> string \<Rightarrow> 'a \<Rightarrow> error + 'a" where
  "ext env n v = (case fails env n of Some e \<Rightarrow> Inl e | None \<Rightarrow> Inr v)"

text \<open>A size argument of a layer constructor: a non-negative Python int (and a \<^verbatim>\<open>bool\<close>
  is an \<^verbatim>\<open>int\<close>, \<^verbatim>\<open>True\<close> the size 1 and \<^verbatim>\<open>False\<close> the size 0).\<close>

fun as_size :: "pyval \<Rightarrow> error + nat" where
  "as_size (PInt i) = (if i < 0 then Inl RuntimeError else Inr (nat i))"
| "as_size (PBool b) = Inr (if b then 1 else 0)"
| "as_size v = Inl TypeError"

text \<open>The size a layer constructor reads from the configuration entry \<open>k\<close>, if it accepts
  the entry.\<close>

definition config_size :: "config \<Rightarrow> string \<Rightarrow> nat option" where
  "config_size cfg k =
     (case cfg k of
        None \<Rightarrow> None
      | Some v \<Rightarrow> (case as_size v of Inl e \<Rightarrow> None | Inr n \<Rightarrow> Some n))"

text \<open>A new \<^verbatim>\<open>nn.Parameter\<close> requires gradients.\<close>

definition new_param :: "env \<Rightarrow> string \<Rightarrow> nat list \<Rightarrow> param" where
  "new_param env name s =
     \<lparr>pdata = \<lparr>shape = s, data = map (rand env name) [0..<prod_list s]\<rparr>,
      requires_grad = True\<rparr>"

definition nn_Linear :: "env \<Rightarrow> string \<Rightarrow> pyval \<Rightarrow> pyval \<Rightarrow> error + layer" where
  "nn_Linear env name in_features out_features =
     (case as_size in_features of
        Inl e \<Rightarrow> Inl e
      | Inr i \<Rightarrow>
          (case as_size out_features of
             Inl e \<Rightarrow> Inl e
           | Inr out \<Rightarrow>
               Inr (Linear (new_param env (name @ ''.weight'') [out, i])
                           (new_param env (name @ ''.bias'') [out]))))"

definition nn_Dropout :: "real \<Rightarrow> error + layer" where
  "nn_Dropout p = (if p < 0 \<or> 1 < p then Inl ValueError else Inr (Dropout p))"

definition nn_Embedding :: "env \<Rightarrow> string \<Rightarrow> pyval \<Rightarrow> pyval \<Rightarrow> error + param" where
  "nn_Embedding env name num_embeddings embedding_dim =
     (case as_size num_embeddings of
        Inl e \<Rightarrow> Inl e
      | Inr v \<Rightarrow>
          (case as_size embedding_dim of
             Inl e \<Rightarrow> Inl e
           | Inr d \<Rightarrow> Inr (new_param env (name @ ''.weight'') [v, d])))"

text \<open>The integer a Python \<^verbatim>\<open>int\<close> or \<^verbatim>\<open>bool\<close> stands for.\<close>

fun py_int :: "pyval \<Rightarrow> int option" where
  "py_int (PInt i) = Some i"
| "py_int (PBool b) = Some (if b then 1 else 0)"
| "py_int v = None"

text \<open>A bidirectional one-layer \<^verbatim>\<open>nn.LSTM\<close> is the list of its eight parameters. The
  constructor first checks that the hidden size is an \<^verbatim>\<open>int\<close> and positive.\<close>

definition nn_LSTM :: "env \<Rightarrow> string \<Rightarrow> pyval \<Rightarrow> pyval \<Rightarrow> error + param list" where
  "nn_LSTM env name input_size hidden =
     (case py_int hidden of
        None \<Rightarrow> Inl TypeError
      | Some hs \<Rightarrow>
          if hs \<le> 0 then Inl ValueError
          else
            (case as_size input_size of
               Inl e \<Rightarrow> Inl e
             | Inr i \<Rightarrow>
                 (let h = nat hs in
                  Inr [new_param env (name @ ''.weight_ih_l0'') [4 * h, i],
                       new_param env (name @ ''.weight_hh_l0'') [4 * h, h],
                       new_param env (name @ ''.bias_ih_l0'') [4 * h],
                       new_param env (name @ ''.bias_hh_l0'') [4 * h],
                       new_param env (name @ ''.weight_ih_l0_reverse'') [4 * h, i],
                       new_param env (name @ ''.weight_hh_l0_reverse'') [4 * h, h],
                       new_param env (name @ ''.bias_ih_l0_reverse'') [4 * h],
                       new_param env (name @ ''.bias_hh_l0_reverse'') [4 * h]])))"

text \<open>\<^verbatim>\<open>a + b\<close> and \<^verbatim>\<open>a * n\<close> (for a literal \<open>n\<close>) on configuration values.\<close>

fun py_add :: "pyval \<Rightarrow> pyval \<Rightarrow> error + pyval" where
  "py_add (PStr s) (PStr t) = Inr (PStr (s @ t))"
| "py_add a b =
     (case (py_int a, py_int b) of
        (Some i, Some j) \<Rightarrow> Inr (PInt (i + j))
      | _ \<Rightarrow>
          (case (py_num a, py_num b) of
             (Some x, Some y) \<Rightarrow> Inr (PFloat (x + y))
           | _ \<Rightarrow> Inl TypeError))"

fun py_mul_nat :: "pyval \<Rightarrow> nat \<Rightarrow> error + pyval" where
  "py_mul_nat (PInt i) n = Inr (PInt (i * int n))"
| "py_mul_nat (PBool c) n = Inr (PInt ((if c then 1 else 0) * int n))"
| "py_mul_nat (PFloat r) n = Inr (PFloat (r * real n))"
| "py_mul_nat (PStr s) n = Inr (PStr (concat (replicate n s)))"
| "py_mul_nat PNone n = Inl TypeError"

text \<open>The arguments a model is called with: the tokenizer's encoding of a batch of texts
  (a dictionary of integer tensors), an integer tensor, a tensor of 32-bit floating point
  numbers (\<^verbatim>\<open>torch.FloatTensor\<close>, the type of the layers' weights) or a tensor of 64-bit
  floating point numbers.\<close>

datatype pyarg =
  Encoding "string \<rightharpoonup> int tensor" | IntTensor "int tensor" | FloatTensor "real tensor"
| DoubleTensor "real tensor"

text \<open>\<^verbatim>\<open>a["key"]\<close>; a tensor cannot be indexed by a string.\<close>

fun subscript :: "pyarg \<Rightarrow> string \<Rightarrow> error + int tensor" where
  "subscript (Encoding d) k = getitem d k"
| "subscript a k = Inl IndexError"

text \<open>What a layer that expects a tensor of the type of its weights, or a table lookup
  that expects integer indices, does with its argument.\<close>

fun float_input :: "pyarg \<Rightarrow> error + real tensor" where
  "float_input (FloatTensor x) = Inr x"
| "float_input (IntTensor x) = Inl RuntimeError"
| "float_input (DoubleTensor x) = Inl RuntimeError"
| "float_input (Encoding d) = Inl TypeError"

fun int_input :: "pyarg \<Rightarrow> error + int tensor" where
  "int_input (IntTensor x) = Inr x"
| "int_input (FloatTensor x) = Inl RuntimeError"
| "int_input (DoubleTensor x) = Inl RuntimeError"
| "int_input (Encoding d) = Inl TypeError"

text \<open>Sequencing of two library results.\<close>

definition and_then :: "error + 'a \<Rightarrow> ('a \<Rightarrow> error + 'b) \<Rightarrow> error + 'b" where
  "and_then r f = (case r of Inl e \<Rightarrow> Inl e | Inr x \<Rightarrow> f x)"

section \<open>The three model classes\<close>

text \<open>Attributes that every \<^verbatim>\<open>pl.LightningModule\<close> of this file has.\<close>

record LightningModule =
  config :: config
  hparams :: config
  learning_rate :: pyval
  training :: bool
  logged :: "(string \<times> float tensor) list"

record BaseModel = LightningModule +
  train_metric :: "real metric"
  val_metric :: "real metric"
  test_metric :: "real metric"
  bert :: DistilBertModel
  distilbert_tail :: layer
  category_encoder :: layer
  classifier :: layer

record BiLSTMModel = LightningModule +
  train_metric :: "real metric"
  val_metric :: "real metric"
  embedding :: param
  category_encoder :: layer
  bilstm :: "param list"
  classifier :: layer

record CustomDistilBertModel = LightningModule +
  num_classes :: nat
  train_metric :: "int metric"
  val_metric :: "int metric"
  test_metric :: "int metric"
  bert :: DistilBertModel
  distilbert_tail :: layer
  classifier :: layer

text \<open>The submodules of a model in the order of their registration, as
  \<^verbatim>\<open>nn.Module.named_children\<close> lists them, and the parameters each contributes to
  \<^verbatim>\<open>self.parameters()\<close>. A metric has no parameters.\<close>

datatype child =
  MetricChild | EncoderChild DistilBertModel | LayerChild layer | EmbeddingChild param
  | LSTMChild "param list"

fun child_parameters :: "child \<Rightarrow> param list" where
  "child_parameters MetricChild = []"
| "child_parameters (EncoderChild b) = bert_parameters b"
| "child_parameters (LayerChild l) = layer_parameters l"
| "child_parameters (EmbeddingChild w) = [w]"
| "child_parameters (LSTMChild ps) = ps"

definition BaseModel_named_children :: "BaseModel \<Rightarrow> (string \<times> child) list" where
  "BaseModel_named_children self =
     [(''train_metric'', MetricChild), (''val_metric'', MetricChild),
      (''test_metric'', MetricChild), (''bert'', EncoderChild (BaseModel.bert self)),
      (''distilbert_tail'', LayerChild (BaseModel.distilbert_tail self)),
      (''category_encoder'', LayerChild (BaseModel.category_encoder self)),
      (''classifier'', LayerChild (BaseModel.classifier self))]"

definition BiLSTMModel_named_children :: "BiLSTMModel \<Rightarrow> (string \<times> child) list" where
  "BiLSTMModel_named_children self =
     [(''train_metric'', MetricChild), (''val_metric'', MetricChild),
      (''embedding'', EmbeddingChild (embedding self)),
      (''category_encoder'', LayerChild (BiLSTMModel.category_encoder self)),
      (''bilstm'', LSTMChild (bilstm self)),
      (''classifier'', LayerChild (BiLSTMModel.classifier self))]"

definition CustomDistilBertModel_named_children ::
  "CustomDistilBertModel \<Rightarrow> (string \<times> child) list" where
  "CustomDistilBertModel_named_children self =
     [(''train_metric'', MetricChild), (''val_metric'', MetricChild),
      (''test_metric'', MetricChild), (''bert'', EncoderChild (CustomDistilBertModel.bert self)),
      (''distilbert_tail'', LayerChild (CustomDistilBertModel.distilbert_tail self)),
      (''classifier'', LayerChild (CustomDistilBertModel.classifier self))]"

definition parameters :: "(string \<times> child) list \<Rightarrow> param list" where
  "parameters children = concat (map (\<lambda>(name, c). child_parameters c) children)"

subsection \<open>Construction\<close>

text \<open>\<^verbatim>\<open>for param in self.bert.parameters(): param.requires_grad = False\<close>\<close>

fun freeze :: "param list \<Rightarrow> param list exec" where
  "freeze [] = ret []"
| "freeze (param # ps) =
     assign ''param.requires_grad''
       (bind_exec (freeze ps) (\<lambda>ps'. ret (param\<lparr>requires_grad := False\<rparr> # ps')))"

text \<open>\<^verbatim>\<open>if self.config["vocab_size"] == 0: self.config["vocab_size"] = self.bert.config.vocab_size\<close>
  (lines 32-33 and 246-247).\<close>

definition set_vocab_size :: "config \<Rightarrow> DistilBertModel \<Rightarrow> config exec" where
  "set_vocab_size cfg b =
     call ''self.config[vocab_size]'' (getitem cfg ''vocab_size'') (\<lambda>v.
     if py_eq_int v 0
     then assign ''self.config[vocab_size]''
            (ret (cfg(''vocab_size'' \<mapsto> PInt (vocab_size (bert_config b)))))
     else ret cfg)"

text \<open>The \<^verbatim>\<open>nn.Sequential\<close> of a linear layer, a ReLU and a dropout (lines 40-44 and
  254-258).\<close>

definition make_distilbert_tail :: "env \<Rightarrow> DistilBertModel \<Rightarrow> (layer \<Rightarrow> 'a exec) \<Rightarrow> 'a exec" where
  "make_distilbert_tail env b k =
     call ''nn.Linear''
       (nn_Linear env ''distilbert_tail.0''
          (PInt (dim (bert_config b))) (PInt (dim (bert_config b)))) (\<lambda>lin.
     call ''nn.ReLU'' (ext env ''nn.ReLU'' ReLU) (\<lambda>relu.
     call ''nn.Dropout'' (nn_Dropout (seq_classif_dropout (bert_config b))) (\<lambda>drop.
     call ''nn.Sequential'' (ext env ''nn.Sequential'' (Sequential [lin, relu, drop])) (\<lambda>tail.
     assign ''self.distilbert_tail'' (k tail)))))"

text \<open>The \<^verbatim>\<open>nn.Sequential\<close> of a linear layer and a ReLU (lines 46-51 and 143-148).\<close>

definition make_category_encoder :: "env \<Rightarrow> config \<Rightarrow> (layer \<Rightarrow> 'a exec) \<Rightarrow> 'a exec" where
  "make_category_encoder env cfg k =
     call ''config[category_encoded_length]'' (getitem cfg ''category_encoded_length'') (\<lambda>cel.
     call ''config[category_encoder_out]'' (getitem cfg ''category_encoder_out'') (\<lambda>ceo.
     call ''nn.Linear'' (nn_Linear env ''category_encoder.0'' cel ceo) (\<lambda>lin.
     call ''nn.ReLU'' (ext env ''nn.ReLU'' ReLU) (\<lambda>relu.
     call ''nn.Sequential'' (ext env ''nn.Sequential'' (Sequential [lin, relu])) (\<lambda>enc.
     assign ''self.category_encoder'' (k enc))))))"

text \<open>The first lines of every constructor (lines 19-23, 130-135 and 228-232).\<close>

definition init_config :: "env \<Rightarrow> config \<Rightarrow> (config \<Rightarrow> config \<Rightarrow> pyval \<Rightarrow> 'a exec) \<Rightarrow> 'a exec" where
  "init_config env config0 k =
     call ''super().__init__'' (ext env ''super().__init__'' ()) (\<lambda>_.
     call ''create_config'' (create_config env config0) (\<lambda>cfg.
     assign ''self.config'' (
     call ''self.save_hyperparameters'' (ext env ''self.save_hyperparameters'' cfg) (\<lambda>hp.
     call ''config[learning_rate]'' (getitem cfg ''learning_rate'') (\<lambda>lr.
     assign ''self.learning_rate'' (k cfg hp lr))))))"

text \<open>\<^verbatim>\<open>BaseModel.__init__\<close>, lines 17-55.\<close>

definition BaseModel_init :: "env \<Rightarrow> config \<Rightarrow> BaseModel exec" where
  "BaseModel_init env config0 =
     init_config env config0 (\<lambda>cfg hp lr.
     call ''torchmetrics.MeanSquaredError'' (ext env ''torchmetrics.MeanSquaredError'' []) (\<lambda>trm.
     assign ''self.train_metric'' (
     call ''torchmetrics.MeanSquaredError'' (ext env ''torchmetrics.MeanSquaredError'' []) (\<lambda>vam.
     assign ''self.val_metric'' (
     call ''torchmetrics.MeanSquaredError'' (ext env ''torchmetrics.MeanSquaredError'' []) (\<lambda>tem.
     assign ''self.test_metric'' (
     call ''DistilBertModel.from_pretrained''
       (from_pretrained env ''distilbert-base-uncased'') (\<lambda>b.
     assign ''self.bert'' (
     bind_exec (set_vocab_size cfg b) (\<lambda>cfg'.
     bind_exec (freeze (bert_parameters b)) (\<lambda>frozen.
     make_distilbert_tail env b (\<lambda>tail.
     make_category_encoder env cfg' (\<lambda>enc.
     call ''config[category_encoder_out]'' (getitem cfg' ''category_encoder_out'') (\<lambda>ceo.
     call ''+'' (py_add (PInt (hidden_size (bert_config b))) ceo) (\<lambda>n.
     call ''nn.Linear'' (nn_Linear env ''classifier'' n (PInt 1)) (\<lambda>cls.
     assign ''self.classifier'' (
     ret \<lparr>config = cfg', hparams = hp, learning_rate = lr, training = True, logged = [],
          BaseModel.train_metric = trm, BaseModel.val_metric = vam,
          BaseModel.test_metric = tem,
          BaseModel.bert = b\<lparr>bert_parameters := frozen\<rparr>,
          BaseModel.distilbert_tail = tail, BaseModel.category_encoder = enc,
          BaseModel.classifier = cls\<rparr>)))))))))))))))))"

text \<open>\<^verbatim>\<open>BiLSTMModel.__init__\<close>, lines 129-159.\<close>

definition BiLSTMModel_init :: "env \<Rightarrow> config \<Rightarrow> BiLSTMModel exec" where
  "BiLSTMModel_init env config0 =
     init_config env config0 (\<lambda>cfg hp lr.
     call ''pl.metrics.MeanSquaredError'' (ext env ''pl.metrics.MeanSquaredError'' []) (\<lambda>trm.
     assign ''self.train_metric'' (
     call ''pl.metrics.MeanSquaredError'' (ext env ''pl.metrics.MeanSquaredError'' []) (\<lambda>vam.
     assign ''self.val_metric'' (
     call ''config[vocab_size]'' (getitem cfg ''vocab_size'') (\<lambda>vs.
     call ''config[embedding_dim]'' (getitem cfg ''embedding_dim'') (\<lambda>ed.
     call ''nn.Embedding'' (nn_Embedding env ''embedding'' vs ed) (\<lambda>emb.
     assign ''self.embedding'' (
     make_category_encoder env cfg (\<lambda>enc.
     call ''config[embedding_dim]'' (getitem cfg ''embedding_dim'') (\<lambda>ed'.
     call ''config[bilstm_hidden_dim]'' (getitem cfg ''bilstm_hidden_dim'') (\<lambda>hdim.
     call ''nn.LSTM'' (nn_LSTM env ''bilstm'' ed' hdim) (\<lambda>lstm.
     assign ''self.bilstm'' (
     call ''config[bilstm_hidden_dim]'' (getitem cfg ''bilstm_hidden_dim'') (\<lambda>hdim'.
     call ''*'' (py_mul_nat hdim' 2) (\<lambda>hdim2.
     call ''config[category_encoder_out]'' (getitem cfg ''category_encoder_out'') (\<lambda>ceo.
     call ''+'' (py_add hdim2 ceo) (\<lambda>n.
     call ''nn.Linear'' (nn_Linear env ''classifier'' n (PInt 1)) (\<lambda>cls.
     assign ''self.classifier'' (
     ret \<lparr>config = cfg, hparams = hp, learning_rate = lr, training = True, logged = [],
          BiLSTMModel.train_metric = trm, BiLSTMModel.val_metric = vam,
          embedding = emb, BiLSTMModel.category_encoder = enc, bilstm = lstm,
          BiLSTMModel.classifier = cls\<rparr>))))))))))))))))))))"

text \<open>\<^verbatim>\<open>CustomDistilBertModel.__init__\<close>, lines 226-261.\<close>

definition CustomDistilBertModel_init :: "env \<Rightarrow> config \<Rightarrow> CustomDistilBertModel exec" where
  "CustomDistilBertModel_init env config0 =
     init_config env config0 (\<lambda>cfg hp lr.
     assign ''self.num_classes'' (let num_classes = 4 in
     call ''torchmetrics.F1'' (ext env ''torchmetrics.F1'' []) (\<lambda>trm.
     assign ''self.train_metric'' (
     call ''torchmetrics.F1'' (ext env ''torchmetrics.F1'' []) (\<lambda>vam.
     assign ''self.val_metric'' (
     call ''torchmetrics.F1'' (ext env ''torchmetrics.F1'' []) (\<lambda>tem.
     assign ''self.test_metric'' (
     call ''DistilBertModel.from_pretrained''
       (from_pretrained env ''distilbert-base-uncased'') (\<lambda>b.
     assign ''self.bert'' (
     bind_exec (set_vocab_size cfg b) (\<lambda>cfg'.
     bind_exec (freeze (bert_parameters b)) (\<lambda>frozen.
     make_distilbert_tail env b (\<lambda>tail.
     call ''nn.Linear''
       (nn_Linear env ''classifier''
          (PInt (hidden_size (bert_config b))) (PInt (int num_classes))) (\<lambda>cls.
     assign ''self.classifier'' (
     ret \<lparr>config = cfg', hparams = hp, learning_rate = lr, training = True, logged = [],
          num_classes = num_classes,
          CustomDistilBertModel.train_metric = trm, CustomDistilBertModel.val_metric = vam,
          CustomDistilBertModel.test_metric = tem,
          CustomDistilBertModel.bert = b\<lparr>bert_parameters := frozen\<rparr>,
          CustomDistilBertModel.distilbert_tail = tail,
          CustomDistilBertModel.classifier = cls\<rparr>)))))))))))))))"

subsection \<open>The forward pass\<close>

text \<open>\<^verbatim>\<open>BaseModel.forward\<close>, lines 57-72.\<close>

definition BaseModel_forward ::
  "BaseModel \<Rightarrow> (nat \<Rightarrow> bool) \<Rightarrow> pyarg \<Rightarrow> pyarg \<Rightarrow> real tensor exec" where
  "BaseModel_forward self keep encoded_text category_vectors =
     call ''encoded_text[input_ids]'' (subscript encoded_text ''input_ids'') (\<lambda>input_ids.
     call ''encoded_text[attention_mask]''
       (subscript encoded_text ''attention_mask'') (\<lambda>attention_mask.
     call ''self.bert''
       (bert_forward (BaseModel.bert self) input_ids attention_mask) (\<lambda>bert_output.
     call ''bert_output[0]'' (first_output bert_output) (\<lambda>hidden_state.
     call ''hidden_state[:, 0]'' (select1 hidden_state 0) (\<lambda>pooled_output.
     call ''self.distilbert_tail''
       (layer_forward (training self) keep (BaseModel.distilbert_tail self)
          pooled_output) (\<lambda>pooled_output.
     call ''self.category_encoder''
       (and_then (float_input category_vectors)
          (layer_forward (training self) keep (BaseModel.category_encoder self)))
       (\<lambda>categories_encoded.
     call ''torch.cat'' (cat1 pooled_output categories_encoded) (\<lambda>concatenated.
     call ''self.classifier''
       (layer_forward (training self) keep (BaseModel.classifier self) concatenated) (\<lambda>out.
     ret out)))))))))"

text \<open>\<^verbatim>\<open>BiLSTMModel.forward\<close>, lines 161-171.\<close>

definition BiLSTMModel_forward ::
  "env \<Rightarrow> BiLSTMModel \<Rightarrow> (nat \<Rightarrow> bool) \<Rightarrow> pyarg \<Rightarrow> pyarg \<Rightarrow> real tensor exec" where
  "BiLSTMModel_forward env self keep encoded_texts encoded_classes =
     call ''self.embedding''
       (and_then (int_input encoded_texts) (\<lambda>ids. F_embedding ids (pdata (embedding self))))
       (\<lambda>embeddings.
     call ''self.bilstm'' (torch_lstm env (bilstm self) embeddings) (\<lambda>(lstm_out, state).
     call ''self.category_encoder''
       (and_then (float_input encoded_classes)
          (layer_forward (training self) keep (BiLSTMModel.category_encoder self)))
       (\<lambda>categories_encoded.
     call ''lstm_out.shape[1]'' (shape1 lstm_out) (\<lambda>n.
     call ''lstm_out[:, n - 1, :]'' (select1_of3 lstm_out (n - 1)) (\<lambda>forward.
     call ''torch.cat'' (cat1 forward categories_encoded) (\<lambda>combined.
     call ''self.classifier''
       (layer_forward (training self) keep (BiLSTMModel.classifier self) combined) (\<lambda>out.
     ret out)))))))"

text \<open>\<^verbatim>\<open>CustomDistilBertModel.forward\<close>, lines 263-273.\<close>

definition CustomDistilBertModel_forward ::
  "CustomDistilBertModel \<Rightarrow> (nat \<Rightarrow> bool) \<Rightarrow> pyarg \<Rightarrow> real tensor exec" where
  "CustomDistilBertModel_forward self keep encoded_text =
     with_no_grad
       (call ''encoded_text[input_ids]'' (subscript encoded_text ''input_ids'') (\<lambda>input_ids.
        call ''encoded_text[attention_mask]''
          (subscript encoded_text ''attention_mask'') (\<lambda>attention_mask.
        call ''self.bert''
          (bert_forward (CustomDistilBertModel.bert self) input_ids attention_mask) ret)))
       (\<lambda>bert_output.
     call ''bert_output[0]'' (first_output bert_output) (\<lambda>hidden_state.
     call ''hidden_state[:, 0]'' (select1 hidden_state 0) (\<lambda>pooled_output.
     call ''self.distilbert_tail''
       (layer_forward (training self) keep (CustomDistilBertModel.distilbert_tail self)
          pooled_output) (\<lambda>pooled_output.
     call ''self.classifier''
       (layer_forward (training self) keep (CustomDistilBertModel.classifier self)
          pooled_output) (\<lambda>out.
     ret out)))))"

text \<open>
  \<^verbatim>\<open>self(*args)\<close>: \<^verbatim>\<open>nn.Module.__call__\<close> passes the positional arguments on to
  \<^verbatim>\<open>forward\<close>; Python raises \<^verbatim>\<open>TypeError\<close> when their number is not the number of
  parameters \<^verbatim>\<open>forward\<close> declares.
\<close>

definition BaseModel_call ::
  "BaseModel \<Rightarrow> (nat \<Rightarrow> bool) \<Rightarrow> pyarg list \<Rightarrow> real tensor exec" where
  "BaseModel_call self keep args =
     (case args of
        [encoded_text, category_vectors] \<Rightarrow>
          BaseModel_forward self keep encoded_text category_vectors
      | _ \<Rightarrow> call ''self.forward'' (Inl TypeError) ret)"

definition BiLSTMModel_call ::
  "env \<Rightarrow> BiLSTMModel \<Rightarrow> (nat \<Rightarrow> bool) \<Rightarrow> pyarg list \<Rightarrow> real tensor exec" where
  "BiLSTMModel_call env self keep args =
     (case args of
        [encoded_texts, encoded_classes] \<Rightarrow>
          BiLSTMModel_forward env self keep encoded_texts encoded_classes
      | _ \<Rightarrow> call ''self.forward'' (Inl TypeError) ret)"

definition CustomDistilBertModel_call ::
  "CustomDistilBertModel \<Rightarrow> (nat \<Rightarrow> bool) \<Rightarrow> pyarg list \<Rightarrow> real tensor exec" where
  "CustomDistilBertModel_call self keep args =
     (case args of
        [encoded_text] \<Rightarrow> CustomDistilBertModel_forward self keep encoded_text
      | _ \<Rightarrow> call ''self.forward'' (Inl TypeError) ret)"

subsection \<open>Training, validation and test hooks\<close>

text \<open>\<^verbatim>\<open>self.log(name, value)\<close>: the framework records the value, or raises.\<close>

definition log ::
  "env \<Rightarrow> 'a LightningModule_scheme \<Rightarrow> string \<Rightarrow> float tensor \<Rightarrow> error + 'a LightningModule_scheme"
  where
  "log env self name v = ext env ''self.log'' (self\<lparr>logged := logged self @ [(name, v)]\<rparr>)"

text \<open>Calling a \<^verbatim>\<open>MeanSquaredError\<close> metric on predictions and targets: they must have the
  same shape.\<close>

definition metric_update :: "'a metric \<Rightarrow> 'a tensor \<Rightarrow> 'a tensor \<Rightarrow> error + 'a metric" where
  "metric_update ms preds target =
     (if shape preds \<noteq> shape target then Inl RuntimeError else Inr (ms @ [(preds, target)]))"

text \<open>A batch of the regression models is \<^verbatim>\<open>(y, encoded_texts, category_vectors, _)\<close>.\<close>

text \<open>\<^verbatim>\<open>BaseModel.training_step\<close>, lines 74-90.\<close>

definition BaseModel_training_step ::
  "env \<Rightarrow> BaseModel \<Rightarrow> (nat \<Rightarrow> bool) \<Rightarrow>
   real tensor \<times> (string \<rightharpoonup> int tensor) \<times> real tensor \<times> 'x \<Rightarrow>
   ((string \<times> float tensor) list \<times> BaseModel) exec" where
  "BaseModel_training_step env self keep batch =
     (case batch of (y, encoded_texts, category_vectors, u) \<Rightarrow>
     call ''y.to'' (ext env ''y.to'' y) (\<lambda>y.
     call ''encoded_texts.to'' (ext env ''encoded_texts.to'' encoded_texts) (\<lambda>encoded_texts.
     call ''category_vectors.to''
       (ext env ''category_vectors.to'' category_vectors) (\<lambda>category_vectors.
     bind_exec
       (BaseModel_call self keep [Encoding encoded_texts, FloatTensor category_vectors])
       (\<lambda>y_hat.
     call ''y_hat.view'' (view_flat y_hat) (\<lambda>y_hat_flat.
     call ''y.view'' (view_flat y) (\<lambda>y_flat.
     call ''F.mse_loss'' (F_mse_loss y_hat_flat y_flat) (\<lambda>loss.
     call ''y.unsqueeze'' (unsqueeze1 y) (\<lambda>target.
     call ''self.train_metric''
       (metric_update (BaseModel.train_metric self) y_hat target) (\<lambda>metric.
     call ''self.log''
       (log env (self\<lparr>BaseModel.train_metric := metric\<rparr>) ''train_loss'' loss) (\<lambda>self'.
     ret ([(''loss'', loss)], self'))))))))))))"

text \<open>\<^verbatim>\<open>BaseModel.training_epoch_end\<close>, lines 92-96.\<close>

definition BaseModel_training_epoch_end :: "env \<Rightarrow> BaseModel \<Rightarrow> 'o \<Rightarrow> BaseModel exec" where
  "BaseModel_training_epoch_end env self outs =
     call ''self.train_metric.compute'' (mse_compute env (BaseModel.train_metric self)) (\<lambda>v.
     call ''self.log'' (log env self (''train_epoch'' @ ''MeanSquaredError'') v) ret)"

text \<open>\<^verbatim>\<open>BaseModel.validation_step\<close>, lines 98-112.\<close>

definition BaseModel_validation_step ::
  "env \<Rightarrow> BaseModel \<Rightarrow> (nat \<Rightarrow> bool) \<Rightarrow>
   real tensor \<times> (string \<rightharpoonup> int tensor) \<times> real tensor \<times> 'x \<Rightarrow>
   ((string \<times> float tensor) list \<times> BaseModel) exec" where
  "BaseModel_validation_step env self keep batch =
     (case batch of (y, encoded_texts, category_vectors, u) \<Rightarrow>
     call ''y.to'' (ext env ''y.to'' y) (\<lambda>y.
     call ''encoded_texts.to'' (ext env ''encoded_texts.to'' encoded_texts) (\<lambda>encoded_texts.
     call ''category_vectors.to''
       (ext env ''category_vectors.to'' category_vectors) (\<lambda>category_vectors.
     bind_exec
       (BaseModel_call self keep [Encoding encoded_texts, FloatTensor category_vectors])
       (\<lambda>y_hat.
     call ''y.unsqueeze'' (unsqueeze1 y) (\<lambda>target.
     call ''F.mse_loss'' (F_mse_loss y_hat target) (\<lambda>loss.
     call ''y.unsqueeze'' (unsqueeze1 y) (\<lambda>target'.
     call ''self.val_metric''
       (metric_update (BaseModel.val_metric self) y_hat target') (\<lambda>metric.
     call ''self.log''
       (log env (self\<lparr>BaseModel.val_metric := metric\<rparr>) ''val_loss'' loss) (\<lambda>self'.
     ret ([(''val_loss'', loss)], self')))))))))))"

text \<open>\<^verbatim>\<open>BaseModel.validation_epoch_end\<close>, lines 114-117.\<close>

definition BaseModel_validation_epoch_end :: "env \<Rightarrow> BaseModel \<Rightarrow> 'o \<Rightarrow> BaseModel exec" where
  "BaseModel_validation_epoch_end env self outputs =
     call ''self.val_metric.compute'' (mse_compute env (BaseModel.val_metric self)) (\<lambda>v.
     call ''self.log'' (log env self (''val_epoch_'' @ ''MeanSquaredError'') v) ret)"

text \<open>\<^verbatim>\<open>BiLSTMModel.training_step\<close>, lines 173-187.\<close>

definition BiLSTMModel_training_step ::
  "env \<Rightarrow> BiLSTMModel \<Rightarrow> (nat \<Rightarrow> bool) \<Rightarrow>
   real tensor \<times> int tensor \<times> real tensor \<times> 'x \<Rightarrow>
   ((string \<times> float tensor) list \<times> BiLSTMModel) exec" where
  "BiLSTMModel_training_step env self keep batch =
     (case batch of (y, encoded_texts, encoded_classes, u) \<Rightarrow>
     call ''y.to'' (ext env ''y.to'' y) (\<lambda>y.
     call ''encoded_texts.to'' (ext env ''encoded_texts.to'' encoded_texts) (\<lambda>encoded_texts.
     call ''encoded_classes.to''
       (ext env ''encoded_classes.to'' encoded_classes) (\<lambda>encoded_classes.
     bind_exec
       (BiLSTMModel_call env self keep [IntTensor encoded_texts, FloatTensor encoded_classes])
       (\<lambda>y_hat.
     call ''y.unsqueeze'' (unsqueeze1 y) (\<lambda>target.
     call ''F.mse_loss'' (F_mse_loss y_hat target) (\<lambda>loss.
     call ''y.unsqueeze'' (unsqueeze1 y) (\<lambda>target'.
     call ''self.train_metric''
       (metric_update (BiLSTMModel.train_metric self) y_hat target') (\<lambda>metric.
     call ''self.log''
       (log env (self\<lparr>BiLSTMModel.train_metric := metric\<rparr>) ''loss'' loss) (\<lambda>self'.
     ret ([(''loss'', loss)], self')))))))))))"

text \<open>\<^verbatim>\<open>BiLSTMModel.training_epoch_end\<close>, lines 189-193.\<close>

definition BiLSTMModel_training_epoch_end :: "env \<Rightarrow> BiLSTMModel \<Rightarrow> 'o \<Rightarrow> BiLSTMModel exec" where
  "BiLSTMModel_training_epoch_end env self outs =
     call ''self.train_metric.compute''
       (mse_compute env (BiLSTMModel.train_metric self)) (\<lambda>v.
     call ''self.log'' (log env self (''train_epoch'' @ ''MeanSquaredError'') v) ret)"

text \<open>\<^verbatim>\<open>BiLSTMModel.validation_step\<close>, lines 195-209.\<close>

definition BiLSTMModel_validation_step ::
  "env \<Rightarrow> BiLSTMModel \<Rightarrow> (nat \<Rightarrow> bool) \<Rightarrow>
   real tensor \<times> int tensor \<times> real tensor \<times> 'x \<Rightarrow>
   ((string \<times> float tensor) list \<times> BiLSTMModel) exec" where
  "BiLSTMModel_validation_step env self keep batch =
     (case batch of (y, encoded_texts, encoded_classes, u) \<Rightarrow>
     call ''y.to'' (ext env ''y.to'' y) (\<lambda>y.
     call ''encoded_texts.to'' (ext env ''encoded_texts.to'' encoded_texts) (\<lambda>encoded_texts.
     call ''encoded_classes.to''
       (ext env ''encoded_classes.to'' encoded_classes) (\<lambda>encoded_classes.
     bind_exec
       (BiLSTMModel_call env self keep [IntTensor encoded_texts, FloatTensor encoded_classes])
       (\<lambda>y_hat.
     call ''y.unsqueeze'' (unsqueeze1 y) (\<lambda>target.
     call ''F.mse_loss'' (F_mse_loss y_hat target) (\<lambda>loss.
     call ''y.unsqueeze'' (unsqueeze1 y) (\<lambda>target'.
     call ''self.val_metric''
       (metric_update (BiLSTMModel.val_metric self) y_hat target') (\<lambda>metric.
     call ''self.log''
       (log env (self\<lparr>BiLSTMModel.val_metric := metric\<rparr>) ''val_loss'' loss) (\<lambda>self'.
     ret ([(''val_loss'', loss)], self')))))))))))"

text \<open>\<^verbatim>\<open>BiLSTMModel.validation_epoch_end\<close>, lines 211-214.\<close>

definition BiLSTMModel_validation_epoch_end ::
  "env \<Rightarrow> BiLSTMModel \<Rightarrow> 'o \<Rightarrow> BiLSTMModel exec" where
  "BiLSTMModel_validation_epoch_end env self outputs =
     call ''self.val_metric.compute'' (mse_compute env (BiLSTMModel.val_metric self)) (\<lambda>v.
     call ''self.log'' (log env self (''val_epoch_'' @ ''MeanSquaredError'') v) ret)"

text \<open>
  A batch of the classification model is \<^verbatim>\<open>(y, encoded_texts, _)\<close>. Its three steps
  (lines 275-291, 299-313 and 320-334) differ in the metric they update and in the name
  they log under.
\<close>

definition CustomDistilBertModel_step ::
  "env \<Rightarrow> CustomDistilBertModel \<Rightarrow> (nat \<Rightarrow> bool) \<Rightarrow>
   int tensor \<times> (string \<rightharpoonup> int tensor) \<times> 'x \<Rightarrow>
   (float tensor \<Rightarrow> int tensor \<Rightarrow> int tensor \<Rightarrow> 'r exec) \<Rightarrow> 'r exec" where
  "CustomDistilBertModel_step env self keep batch k =
     (case batch of (y, encoded_texts, u) \<Rightarrow>
     call ''y.to'' (ext env ''y.to'' y) (\<lambda>y.
     call ''encoded_texts.to'' (ext env ''encoded_texts.to'' encoded_texts) (\<lambda>encoded_texts.
     bind_exec (CustomDistilBertModel_call self keep [Encoding encoded_texts]) (\<lambda>y_hat.
     call ''torch.argmax'' (torch_argmax1 env y_hat) (\<lambda>pred.
     call ''F.cross_entropy'' (F_cross_entropy env y_hat y) (\<lambda>loss.
     k loss pred y))))))"

text \<open>\<^verbatim>\<open>CustomDistilBertModel.training_step\<close>, lines 275-291.\<close>

definition CustomDistilBertModel_training_step ::
  "env \<Rightarrow> CustomDistilBertModel \<Rightarrow> (nat \<Rightarrow> bool) \<Rightarrow>
   int tensor \<times> (string \<rightharpoonup> int tensor) \<times> 'x \<Rightarrow>
   ((string \<times> float tensor) list \<times> CustomDistilBertModel) exec" where
  "CustomDistilBertModel_training_step env self keep batch =
     CustomDistilBertModel_step env self keep batch (\<lambda>loss pred y.
     call ''self.train_metric''
       (ext env ''self.train_metric''
          (CustomDistilBertModel.train_metric self @ [(pred, y)])) (\<lambda>metric.
     call ''self.log''
       (log env (self\<lparr>CustomDistilBertModel.train_metric := metric\<rparr>) ''train_loss'' loss)
       (\<lambda>self'.
     ret ([(''loss'', loss)], self'))))"

text \<open>\<^verbatim>\<open>CustomDistilBertModel.training_epoch_end\<close>, lines 293-297.\<close>

definition CustomDistilBertModel_training_epoch_end ::
  "env \<Rightarrow> CustomDistilBertModel \<Rightarrow> 'o \<Rightarrow> CustomDistilBertModel exec" where
  "CustomDistilBertModel_training_epoch_end env self outs =
     call ''self.train_metric.compute''
       (f1_compute env (CustomDistilBertModel.train_metric self)) (\<lambda>v.
     call ''self.log'' (log env self (''train_epoch_'' @ ''F1'') v) ret)"

text \<open>\<^verbatim>\<open>CustomDistilBertModel.validation_step\<close>, lines 299-313.\<close>

definition CustomDistilBertModel_validation_step ::
  "env \<Rightarrow> CustomDistilBertModel \<Rightarrow> (nat \<Rightarrow> bool) \<Rightarrow>
   int tensor \<times> (string \<rightharpoonup> int tensor) \<times> 'x \<Rightarrow>
   ((string \<times> float tensor) list \<times> CustomDistilBertModel) exec" where
  "CustomDistilBertModel_validation_step env self keep batch =
     CustomDistilBertModel_step env self keep batch (\<lambda>loss pred y.
     call ''self.val_metric''
       (ext env ''self.val_metric''
          (CustomDistilBertModel.val_metric self @ [(pred, y)])) (\<lambda>metric.
     call ''self.log''
       (log env (self\<lparr>CustomDistilBertModel.val_metric := metric\<rparr>) ''val_loss'' loss)
       (\<lambda>self'.
     ret ([(''val_loss'', loss)], self'))))"

text \<open>\<^verbatim>\<open>CustomDistilBertModel.validation_epoch_end\<close>, lines 315-318.\<close>

definition CustomDistilBertModel_validation_epoch_end ::
  "env \<Rightarrow> CustomDistilBertModel \<Rightarrow> 'o \<Rightarrow> CustomDistilBertModel exec" where
  "CustomDistilBertModel_validation_epoch_end env self outputs =
     call ''self.val_metric.compute''
       (f1_compute env (CustomDistilBertModel.val_metric self)) (\<lambda>v.
     call ''self.log'' (log env self (''val_epoch_'' @ ''F1'') v) ret)"

text \<open>\<^verbatim>\<open>CustomDistilBertModel.test_step\<close>, lines 320-334.\<close>

definition CustomDistilBertModel_test_step ::
  "env \<Rightarrow> CustomDistilBertModel \<Rightarrow> (nat \<Rightarrow> bool) \<Rightarrow>
   int tensor \<times> (string \<rightharpoonup> int tensor) \<times> 'x \<Rightarrow>
   ((string \<times> float tensor) list \<times> CustomDistilBertModel) exec" where
  "CustomDistilBertModel_test_step env self keep batch =
     CustomDistilBertModel_step env self keep batch (\<lambda>loss pred y.
     call ''self.test_metric''
       (ext env ''self.test_metric''
          (CustomDistilBertModel.test_metric self @ [(pred, y)])) (\<lambda>metric.
     call ''self.log''
       (log env (self\<lparr>CustomDistilBertModel.test_metric := metric\<rparr>) ''test_loss'' loss)
       (\<lambda>self'.
     ret ([(''test_loss'', loss)], self'))))"

text \<open>\<^verbatim>\<open>CustomDistilBertModel.test_epoch_end\<close>, lines 336-339.\<close>

definition CustomDistilBertModel_test_epoch_end ::
  "env \<Rightarrow> CustomDistilBertModel \<Rightarrow> 'o \<Rightarrow> CustomDistilBertModel exec" where
  "CustomDistilBertModel_test_epoch_end env self outputs =
     call ''self.test_metric.compute''
       (f1_compute env (CustomDistilBertModel.test_metric self)) (\<lambda>v.
     call ''self.log'' (log env self (''test_epoch_'' @ ''F1'') v) ret)"

subsection \<open>The optimizer\<close>

text \<open>
  \<^verbatim>\<open>torch.optim.Adam(params, lr=lr)\<close> checks that the learning rate is a non-negative
  number and that the list of parameters is not empty; it keeps every parameter it is
  given, whether it requires gradients or not.
\<close>

record optimizer =
  param_groups :: "param list"
  lr :: pyval

definition torch_optim_Adam :: "param list \<Rightarrow> pyval \<Rightarrow> error + optimizer" where
  "torch_optim_Adam params rate =
     (case py_num rate of
        None \<Rightarrow> Inl TypeError
      | Some r \<Rightarrow>
          if r < 0 then Inl ValueError
          else if params = [] then Inl ValueError
          else Inr \<lparr>param_groups = params, lr = rate\<rparr>)"

text \<open>\<^verbatim>\<open>configure_optimizers\<close>, lines 119-121, 216-218 and 341-348.\<close>

definition BaseModel_configure_optimizers :: "BaseModel \<Rightarrow> optimizer exec" where
  "BaseModel_configure_optimizers self =
     call ''self.parameters'' (Inr (parameters (BaseModel_named_children self))) (\<lambda>ps.
     call ''torch.optim.Adam'' (torch_optim_Adam ps (learning_rate self)) ret)"

definition BiLSTMModel_configure_optimizers :: "BiLSTMModel \<Rightarrow> optimizer exec" where
  "BiLSTMModel_configure_optimizers self =
     call ''self.parameters'' (Inr (parameters (BiLSTMModel_named_children self))) (\<lambda>ps.
     call ''torch.optim.Adam'' (torch_optim_Adam ps (learning_rate self)) ret)"

definition CustomDistilBertModel_configure_optimizers ::
  "CustomDistilBertModel \<Rightarrow> optimizer exec" where
  "CustomDistilBertModel_configure_optimizers self =
     call ''self.parameters''
       (Inr (parameters (CustomDistilBertModel_named_children self))) (\<lambda>ps.
     call ''torch.optim.Adam'' (torch_optim_Adam ps (learning_rate self)) ret)"

section \<open>A small concrete environment\<close>

text \<open>
  An encoder with one parameter that still requires gradients when it is loaded, a hidden
  size of 2, and a forward pass that returns a hidden state of zeros of shape
  \<open>(bs, seq_len, 2)\<close>; a loader that returns it; no failing framework call; a recurrent
  layer that returns zeros of shape \<open>(bs, seq_len, 2)\<close>.
\<close>

definition zeros :: "nat list \<Rightarrow> real tensor" where
  "zeros s = \<lparr>shape = s, data = replicate (prod_list s) 0\<rparr>"

definition bert_ex :: DistilBertModel where
  "bert_ex =
     \<lparr>bert_parameters = [\<lparr>pdata = \<lparr>shape = [2], data = [1, 2]\<rparr>, requires_grad = True\<rparr>],
      bert_config = \<lparr>vocab_size = 30522, dim = 2, seq_classif_dropout = 1 / 5\<rparr>,
      bert_forward = (\<lambda>ids mask. Inr [zeros (shape ids @ [2])])\<rparr>"

definition env_ex :: env where
  "env_ex =
     \<lparr>create_config = Inr, from_pretrained = (\<lambda>name. Inr bert_ex),
      fails = (\<lambda>n. None), rand = (\<lambda>name i. 1),
      torch_lstm = (\<lambda>ps x. Inr (zeros (butlast (shape x) @ [2]), zeros [], zeros [])),
      torch_argmax1 = (\<lambda>x. Inr \<lparr>shape = take 1 (shape x), data = replicate (hd (shape x)) 0\<rparr>),
      F_cross_entropy = (\<lambda>x y. Inr \<lparr>shape = [], data = [Num 0]\<rparr>),
      mse_compute = (\<lambda>m. Inr \<lparr>shape = [], data = [Num 0]\<rparr>),
      f1_compute = (\<lambda>m. Inr \<lparr>shape = [], data = [Num 0]\<rparr>)\<rparr>"

definition config_ex :: config where
  "config_ex =
     [''learning_rate'' \<mapsto> PFloat (1 / 1000), ''vocab_size'' \<mapsto> PInt 0,
      ''category_encoded_length'' \<mapsto> PInt 3, ''category_encoder_out'' \<mapsto> PInt 2,
      ''embedding_dim'' \<mapsto> PInt 2, ''bilstm_hidden_dim'' \<mapsto> PInt 1]"

text \<open>The same configuration with a vocabulary size that is not 0.\<close>

definition config_ex2 :: config where
  "config_ex2 = config_ex(''vocab_size'' \<mapsto> PInt 100)"

text \<open>The models the three constructors build in this environment.\<close>

definition BaseModel_ex :: BaseModel where
  "BaseModel_ex =
     \<lparr>config = config_ex(''vocab_size'' \<mapsto> PInt 30522), hparams = config_ex,
      learning_rate = PFloat (1 / 1000), training = True, logged = [],
      BaseModel.train_metric = [], BaseModel.val_metric = [], BaseModel.test_metric = [],
      BaseModel.bert = bert_ex\<lparr>bert_parameters :=
        [\<lparr>pdata = \<lparr>shape = [2], data = [1, 2]\<rparr>, requires_grad = False\<rparr>]\<rparr>,
      BaseModel.distilbert_tail =
        Sequential [Linear (new_param env_ex ''distilbert_tail.0.weight'' [2, 2])
                           (new_param env_ex ''distilbert_tail.0.bias'' [2]),
                    ReLU, Dropout (1 / 5)],
      BaseModel.category_encoder =
        Sequential [Linear (new_param env_ex ''category_encoder.0.weight'' [2, 3])
                           (new_param env_ex ''category_encoder.0.bias'' [2]), ReLU],
      BaseModel.classifier =
        Linear (new_param env_ex ''classifier.weight'' [1, 4])
               (new_param env_ex ''classifier.bias'' [1])\<rparr>"

definition BiLSTMModel_ex :: BiLSTMModel where
  "BiLSTMModel_ex =
     \<lparr>config = config_ex, hparams = config_ex,
      learning_rate = PFloat (1 / 1000), training = True, logged = [],
      BiLSTMModel.train_metric = [], BiLSTMModel.val_metric = [],
      embedding = new_param env_ex ''embedding.weight'' [0, 2],
      BiLSTMModel.category_encoder =
        Sequential [Linear (new_param env_ex ''category_encoder.0.weight'' [2, 3])
                           (new_param env_ex ''category_encoder.0.bias'' [2]), ReLU],
      bilstm =
        [new_param env_ex ''bilstm.weight_ih_l0'' [4, 2],
         new_param env_ex ''bilstm.weight_hh_l0'' [4, 1],
         new_param env_ex ''bilstm.bias_ih_l0'' [4],
         new_param env_ex ''bilstm.bias_hh_l0'' [4],
         new_param env_ex ''bilstm.weight_ih_l0_reverse'' [4, 2],
         new_param env_ex ''bilstm.weight_hh_l0_reverse'' [4, 1],
         new_param env_ex ''bilstm.bias_ih_l0_reverse'' [4],
         new_param env_ex ''bilstm.bias_hh_l0_reverse'' [4]],
      BiLSTMModel.classifier =
        Linear (new_param env_ex ''classifier.weight'' [1, 4])
               (new_param env_ex ''classifier.bias'' [1])\<rparr>"

definition CustomDistilBertModel_ex :: CustomDistilBertModel where
  "CustomDistilBertModel_ex =
     \<lparr>config = config_ex(''vocab_size'' \<mapsto> PInt 30522), hparams = config_ex,
      learning_rate = PFloat (1 / 1000), training = True, logged = [],
      num_classes = 4,
      CustomDistilBertModel.train_metric = [], CustomDistilBertModel.val_metric = [],
      CustomDistilBertModel.test_metric = [],
      CustomDistilBertModel.bert = bert_ex\<lparr>bert_parameters :=
        [\<lparr>pdata = \<lparr>shape = [2], data = [1, 2]\<rparr>, requires_grad = False\<rparr>]\<rparr>,
      CustomDistilBertModel.distilbert_tail =
        Sequential [Linear (new_param env_ex ''distilbert_tail.0.weight'' [2, 2])
                           (new_param env_ex ''distilbert_tail.0.bias'' [2]),
                    ReLU, Dropout (1 / 5)],
      CustomDistilBertModel.classifier =
        Linear (new_param env_ex ''classifier.weight'' [4, 2])
               (new_param env_ex ''classifier.bias'' [4])\<rparr>"

text \<open>The exceptions that calls raised during an execution, in order.\<close>

fun raised :: "event list \<Rightarrow> error list" where
  "raised [] = []"
| "raised (Call n (Some e) # tr) = e # raised tr"
| "raised (Call n None # tr) = raised tr"
| "raised (Assign n # tr) = raised tr"

fun is_assign :: "event \<Rightarrow> bool" where
  "is_assign (Assign n) = True"
| "is_assign (Call n r) = False"

text \<open>Nothing is assigned after a call has raised.\<close>

fun silent_after_raise :: "event list \<Rightarrow> bool" where
  "silent_after_raise [] = True"
| "silent_after_raise (Call n (Some e) # tr) = (filter is_assign tr = [])"
| "silent_after_raise (Call n None # tr) = silent_after_raise tr"
| "silent_after_raise (Assign n # tr) = silent_after_raise tr"

text \<open>
  An execution propagates exceptions when the exception it ends with is the one a call
  raised, no other call raised one (nothing was caught, replaced or retried), a normal
  return means that no call raised, and nothing is assigned after the call that raised.
\<close>

definition propagates :: "'a exec \<Rightarrow> bool" where
  "propagates c =
     (raised (fst c) = (case snd c of Inl e \<Rightarrow> [e] | Inr x \<Rightarrow> []) \<and>
      silent_after_raise (fst c))"

text \<open>A batch of two texts of three tokens each, with three categorical features and a
  target score per text.\<close>

definition encoded_ex :: "string \<rightharpoonup> int tensor" where
  "encoded_ex =
     [''input_ids'' \<mapsto> \<lparr>shape = [2, 3], data = [101, 7, 102, 101, 8, 102]\<rparr>,
      ''attention_mask'' \<mapsto> \<lparr>shape = [2, 3], data = [1, 1, 1, 1, 1, 1]\<rparr>]"

definition cats_ex :: "real tensor" where
  "cats_ex = \<lparr>shape = [2, 3], data = [1, 0, 0, 0, 1, 0]\<rparr>"

definition y_ex :: "real tensor" where
  "y_ex = \<lparr>shape = [2], data = [1 / 2, 3]\<rparr>"

text \<open>An environment in which the pretrained weights cannot be loaded, and one in which
  moving the targets to the device fails.\<close>

definition env_no_weights :: env where
  "env_no_weights = env_ex\<lparr>from_pretrained := (\<lambda>name. Inl OSError)\<rparr>"

definition env_no_device :: env where
  "env_no_device = env_ex\<lparr>fails := (\<lambda>n. if n = ''y.to'' then Some RuntimeError else None)\<rparr>"

text \<open>
  The operations of the methods in the order of the source text. The constructors of the
  two encoder-based classes take two arguments: whether \<^verbatim>\<open>config["vocab_size"] == 0\<close> held,
  and the number of parameters of the encoder.
\<close>

definition init_config_ops :: "event list" where
  "init_config_ops =
     [Call ''super().__init__'' None, Call ''create_config'' None, Assign ''self.config'',
      Call ''self.save_hyperparameters'' None, Call ''config[learning_rate]'' None,
      Assign ''self.learning_rate'']"

definition encoder_ops :: "bool \<Rightarrow> nat \<Rightarrow> event list" where
  "encoder_ops vocab_size_is_0 n =
     [Call ''DistilBertModel.from_pretrained'' None, Assign ''self.bert'',
      Call ''self.config[vocab_size]'' None] @
     (if vocab_size_is_0 then [Assign ''self.config[vocab_size]''] else []) @
     replicate n (Assign ''param.requires_grad'') @
     [Call ''nn.Linear'' None, Call ''nn.ReLU'' None, Call ''nn.Dropout'' None,
      Call ''nn.Sequential'' None, Assign ''self.distilbert_tail'']"

definition category_encoder_ops :: "event list" where
  "category_encoder_ops =
     [Call ''config[category_encoded_length]'' None, Call ''config[category_encoder_out]'' None,
      Call ''nn.Linear'' None, Call ''nn.ReLU'' None, Call ''nn.Sequential'' None,
      Assign ''self.category_encoder'']"

definition BaseModel_init_ops :: "bool \<Rightarrow> nat \<Rightarrow> event list" where
  "BaseModel_init_ops vocab_size_is_0 n =
     init_config_ops @
     [Call ''torchmetrics.MeanSquaredError'' None, Assign ''self.train_metric'',
      Call ''torchmetrics.MeanSquaredError'' None, Assign ''self.val_metric'',
      Call ''torchmetrics.MeanSquaredError'' None, Assign ''self.test_metric''] @
     encoder_ops vocab_size_is_0 n @ category_encoder_ops @
     [Call ''config[category_encoder_out]'' None, Call ''+'' None, Call ''nn.Linear'' None,
      Assign ''self.classifier'']"

definition BiLSTMModel_init_ops :: "event list" where
  "BiLSTMModel_init_ops =
     init_config_ops @
     [Call ''pl.metrics.MeanSquaredError'' None, Assign ''self.train_metric'',
      Call ''pl.metrics.MeanSquaredError'' None, Assign ''self.val_metric'',
      Call ''config[vocab_size]'' None, Call ''config[embedding_dim]'' None,
      Call ''nn.Embedding'' None, Assign ''self.embedding''] @
     category_encoder_ops @
     [Call ''config[embedding_dim]'' None, Call ''config[bilstm_hidden_dim]'' None,
      Call ''nn.LSTM'' None, Assign ''self.bilstm'',
      Call ''config[bilstm_hidden_dim]'' None, Call ''*'' None,
      Call ''config[category_encoder_out]'' None, Call ''+'' None, Call ''nn.Linear'' None,
      Assign ''self.classifier'']"

definition CustomDistilBertModel_init_ops :: "bool \<Rightarrow> nat \<Rightarrow> event list" where
  "CustomDistilBertModel_init_ops vocab_size_is_0 n =
     init_config_ops @
     [Assign ''self.num_classes'',
      Call ''torchmetrics.F1'' None, Assign ''self.train_metric'',
      Call ''torchmetrics.F1'' None, Assign ''self.val_metric'',
      Call ''torchmetrics.F1'' None, Assign ''self.test_metric''] @
     encoder_ops vocab_size_is_0 n @
     [Call ''nn.Linear'' None, Assign ''self.classifier'']"

definition BaseModel_forward_ops :: "event list" where
  "BaseModel_forward_ops =
     [Call ''encoded_text[input_ids]'' None, Call ''encoded_text[attention_mask]'' None,
      Call ''self.bert'' None, Call ''bert_output[0]'' None, Call ''hidden_state[:, 0]'' None,
      Call ''self.distilbert_tail'' None, Call ''self.category_encoder'' None,
      Call ''torch.cat'' None, Call ''self.classifier'' None]"

definition BiLSTMModel_forward_ops :: "event list" where
  "BiLSTMModel_forward_ops =
     [Call ''self.embedding'' None, Call ''self.bilstm'' None,
      Call ''self.category_encoder'' None, Call ''lstm_out.shape[1]'' None,
      Call ''lstm_out[:, n - 1, :]'' None, Call ''torch.cat'' None,
      Call ''self.classifier'' None]"

definition CustomDistilBertModel_forward_ops :: "event list" where
  "CustomDistilBertModel_forward_ops =
     [Call ''torch.no_grad.__enter__'' None,
      Call ''encoded_text[input_ids]'' None, Call ''encoded_text[attention_mask]'' None,
      Call ''self.bert'' None, Call ''torch.no_grad.__exit__'' None,
      Call ''bert_output[0]'' None, Call ''hidden_state[:, 0]'' None,
      Call ''self.distilbert_tail'' None, Call ''self.classifier'' None]"

text \<open>An execution that returns normally has performed exactly the operations \<open>tr\<close>.\<close>

definition performs :: "event list \<Rightarrow> 'a exec \<Rightarrow> bool" where
  "performs tr c = (case snd c of Inl e \<Rightarrow> True | Inr x \<Rightarrow> fst c = tr)"

text \<open>The token ids of the example batch, and the recurrent model built from the
  configuration with a vocabulary of 100 entries.\<close>

definition ids_ex :: "int tensor" where
  "ids_ex = \<lparr>shape = [2, 3], data = [5, 7, 9, 5, 8, 9]\<rparr>"

definition BiLSTMModel_ex2 :: BiLSTMModel where
  "BiLSTMModel_ex2 =
     BiLSTMModel_ex\<lparr>config := config_ex2, hparams := config_ex2,
       embedding := new_param env_ex ''embedding.weight'' [100, 2]\<rparr>"


text \<open>
  A second environment: the encoder's hidden vector for a token is the token id followed
  by 1, and a new parameter holds the numbers 1, 2, 3, \<dots>
\<close>

definition bert_ex3 :: DistilBertModel where
  "bert_ex3 =
     bert_ex\<lparr>bert_forward := (\<lambda>ids mask.
       Inr [\<lparr>shape = shape ids @ [2],
             data = concat (map (\<lambda>i. [real_of_int i, 1]) (data ids))\<rparr>])\<rparr>"

definition env_ex3 :: env where
  "env_ex3 = env_ex\<lparr>from_pretrained := (\<lambda>name. Inr bert_ex3), rand := (\<lambda>name i. real (i + 1))\<rparr>"

definition encoded_ex3 :: "string \<rightharpoonup> int tensor" where
  "encoded_ex3 =
     [''input_ids'' \<mapsto> \<lparr>shape = [2, 3], data = [1, 7, 2, 3, 8, 2]\<rparr>,
      ''attention_mask'' \<mapsto> \<lparr>shape = [2, 3], data = [1, 1, 1, 1, 1, 1]\<rparr>]"

definition hidden_ex3 :: "real tensor" where
  "hidden_ex3 = \<lparr>shape = [2, 3, 2], data = [1, 1, 7, 1, 2, 1, 3, 1, 8, 1, 2, 1]\<rparr>"

definition BaseModel_ex3 :: BaseModel where
  "BaseModel_ex3 =
     \<lparr>config = config_ex(''vocab_size'' \<mapsto> PInt 30522), hparams = config_ex,
      learning_rate = PFloat (1 / 1000), training = True, logged = [],
      BaseModel.train_metric = [], BaseModel.val_metric = [], BaseModel.test_metric = [],
      BaseModel.bert = bert_ex3\<lparr>bert_parameters :=
        [\<lparr>pdata = \<lparr>shape = [2], data = [1, 2]\<rparr>, requires_grad = False\<rparr>]\<rparr>,
      BaseModel.distilbert_tail =
        Sequential [Linear (new_param env_ex3 ''distilbert_tail.0.weight'' [2, 2])
                           (new_param env_ex3 ''distilbert_tail.0.bias'' [2]),
                    ReLU, Dropout (1 / 5)],
      BaseModel.category_encoder =
        Sequential [Linear (new_param env_ex3 ''category_encoder.0.weight'' [2, 3])
                           (new_param env_ex3 ''category_encoder.0.bias'' [2]), ReLU],
      BaseModel.classifier =
        Linear (new_param env_ex3 ''classifier.weight'' [1, 4])
               (new_param env_ex3 ''classifier.bias'' [1])\<rparr>"

section \<open>Basic facts about executions\<close>

lemma snd_ret [simp]: "snd (ret x) = Inr x"
  by (simp add: ret_def)

lemma fst_ret [simp]: "fst (ret x) = []"
  by (simp add: ret_def)

lemma snd_assign [simp]: "snd (assign n c) = snd c"
  by (simp add: assign_def)

lemma fst_assign [simp]: "fst (assign n c) = Assign n # fst c"
  by (simp add: assign_def)

lemma call_Inr [simp]:
  "snd (call n (Inr x) k) = snd (k x)" "fst (call n (Inr x) k) = Call n None # fst (k x)"
  by (simp_all add: call_def)

lemma call_Inl [simp]:
  "snd (call n (Inl e) k) = Inl e" "fst (call n (Inl e) k) = [Call n (Some e)]"
  by (simp_all add: call_def)

lemma bind_exec_Inr:
  "snd c = Inr x \<Longrightarrow> snd (bind_exec c k) = snd (k x)"
  "snd c = Inr x \<Longrightarrow> fst (bind_exec c k) = fst c @ fst (k x)"
  by (simp_all add: bind_exec_def)

lemma bind_exec_Inl:
  "snd c = Inl e \<Longrightarrow> snd (bind_exec c k) = Inl e"
  "snd c = Inl e \<Longrightarrow> fst (bind_exec c k) = fst c"
  by (simp_all add: bind_exec_def)

lemma getitem_Inr [simp]: "getitem d k = Inr v \<longleftrightarrow> d k = Some v"
  by (simp add: getitem_def split: option.splits)

lemma getitem_Some [simp]: "d k = Some v \<Longrightarrow> getitem d k = Inr v"
  by simp

lemma ext_Inr [simp]: "ext env n v = Inr x \<longleftrightarrow> fails env n = None \<and> x = v"
  by (auto simp: ext_def split: option.splits)

lemma ext_None [simp]: "fails env n = None \<Longrightarrow> ext env n v = Inr v"
  by (simp add: ext_def)

lemma call_InrE:
  assumes "snd (call n r k) = Inr y"
  obtains x where "r = Inr x" and "snd (k x) = Inr y"
  using assms by (cases r) simp_all

lemma bind_InrE:
  assumes "snd (bind_exec c k) = Inr y"
  obtains x where "snd c = Inr x" and "snd (k x) = Inr y"
  using assms by (cases "snd c") (simp_all add: bind_exec_def)

lemma assign_InrE:
  assumes "snd (assign n c) = Inr y"
  obtains "snd c = Inr y"
  using assms by simp

lemma snd_freeze [simp]:
  "snd (freeze ps) = Inr (map (\<lambda>p. p\<lparr>requires_grad := False\<rparr>) ps)"
  by (induction ps) (simp_all add: bind_exec_Inr)

lemma fst_freeze [simp]:
  "fst (freeze ps) = replicate (length ps) (Assign ''param.requires_grad'')"
  by (induction ps) (simp_all add: bind_exec_Inr)

text \<open>What a successful run of the shared pieces of the constructors tells.\<close>

lemma set_vocab_size_InrE:
  assumes "snd (set_vocab_size cfg b) = Inr cfg'"
  obtains v where "cfg ''vocab_size'' = Some v"
    and "cfg' = (if py_eq_int v 0
                 then cfg(''vocab_size'' \<mapsto> PInt (vocab_size (bert_config b))) else cfg)"
proof -
  from assms obtain v where v: "getitem cfg ''vocab_size'' = Inr v"
    and r: "snd (if py_eq_int v 0
            then assign ''self.config[vocab_size]''
               (ret (cfg(''vocab_size'' \<mapsto> PInt (vocab_size (bert_config b)))))
            else ret cfg) = Inr cfg'"
    unfolding set_vocab_size_def by (rule call_InrE)
  from r have "cfg' = (if py_eq_int v 0
                 then cfg(''vocab_size'' \<mapsto> PInt (vocab_size (bert_config b))) else cfg)"
    by (cases "py_eq_int v 0") simp_all
  with v show thesis by (intro that[of v]) simp_all
qed

lemma init_config_InrE:
  assumes "snd (init_config env c k) = Inr y"
  obtains cfg lr where "fails env ''super().__init__'' = None"
    and "create_config env c = Inr cfg"
    and "fails env ''self.save_hyperparameters'' = None"
    and "cfg ''learning_rate'' = Some lr"
    and "snd (k cfg cfg lr) = Inr y"
  using assms unfolding init_config_def
  by (elim call_InrE assign_InrE) simp

lemma make_distilbert_tail_InrE:
  assumes "snd (make_distilbert_tail env b k) = Inr y"
  obtains lin drop where
    "nn_Linear env ''distilbert_tail.0'' (PInt (dim (bert_config b))) (PInt (dim (bert_config b)))
       = Inr lin"
    and "fails env ''nn.ReLU'' = None"
    and "nn_Dropout (seq_classif_dropout (bert_config b)) = Inr drop"
    and "fails env ''nn.Sequential'' = None"
    and "snd (k (Sequential [lin, ReLU, drop])) = Inr y"
  using assms unfolding make_distilbert_tail_def
  by (elim call_InrE assign_InrE) simp

lemma make_category_encoder_InrE:
  assumes "snd (make_category_encoder env cfg k) = Inr y"
  obtains cel ceo lin where "cfg ''category_encoded_length'' = Some cel"
    and "cfg ''category_encoder_out'' = Some ceo"
    and "nn_Linear env ''category_encoder.0'' cel ceo = Inr lin"
    and "fails env ''nn.ReLU'' = None"
    and "fails env ''nn.Sequential'' = None"
    and "snd (k (Sequential [lin, ReLU])) = Inr y"
  using assms unfolding make_category_encoder_def
  by (elim call_InrE assign_InrE) simp

lemma nn_Linear_InrE:
  assumes "nn_Linear env name a b = Inr l"
  obtains i out where "as_size a = Inr i" and "as_size b = Inr out"
    and "l = Linear (new_param env (name @ ''.weight'') [out, i])
                    (new_param env (name @ ''.bias'') [out])"
  using assms by (auto simp: nn_Linear_def split: sum.splits)

lemma nn_Dropout_InrE:
  assumes "nn_Dropout p = Inr l"
  obtains "0 \<le> p" and "p \<le> 1" and "l = Dropout p"
  using assms by (auto simp: nn_Dropout_def split: if_splits)

lemma BaseModel_init_InrE:
  assumes "snd (BaseModel_init env c) = Inr m"
  obtains cfg lr b v cfg' lin drop cel ceo elin n cls where
    "create_config env c = Inr cfg" and "cfg ''learning_rate'' = Some lr"
    and "from_pretrained env ''distilbert-base-uncased'' = Inr b"
    and "cfg ''vocab_size'' = Some v"
    and "cfg' = (if py_eq_int v 0
                 then cfg(''vocab_size'' \<mapsto> PInt (vocab_size (bert_config b))) else cfg)"
    and "nn_Linear env ''distilbert_tail.0''
           (PInt (dim (bert_config b))) (PInt (dim (bert_config b))) = Inr lin"
    and "nn_Dropout (seq_classif_dropout (bert_config b)) = Inr drop"
    and "fails env ''super().__init__'' = None"
    and "fails env ''self.save_hyperparameters'' = None"
    and "fails env ''torchmetrics.MeanSquaredError'' = None"
    and "fails env ''nn.ReLU'' = None" and "fails env ''nn.Sequential'' = None"
    and "cfg' ''category_encoded_length'' = Some cel"
    and "cfg' ''category_encoder_out'' = Some ceo"
    and "nn_Linear env ''category_encoder.0'' cel ceo = Inr elin"
    and "py_add (PInt (hidden_size (bert_config b))) ceo = Inr n"
    and "nn_Linear env ''classifier'' n (PInt 1) = Inr cls"
    and "m = \<lparr>config = cfg', hparams = cfg, learning_rate = lr, training = True, logged = [],
          BaseModel.train_metric = [], BaseModel.val_metric = [],
          BaseModel.test_metric = [],
          BaseModel.bert = b\<lparr>bert_parameters :=
             map (\<lambda>p. p\<lparr>requires_grad := False\<rparr>) (bert_parameters b)\<rparr>,
          BaseModel.distilbert_tail = Sequential [lin, ReLU, drop],
          BaseModel.category_encoder = Sequential [elin, ReLU],
          BaseModel.classifier = cls\<rparr>"
  using assms unfolding BaseModel_init_def
  apply (elim init_config_InrE call_InrE bind_InrE set_vocab_size_InrE assign_InrE
      make_distilbert_tail_InrE make_category_encoder_InrE)
  apply (simp only: snd_ret snd_freeze sum.inject ext_Inr getitem_Inr)
  apply (elim conjE)
  apply hypsubst
  apply (simp only: option.inject)
  done

lemma BiLSTMModel_init_InrE:
  assumes "snd (BiLSTMModel_init env c) = Inr m"
  obtains cfg lr vs ed emb cel ceo elin hdim lstm hdim2 n cls where
    "create_config env c = Inr cfg" and "cfg ''learning_rate'' = Some lr"
    and "fails env ''super().__init__'' = None"
    and "fails env ''self.save_hyperparameters'' = None"
    and "fails env ''pl.metrics.MeanSquaredError'' = None"
    and "fails env ''nn.ReLU'' = None" and "fails env ''nn.Sequential'' = None"
    and "cfg ''vocab_size'' = Some vs" and "cfg ''embedding_dim'' = Some ed"
    and "nn_Embedding env ''embedding'' vs ed = Inr emb"
    and "cfg ''category_encoded_length'' = Some cel"
    and "cfg ''category_encoder_out'' = Some ceo"
    and "nn_Linear env ''category_encoder.0'' cel ceo = Inr elin"
    and "cfg ''bilstm_hidden_dim'' = Some hdim"
    and "nn_LSTM env ''bilstm'' ed hdim = Inr lstm"
    and "py_mul_nat hdim 2 = Inr hdim2"
    and "py_add hdim2 ceo = Inr n"
    and "nn_Linear env ''classifier'' n (PInt 1) = Inr cls"
    and "m = \<lparr>config = cfg, hparams = cfg, learning_rate = lr, training = True, logged = [],
          BiLSTMModel.train_metric = [], BiLSTMModel.val_metric = [],
          embedding = emb, BiLSTMModel.category_encoder = Sequential [elin, ReLU],
          bilstm = lstm, BiLSTMModel.classifier = cls\<rparr>"
  using assms unfolding BiLSTMModel_init_def
  apply (elim init_config_InrE call_InrE bind_InrE assign_InrE make_category_encoder_InrE)
  apply (simp only: snd_ret sum.inject ext_Inr getitem_Inr)
  apply (elim conjE)
  apply hypsubst
  apply (simp only: option.inject)
  done

lemma CustomDistilBertModel_init_InrE:
  assumes "snd (CustomDistilBertModel_init env c) = Inr m"
  obtains cfg lr b v cfg' lin drop cls where
    "create_config env c = Inr cfg" and "cfg ''learning_rate'' = Some lr"
    and "fails env ''super().__init__'' = None"
    and "fails env ''self.save_hyperparameters'' = None"
    and "fails env ''torchmetrics.F1'' = None"
    and "fails env ''nn.ReLU'' = None" and "fails env ''nn.Sequential'' = None"
    and "from_pretrained env ''distilbert-base-uncased'' = Inr b"
    and "cfg ''vocab_size'' = Some v"
    and "cfg' = (if py_eq_int v 0
                 then cfg(''vocab_size'' \<mapsto> PInt (vocab_size (bert_config b))) else cfg)"
    and "nn_Linear env ''distilbert_tail.0''
           (PInt (dim (bert_config b))) (PInt (dim (bert_config b))) = Inr lin"
    and "nn_Dropout (seq_classif_dropout (bert_config b)) = Inr drop"
    and "nn_Linear env ''classifier'' (PInt (hidden_size (bert_config b))) (PInt 4) = Inr cls"
    and "m = \<lparr>config = cfg', hparams = cfg, learning_rate = lr, training = True, logged = [],
          num_classes = 4,
          CustomDistilBertModel.train_metric = [], CustomDistilBertModel.val_metric = [],
          CustomDistilBertModel.test_metric = [],
          CustomDistilBertModel.bert = b\<lparr>bert_parameters :=
             map (\<lambda>p. p\<lparr>requires_grad := False\<rparr>) (bert_parameters b)\<rparr>,
          CustomDistilBertModel.distilbert_tail = Sequential [lin, ReLU, drop],
          CustomDistilBertModel.classifier = cls\<rparr>"
  using assms unfolding CustomDistilBertModel_init_def Let_def
  apply (elim init_config_InrE call_InrE bind_InrE set_vocab_size_InrE assign_InrE
      make_distilbert_tail_InrE)
  apply (simp only: snd_ret snd_freeze sum.inject ext_Inr getitem_Inr)
  apply (elim conjE)
  apply hypsubst
  apply (simp only: of_nat_numeral)
  done

lemma new_param_requires_grad [simp]: "requires_grad (new_param env name s)"
  by (simp add: new_param_def)

lemmas init_eval =
  init_config_def set_vocab_size_def make_distilbert_tail_def make_category_encoder_def
  nn_Linear_def nn_Dropout_def nn_Embedding_def nn_LSTM_def getitem_def ext_def
  py_eq_int_def hidden_size_def bind_exec_Inr Let_def

lemma BaseModel_init_ex:
  "\<exists>m. snd (BaseModel_init env_ex config_ex) = Inr m"
  by (simp add: BaseModel_init_def init_eval env_ex_def config_ex_def bert_ex_def)

lemma BiLSTMModel_init_ex:
  "\<exists>m. snd (BiLSTMModel_init env_ex config_ex) = Inr m"
  by (simp add: BiLSTMModel_init_def init_eval env_ex_def config_ex_def bert_ex_def)

lemma CustomDistilBertModel_init_ex:
  "\<exists>m. snd (CustomDistilBertModel_init env_ex config_ex) = Inr m"
  by (simp add: CustomDistilBertModel_init_def init_eval env_ex_def config_ex_def bert_ex_def)

lemma BaseModel_init_ex2: "\<exists>m. snd (BaseModel_init env_ex config_ex2) = Inr m"
  by (simp add: BaseModel_init_def init_eval env_ex_def config_ex_def config_ex2_def bert_ex_def)

lemma CustomDistilBertModel_init_ex2:
  "\<exists>m. snd (CustomDistilBertModel_init env_ex config_ex2) = Inr m"
  by (simp add: CustomDistilBertModel_init_def init_eval env_ex_def config_ex_def
      config_ex2_def bert_ex_def)

lemma env_ex_simps [simp]:
  "create_config env_ex = Inr" "from_pretrained env_ex name = Inr bert_ex"
  "fails env_ex n = None"
  by (simp_all add: env_ex_def)

lemma config_ex_simps [simp]:
  "config_ex ''learning_rate'' = Some (PFloat (1 / 1000))"
  "config_ex ''vocab_size'' = Some (PInt 0)"
  "config_ex ''category_encoded_length'' = Some (PInt 3)"
  "config_ex ''category_encoder_out'' = Some (PInt 2)"
  "config_ex ''embedding_dim'' = Some (PInt 2)"
  "config_ex ''bilstm_hidden_dim'' = Some (PInt 1)"
  by (simp_all add: config_ex_def)

lemma bert_ex_simps [simp]:
  "bert_config bert_ex = \<lparr>vocab_size = 30522, dim = 2, seq_classif_dropout = 1 / 5\<rparr>"
  "bert_parameters bert_ex = [\<lparr>pdata = \<lparr>shape = [2], data = [1, 2]\<rparr>, requires_grad = True\<rparr>]"
  by (simp_all add: bert_ex_def)

lemmas init_eval' =
  init_config_def set_vocab_size_def make_distilbert_tail_def make_category_encoder_def
  nn_Linear_def nn_Dropout_def nn_Embedding_def nn_LSTM_def
  py_eq_int_def hidden_size_def bind_exec_Inr Let_def

lemma BaseModel_init_ex_eq: "snd (BaseModel_init env_ex config_ex) = Inr BaseModel_ex"
  by (simp add: BaseModel_init_def init_eval' BaseModel_ex_def)

lemma BiLSTMModel_init_ex_eq: "snd (BiLSTMModel_init env_ex config_ex) = Inr BiLSTMModel_ex"
  by (simp add: BiLSTMModel_init_def init_eval' BiLSTMModel_ex_def)

lemma CustomDistilBertModel_init_ex_eq:
  "snd (CustomDistilBertModel_init env_ex config_ex) = Inr CustomDistilBertModel_ex"
  by (simp add: CustomDistilBertModel_init_def init_eval' CustomDistilBertModel_ex_def)

lemma torch_optim_Adam_nonempty:
  "params \<noteq> [] \<Longrightarrow>
   torch_optim_Adam params rate =
     (case py_num rate of
        None \<Rightarrow> Inl TypeError
      | Some r \<Rightarrow> if r < 0 then Inl ValueError
                  else Inr \<lparr>param_groups = params, lr = rate\<rparr>)"
  by (simp add: torch_optim_Adam_def split: option.splits)

lemma shape_new_param [simp]: "shape (pdata (new_param env name s)) = s"
  by (simp add: new_param_def)

lemma length_data_new_param [simp]: "length (data (pdata (new_param env name s))) = prod_list s"
  by (simp add: new_param_def)

lemma as_size_PInt_Inr: "as_size (PInt j) = Inr i \<Longrightarrow> j = int i"
  by (auto split: if_splits)

lemma as_size_py_int: "as_size a = Inr i \<Longrightarrow> py_int a = Some (int i)"
  by (cases a) (auto split: if_splits)

lemma py_add_size:
  assumes "py_int a = Some (int i)" and "as_size b = Inr j" and "py_add a b = Inr n"
    and "as_size n = Inr k"
  shows "k = i + j"
  using assms by (cases a; cases b) (auto split: if_splits)

lemma py_mul_nat_size:
  assumes "as_size a = Inr i" and "py_mul_nat a n = Inr m"
  shows "py_int m = Some (int (i * n))"
  using assms by (cases a) (auto split: if_splits)

lemma config_size_Some:
  "cfg k = Some v \<Longrightarrow> as_size v = Inr n \<Longrightarrow> config_size cfg k = Some n"
  by (simp add: config_size_def)

lemma as_size_int [simp]: "as_size (PInt (int i)) = Inr i"
  by simp

lemma nn_Embedding_InrE:
  assumes "nn_Embedding env name a b = Inr w"
  obtains v d where "as_size a = Inr v" and "as_size b = Inr d"
    and "w = new_param env (name @ ''.weight'') [v, d]"
  using assms by (auto simp: nn_Embedding_def split: sum.splits)

lemma nn_LSTM_InrE:
  assumes "nn_LSTM env name a b = Inr ps"
  obtains i h where "as_size a = Inr i" and "as_size b = Inr h" and "0 < h"
    and "ps = [new_param env (name @ ''.weight_ih_l0'') [4 * h, i],
               new_param env (name @ ''.weight_hh_l0'') [4 * h, h],
               new_param env (name @ ''.bias_ih_l0'') [4 * h],
               new_param env (name @ ''.bias_hh_l0'') [4 * h],
               new_param env (name @ ''.weight_ih_l0_reverse'') [4 * h, i],
               new_param env (name @ ''.weight_hh_l0_reverse'') [4 * h, h],
               new_param env (name @ ''.bias_ih_l0_reverse'') [4 * h],
               new_param env (name @ ''.bias_hh_l0_reverse'') [4 * h]]"
proof -
  from assms obtain hs i where hs: "py_int b = Some hs" "0 < hs" and i: "as_size a = Inr i"
    and ps: "ps = [new_param env (name @ ''.weight_ih_l0'') [4 * nat hs, i],
               new_param env (name @ ''.weight_hh_l0'') [4 * nat hs, nat hs],
               new_param env (name @ ''.bias_ih_l0'') [4 * nat hs],
               new_param env (name @ ''.bias_hh_l0'') [4 * nat hs],
               new_param env (name @ ''.weight_ih_l0_reverse'') [4 * nat hs, i],
               new_param env (name @ ''.weight_hh_l0_reverse'') [4 * nat hs, nat hs],
               new_param env (name @ ''.bias_ih_l0_reverse'') [4 * nat hs],
               new_param env (name @ ''.bias_hh_l0_reverse'') [4 * nat hs]]"
    by (auto simp: nn_LSTM_def Let_def split: sum.splits option.splits if_splits)
  from hs have "as_size b = Inr (nat hs)" "0 < nat hs"
    by (cases b; auto split: if_splits)+
  with i ps show thesis by (intro that[of i "nat hs"])
qed

text \<open>The layers a successful construction has built, with their sizes.\<close>

lemma BaseModel_init_layersE:
  assumes "snd (BaseModel_init env c) = Inr m"
  obtains b d cel ceo where
    "from_pretrained env ''distilbert-base-uncased'' = Inr b"
    and "dim (bert_config b) = int d"
    and "bert_config (BaseModel.bert m) = bert_config b"
    and "bert_forward (BaseModel.bert m) = bert_forward b"
    and "config_size (config m) ''category_encoded_length'' = Some cel"
    and "config_size (config m) ''category_encoder_out'' = Some ceo"
    and "BaseModel.distilbert_tail m =
           Sequential [Linear (new_param env ''distilbert_tail.0.weight'' [d, d])
                              (new_param env ''distilbert_tail.0.bias'' [d]),
                       ReLU, Dropout (seq_classif_dropout (bert_config b))]"
    and "BaseModel.category_encoder m =
           Sequential [Linear (new_param env ''category_encoder.0.weight'' [ceo, cel])
                              (new_param env ''category_encoder.0.bias'' [ceo]), ReLU]"
    and "BaseModel.classifier m =
           Linear (new_param env ''classifier.weight'' [1, d + ceo])
                  (new_param env ''classifier.bias'' [1])"
    and "training m"
proof -
  from assms obtain cfg lr b v cfg' lin drop cel ceo elin n cls where
    b: "from_pretrained env ''distilbert-base-uncased'' = Inr b"
    and lin: "nn_Linear env ''distilbert_tail.0''
           (PInt (dim (bert_config b))) (PInt (dim (bert_config b))) = Inr lin"
    and drop: "nn_Dropout (seq_classif_dropout (bert_config b)) = Inr drop"
    and cel: "cfg' ''category_encoded_length'' = Some cel"
    and ceo: "cfg' ''category_encoder_out'' = Some ceo"
    and elin: "nn_Linear env ''category_encoder.0'' cel ceo = Inr elin"
    and add: "py_add (PInt (hidden_size (bert_config b))) ceo = Inr n"
    and cls: "nn_Linear env ''classifier'' n (PInt 1) = Inr cls"
    and m: "m = \<lparr>config = cfg', hparams = cfg, learning_rate = lr, training = True, logged = [],
          BaseModel.train_metric = [], BaseModel.val_metric = [],
          BaseModel.test_metric = [],
          BaseModel.bert = b\<lparr>bert_parameters :=
             map (\<lambda>p. p\<lparr>requires_grad := False\<rparr>) (bert_parameters b)\<rparr>,
          BaseModel.distilbert_tail = Sequential [lin, ReLU, drop],
          BaseModel.category_encoder = Sequential [elin, ReLU],
          BaseModel.classifier = cls\<rparr>"
    by (rule BaseModel_init_InrE)
  from lin obtain d d' where d0: "as_size (PInt (dim (bert_config b))) = Inr d"
    and d0': "as_size (PInt (dim (bert_config b))) = Inr d'"
    and lin': "lin = Linear (new_param env (''distilbert_tail.0'' @ ''.weight'') [d', d])
                    (new_param env (''distilbert_tail.0'' @ ''.bias'') [d'])"
    by (rule nn_Linear_InrE)
  from d0 d0' have dd: "d' = d" by simp
  from d0 have d: "dim (bert_config b) = int d" by (rule as_size_PInt_Inr)
  from drop have drop': "drop = Dropout (seq_classif_dropout (bert_config b))"
    by (rule nn_Dropout_InrE)
  from elin obtain celn ceon where celn: "as_size cel = Inr celn"
    and ceon: "as_size ceo = Inr ceon"
    and elin': "elin = Linear (new_param env (''category_encoder.0'' @ ''.weight'') [ceon, celn])
                    (new_param env (''category_encoder.0'' @ ''.bias'') [ceon])"
    by (rule nn_Linear_InrE)
  from cls obtain i one where i: "as_size n = Inr i" and one: "as_size (PInt 1) = Inr one"
    and cls': "cls = Linear (new_param env (''classifier'' @ ''.weight'') [one, i])
                    (new_param env (''classifier'' @ ''.bias'') [one])"
    by (rule nn_Linear_InrE)
  from one have one': "one = 1" by simp
  from d have "py_int (PInt (hidden_size (bert_config b))) = Some (int d)"
    by (simp add: hidden_size_def)
  from this ceon add i have i': "i = d + ceon" by (rule py_add_size)
  show thesis
  proof (rule that[of b d celn ceon])
    show "from_pretrained env ''distilbert-base-uncased'' = Inr b" by (rule b)
    show "dim (bert_config b) = int d" by (rule d)
    show "bert_config (BaseModel.bert m) = bert_config b" by (simp add: m)
    show "bert_forward (BaseModel.bert m) = bert_forward b" by (simp add: m)
    show "config_size (config m) ''category_encoded_length'' = Some celn"
      using cel celn by (simp add: m config_size_def)
    show "config_size (config m) ''category_encoder_out'' = Some ceon"
      using ceo ceon by (simp add: m config_size_def)
    show "BaseModel.distilbert_tail m =
           Sequential [Linear (new_param env ''distilbert_tail.0.weight'' [d, d])
                              (new_param env ''distilbert_tail.0.bias'' [d]),
                       ReLU, Dropout (seq_classif_dropout (bert_config b))]"
      by (simp add: m lin' drop' dd)
    show "BaseModel.category_encoder m =
           Sequential [Linear (new_param env ''category_encoder.0.weight'' [ceon, celn])
                              (new_param env ''category_encoder.0.bias'' [ceon]), ReLU]"
      by (simp add: m elin')
    show "BaseModel.classifier m =
           Linear (new_param env ''classifier.weight'' [1, d + ceon])
                  (new_param env ''classifier.bias'' [1])"
      by (simp add: m cls' one' i')
    show "training m" by (simp add: m)
  qed
qed

lemma BiLSTMModel_init_layersE:
  assumes "snd (BiLSTMModel_init env c) = Inr m"
  obtains v ed cel ceo h where
    "config_size (config m) ''vocab_size'' = Some v"
    and "config_size (config m) ''embedding_dim'' = Some ed"
    and "config_size (config m) ''category_encoded_length'' = Some cel"
    and "config_size (config m) ''category_encoder_out'' = Some ceo"
    and "config_size (config m) ''bilstm_hidden_dim'' = Some h"
    and "embedding m = new_param env ''embedding.weight'' [v, ed]"
    and "BiLSTMModel.category_encoder m =
           Sequential [Linear (new_param env ''category_encoder.0.weight'' [ceo, cel])
                              (new_param env ''category_encoder.0.bias'' [ceo]), ReLU]"
    and "0 < h"
    and "BiLSTMModel.classifier m =
           Linear (new_param env ''classifier.weight'' [1, h * 2 + ceo])
                  (new_param env ''classifier.bias'' [1])"
proof -
  from assms obtain cfg lr vs ed emb cel ceo elin hdim lstm hdim2 n cls where
    vs: "cfg ''vocab_size'' = Some vs" and ed: "cfg ''embedding_dim'' = Some ed"
    and emb: "nn_Embedding env ''embedding'' vs ed = Inr emb"
    and cel: "cfg ''category_encoded_length'' = Some cel"
    and ceo: "cfg ''category_encoder_out'' = Some ceo"
    and elin: "nn_Linear env ''category_encoder.0'' cel ceo = Inr elin"
    and hdim: "cfg ''bilstm_hidden_dim'' = Some hdim"
    and lstm: "nn_LSTM env ''bilstm'' ed hdim = Inr lstm"
    and mul: "py_mul_nat hdim 2 = Inr hdim2"
    and add: "py_add hdim2 ceo = Inr n"
    and cls: "nn_Linear env ''classifier'' n (PInt 1) = Inr cls"
    and m: "m = \<lparr>config = cfg, hparams = cfg, learning_rate = lr, training = True, logged = [],
          BiLSTMModel.train_metric = [], BiLSTMModel.val_metric = [],
          embedding = emb, BiLSTMModel.category_encoder = Sequential [elin, ReLU],
          bilstm = lstm, BiLSTMModel.classifier = cls\<rparr>"
    by (rule BiLSTMModel_init_InrE)
  from emb obtain vn edn where vn: "as_size vs = Inr vn" and edn: "as_size ed = Inr edn"
    and emb': "emb = new_param env (''embedding'' @ ''.weight'') [vn, edn]"
    by (rule nn_Embedding_InrE)
  from elin obtain celn ceon where celn: "as_size cel = Inr celn"
    and ceon: "as_size ceo = Inr ceon"
    and elin': "elin = Linear (new_param env (''category_encoder.0'' @ ''.weight'') [ceon, celn])
                    (new_param env (''category_encoder.0'' @ ''.bias'') [ceon])"
    by (rule nn_Linear_InrE)
  from lstm obtain edn' hn where hn: "as_size hdim = Inr hn" and hpos: "0 < hn"
    by (rule nn_LSTM_InrE)
  from cls obtain i one where i: "as_size n = Inr i" and one: "as_size (PInt 1) = Inr one"
    and cls': "cls = Linear (new_param env (''classifier'' @ ''.weight'') [one, i])
                    (new_param env (''classifier'' @ ''.bias'') [one])"
    by (rule nn_Linear_InrE)
  from one have one': "one = 1" by simp
  from hn mul have "py_int hdim2 = Some (int (hn * 2))" by (rule py_mul_nat_size)
  from this ceon add i have i': "i = hn * 2 + ceon" by (rule py_add_size)
  show thesis
  proof (rule that[of vn edn celn ceon hn])
    show "config_size (config m) ''vocab_size'' = Some vn" using vs vn by (simp add: m config_size_def)
    show "config_size (config m) ''embedding_dim'' = Some edn" using ed edn by (simp add: m config_size_def)
    show "config_size (config m) ''category_encoded_length'' = Some celn"
      using cel celn by (simp add: m config_size_def)
    show "config_size (config m) ''category_encoder_out'' = Some ceon"
      using ceo ceon by (simp add: m config_size_def)
    show "config_size (config m) ''bilstm_hidden_dim'' = Some hn" using hdim hn by (simp add: m config_size_def)
    show "embedding m = new_param env ''embedding.weight'' [vn, edn]" by (simp add: m emb')
    show "BiLSTMModel.category_encoder m =
           Sequential [Linear (new_param env ''category_encoder.0.weight'' [ceon, celn])
                              (new_param env ''category_encoder.0.bias'' [ceon]), ReLU]"
      by (simp add: m elin')
    show "0 < hn" by (rule hpos)
    show "BiLSTMModel.classifier m =
           Linear (new_param env ''classifier.weight'' [1, hn * 2 + ceon])
                  (new_param env ''classifier.bias'' [1])"
      by (simp add: m cls' one' i')
  qed
qed

lemma CustomDistilBertModel_init_layersE:
  assumes "snd (CustomDistilBertModel_init env c) = Inr m"
  obtains b d where
    "from_pretrained env ''distilbert-base-uncased'' = Inr b"
    and "dim (bert_config b) = int d"
    and "bert_config (CustomDistilBertModel.bert m) = bert_config b"
    and "bert_forward (CustomDistilBertModel.bert m) = bert_forward b"
    and "CustomDistilBertModel.distilbert_tail m =
           Sequential [Linear (new_param env ''distilbert_tail.0.weight'' [d, d])
                              (new_param env ''distilbert_tail.0.bias'' [d]),
                       ReLU, Dropout (seq_classif_dropout (bert_config b))]"
    and "CustomDistilBertModel.classifier m =
           Linear (new_param env ''classifier.weight'' [4, d])
                  (new_param env ''classifier.bias'' [4])"
    and "num_classes m = 4"
proof -
  from assms obtain cfg lr b v cfg' lin drop cls where
    b: "from_pretrained env ''distilbert-base-uncased'' = Inr b"
    and lin: "nn_Linear env ''distilbert_tail.0''
           (PInt (dim (bert_config b))) (PInt (dim (bert_config b))) = Inr lin"
    and drop: "nn_Dropout (seq_classif_dropout (bert_config b)) = Inr drop"
    and cls: "nn_Linear env ''classifier'' (PInt (hidden_size (bert_config b))) (PInt 4) = Inr cls"
    and m: "m = \<lparr>config = cfg', hparams = cfg, learning_rate = lr, training = True, logged = [],
          num_classes = 4,
          CustomDistilBertModel.train_metric = [], CustomDistilBertModel.val_metric = [],
          CustomDistilBertModel.test_metric = [],
          CustomDistilBertModel.bert = b\<lparr>bert_parameters :=
             map (\<lambda>p. p\<lparr>requires_grad := False\<rparr>) (bert_parameters b)\<rparr>,
          CustomDistilBertModel.distilbert_tail = Sequential [lin, ReLU, drop],
          CustomDistilBertModel.classifier = cls\<rparr>"
    by (rule CustomDistilBertModel_init_InrE)
  from lin obtain d d' where d0: "as_size (PInt (dim (bert_config b))) = Inr d"
    and d0': "as_size (PInt (dim (bert_config b))) = Inr d'"
    and lin': "lin = Linear (new_param env (''distilbert_tail.0'' @ ''.weight'') [d', d])
                    (new_param env (''distilbert_tail.0'' @ ''.bias'') [d'])"
    by (rule nn_Linear_InrE)
  from d0 d0' have dd: "d' = d" by simp
  from d0 have d: "dim (bert_config b) = int d" by (rule as_size_PInt_Inr)
  from drop have drop': "drop = Dropout (seq_classif_dropout (bert_config b))"
    by (rule nn_Dropout_InrE)
  from cls obtain i four where i: "as_size (PInt (hidden_size (bert_config b))) = Inr i"
    and four: "as_size (PInt 4) = Inr four"
    and cls': "cls = Linear (new_param env (''classifier'' @ ''.weight'') [four, i])
                    (new_param env (''classifier'' @ ''.bias'') [four])"
    by (rule nn_Linear_InrE)
  from four have four': "four = 4" by simp
  from i d have i': "i = d" by (simp add: hidden_size_def)
  show thesis
  proof (rule that[of b d])
    show "from_pretrained env ''distilbert-base-uncased'' = Inr b" by (rule b)
    show "dim (bert_config b) = int d" by (rule d)
    show "bert_config (CustomDistilBertModel.bert m) = bert_config b" by (simp add: m)
    show "bert_forward (CustomDistilBertModel.bert m) = bert_forward b" by (simp add: m)
    show "CustomDistilBertModel.distilbert_tail m =
           Sequential [Linear (new_param env ''distilbert_tail.0.weight'' [d, d])
                              (new_param env ''distilbert_tail.0.bias'' [d]),
                       ReLU, Dropout (seq_classif_dropout (bert_config b))]"
      by (simp add: m lin' drop' dd)
    show "CustomDistilBertModel.classifier m =
           Linear (new_param env ''classifier.weight'' [4, d])
                  (new_param env ''classifier.bias'' [4])"
      by (simp add: m cls' four' i')
    show "num_classes m = 4" by (simp add: m)
  qed
qed

lemma propagates_ret: "propagates (ret x)"
  by (simp add: propagates_def)

lemma propagates_call:
  "(\<And>x. r = Inr x \<Longrightarrow> propagates (k x)) \<Longrightarrow> propagates (call n r k)"
  by (cases r) (simp_all add: propagates_def)

lemma propagates_assign: "propagates c \<Longrightarrow> propagates (assign n c)"
  by (simp add: propagates_def)

lemma raised_append [simp]: "raised (tr @ tr') = raised tr @ raised tr'"
  by (induction tr rule: raised.induct) simp_all

lemma silent_after_raise_append:
  "raised tr = [] \<Longrightarrow> silent_after_raise (tr @ tr') = silent_after_raise tr'"
  by (induction tr rule: raised.induct) simp_all

lemma silent_after_raise_snoc:
  "silent_after_raise tr \<Longrightarrow> silent_after_raise (tr @ [Call n None])"
  by (induction tr rule: silent_after_raise.induct) simp_all

lemma propagates_call_Inl: "propagates (call n (Inl e) k)"
  by (simp add: propagates_def)

lemma propagates_bind:
  "propagates c \<Longrightarrow> (\<And>x. snd c = Inr x \<Longrightarrow> propagates (k x)) \<Longrightarrow>
   propagates (bind_exec c k)"
  by (cases "snd c") (simp_all add: propagates_def bind_exec_def silent_after_raise_append)

lemma propagates_with_no_grad:
  "propagates body \<Longrightarrow> (\<And>x. snd body = Inr x \<Longrightarrow> propagates (k x)) \<Longrightarrow>
   propagates (with_no_grad body k)"
  by (cases "snd body")
    (simp_all add: propagates_def with_no_grad_def silent_after_raise_append
      silent_after_raise_snoc)

lemma propagates_if:
  "(b \<Longrightarrow> propagates c) \<Longrightarrow> (\<not> b \<Longrightarrow> propagates d) \<Longrightarrow> propagates (if b then c else d)"
  by simp

lemma propagates_case_prod:
  "(\<And>a b. p = (a, b) \<Longrightarrow> propagates (f a b)) \<Longrightarrow> propagates (case p of (a, b) \<Rightarrow> f a b)"
  by (cases p) simp

lemma propagates_freeze: "propagates (freeze ps)"
  by (induction ps) (simp_all add: propagates_ret propagates_assign propagates_bind)

lemmas propagates_intros =
  propagates_ret propagates_call propagates_assign propagates_bind propagates_with_no_grad
  propagates_if propagates_case_prod propagates_freeze

lemma propagates_init_config:
  "(\<And>cfg hp lr. propagates (k cfg hp lr)) \<Longrightarrow> propagates (init_config env c k)"
  unfolding init_config_def by (intro propagates_intros)

lemma propagates_set_vocab_size: "propagates (set_vocab_size cfg b)"
  unfolding set_vocab_size_def by (intro propagates_intros)

lemma propagates_make_distilbert_tail:
  "(\<And>l. propagates (k l)) \<Longrightarrow> propagates (make_distilbert_tail env b k)"
  unfolding make_distilbert_tail_def by (intro propagates_intros)

lemma propagates_make_category_encoder:
  "(\<And>l. propagates (k l)) \<Longrightarrow> propagates (make_category_encoder env cfg k)"
  unfolding make_category_encoder_def by (intro propagates_intros)

lemmas propagates_init_intros =
  propagates_intros propagates_init_config propagates_set_vocab_size
  propagates_make_distilbert_tail propagates_make_category_encoder

lemma propagates_BaseModel_init: "propagates (BaseModel_init env c)"
  unfolding BaseModel_init_def by (intro propagates_init_intros)

lemma propagates_BiLSTMModel_init: "propagates (BiLSTMModel_init env c)"
  unfolding BiLSTMModel_init_def by (intro propagates_init_intros)

lemma propagates_CustomDistilBertModel_init: "propagates (CustomDistilBertModel_init env c)"
  unfolding CustomDistilBertModel_init_def Let_def by (intro propagates_init_intros)

lemma propagates_BaseModel_forward: "propagates (BaseModel_forward m keep a b)"
  unfolding BaseModel_forward_def by (intro propagates_intros)

lemma propagates_BiLSTMModel_forward: "propagates (BiLSTMModel_forward env m keep a b)"
  unfolding BiLSTMModel_forward_def by (intro propagates_intros)

lemma propagates_CustomDistilBertModel_forward:
  "propagates (CustomDistilBertModel_forward m keep a)"
  unfolding CustomDistilBertModel_forward_def by (intro propagates_intros)

lemma propagates_BaseModel_call: "propagates (BaseModel_call m keep args)"
  by (simp add: BaseModel_call_def propagates_BaseModel_forward propagates_call_Inl
      split: list.split)

lemma propagates_BiLSTMModel_call: "propagates (BiLSTMModel_call env m keep args)"
  by (simp add: BiLSTMModel_call_def propagates_BiLSTMModel_forward propagates_call_Inl
      split: list.split)

lemma propagates_CustomDistilBertModel_call:
  "propagates (CustomDistilBertModel_call m keep args)"
  by (simp add: CustomDistilBertModel_call_def propagates_CustomDistilBertModel_forward
      propagates_call_Inl split: list.split)

lemmas propagates_step_intros =
  propagates_intros propagates_BaseModel_call propagates_BiLSTMModel_call
  propagates_CustomDistilBertModel_call

lemma propagates_CustomDistilBertModel_step:
  "(\<And>loss pred y. propagates (k loss pred y)) \<Longrightarrow>
   propagates (CustomDistilBertModel_step env m keep batch k)"
  unfolding CustomDistilBertModel_step_def
  by (cases batch) (simp, intro propagates_step_intros)

lemma env_no_weights_simps [simp]:
  "create_config env_no_weights = Inr" "from_pretrained env_no_weights name = Inl OSError"
  "fails env_no_weights n = None"
  by (simp_all add: env_no_weights_def env_ex_def)

lemma env_no_device_simps [simp]:
  "fails env_no_device ''y.to'' = Some RuntimeError"
  by (simp add: env_no_device_def)

lemma performs_ret: "performs [] (ret x)"
  by (simp add: performs_def)

lemma performs_call:
  "(\<And>x. r = Inr x \<Longrightarrow> performs tr (k x)) \<Longrightarrow> performs (Call n None # tr) (call n r k)"
  by (cases r) (simp_all add: performs_def split: sum.splits)

lemma performs_assign: "performs tr c \<Longrightarrow> performs (Assign n # tr) (assign n c)"
  by (simp add: performs_def split: sum.splits)

lemma performs_case_prod:
  "(\<And>a b. p = (a, b) \<Longrightarrow> performs tr (f a b)) \<Longrightarrow> performs tr (case p of (a, b) \<Rightarrow> f a b)"
  by (cases p) simp

lemma performs_with_no_grad:
  "performs tr body \<Longrightarrow> (\<And>x. snd body = Inr x \<Longrightarrow> performs tr' (k x)) \<Longrightarrow>
   performs (Call ''torch.no_grad.__enter__'' None # tr @
             Call ''torch.no_grad.__exit__'' None # tr') (with_no_grad body k)"
  by (cases "snd body") (simp_all add: performs_def with_no_grad_def split: sum.splits)

lemmas performs_intros =
  performs_ret performs_call performs_assign performs_case_prod

lemma performs_BaseModel_forward:
  "performs BaseModel_forward_ops (BaseModel_forward m keep a b)"
  unfolding BaseModel_forward_def BaseModel_forward_ops_def by (intro performs_intros)

lemma performs_BiLSTMModel_forward:
  "performs BiLSTMModel_forward_ops (BiLSTMModel_forward env m keep a b)"
  unfolding BiLSTMModel_forward_def BiLSTMModel_forward_ops_def by (intro performs_intros)

lemma performs_CustomDistilBertModel_forward:
  "performs CustomDistilBertModel_forward_ops (CustomDistilBertModel_forward m keep a)"
proof -
  have "performs (Call ''torch.no_grad.__enter__'' None #
      [Call ''encoded_text[input_ids]'' None, Call ''encoded_text[attention_mask]'' None,
       Call ''self.bert'' None] @
      Call ''torch.no_grad.__exit__'' None #
      [Call ''bert_output[0]'' None, Call ''hidden_state[:, 0]'' None,
       Call ''self.distilbert_tail'' None, Call ''self.classifier'' None])
     (CustomDistilBertModel_forward m keep a)"
    unfolding CustomDistilBertModel_forward_def
    by (intro performs_with_no_grad performs_intros)
  then show ?thesis by (simp add: CustomDistilBertModel_forward_ops_def)
qed

lemma fst_set_vocab_size:
  "cfg ''vocab_size'' = Some v \<Longrightarrow>
   fst (set_vocab_size cfg b) =
     Call ''self.config[vocab_size]'' None #
     (if py_eq_int v 0 then [Assign ''self.config[vocab_size]''] else [])"
  by (simp add: set_vocab_size_def)

lemma snd_set_vocab_size:
  "cfg ''vocab_size'' = Some v \<Longrightarrow>
   snd (set_vocab_size cfg b) =
     Inr (if py_eq_int v 0
          then cfg(''vocab_size'' \<mapsto> PInt (vocab_size (bert_config b))) else cfg)"
  by (simp add: set_vocab_size_def)

lemma BaseModel_init_performs:
  assumes "snd (BaseModel_init env c) = Inr m"
  obtains cfg v b where "create_config env c = Inr cfg" and "cfg ''vocab_size'' = Some v"
    and "from_pretrained env ''distilbert-base-uncased'' = Inr b"
    and "fst (BaseModel_init env c) =
           BaseModel_init_ops (py_eq_int v 0) (length (bert_parameters b))"
proof -
  from assms obtain cfg lr b v cfg' lin drop cel ceo elin n cls where
    f: "create_config env c = Inr cfg" "cfg ''learning_rate'' = Some lr"
    "from_pretrained env ''distilbert-base-uncased'' = Inr b"
    "cfg ''vocab_size'' = Some v"
    "nn_Linear env ''distilbert_tail.0''
           (PInt (dim (bert_config b))) (PInt (dim (bert_config b))) = Inr lin"
    "nn_Dropout (seq_classif_dropout (bert_config b)) = Inr drop"
    "fails env ''super().__init__'' = None"
    "fails env ''self.save_hyperparameters'' = None"
    "fails env ''torchmetrics.MeanSquaredError'' = None"
    "fails env ''nn.ReLU'' = None" "fails env ''nn.Sequential'' = None"
    "nn_Linear env ''category_encoder.0'' cel ceo = Inr elin"
    "py_add (PInt (hidden_size (bert_config b))) ceo = Inr n"
    "nn_Linear env ''classifier'' n (PInt 1) = Inr cls"
    and cfg': "cfg' = (if py_eq_int v 0
                 then cfg(''vocab_size'' \<mapsto> PInt (vocab_size (bert_config b))) else cfg)"
    and g: "cfg' ''category_encoded_length'' = Some cel"
    "cfg' ''category_encoder_out'' = Some ceo"
    by (rule BaseModel_init_InrE)
  have "fst (BaseModel_init env c) =
           BaseModel_init_ops (py_eq_int v 0) (length (bert_parameters b))"
    unfolding BaseModel_init_def init_config_def make_distilbert_tail_def
      make_category_encoder_def BaseModel_init_ops_def init_config_ops_def encoder_ops_def
      category_encoder_ops_def
    using f g[unfolded cfg']
    by (simp add: bind_exec_def fst_set_vocab_size snd_set_vocab_size del: py_add.simps)
  with f show thesis by (intro that[of cfg v b])
qed

lemma BiLSTMModel_init_performs:
  assumes "snd (BiLSTMModel_init env c) = Inr m"
  shows "fst (BiLSTMModel_init env c) = BiLSTMModel_init_ops"
proof -
  from assms obtain cfg lr vs ed emb cel ceo elin hdim lstm hdim2 n cls where
    f: "create_config env c = Inr cfg" "cfg ''learning_rate'' = Some lr"
    "fails env ''super().__init__'' = None"
    "fails env ''self.save_hyperparameters'' = None"
    "fails env ''pl.metrics.MeanSquaredError'' = None"
    "fails env ''nn.ReLU'' = None" "fails env ''nn.Sequential'' = None"
    "cfg ''vocab_size'' = Some vs" "cfg ''embedding_dim'' = Some ed"
    "nn_Embedding env ''embedding'' vs ed = Inr emb"
    "cfg ''category_encoded_length'' = Some cel"
    "cfg ''category_encoder_out'' = Some ceo"
    "nn_Linear env ''category_encoder.0'' cel ceo = Inr elin"
    "cfg ''bilstm_hidden_dim'' = Some hdim"
    "nn_LSTM env ''bilstm'' ed hdim = Inr lstm"
    "py_mul_nat hdim 2 = Inr hdim2"
    "py_add hdim2 ceo = Inr n"
    "nn_Linear env ''classifier'' n (PInt 1) = Inr cls"
    by (rule BiLSTMModel_init_InrE)
  show ?thesis
    unfolding BiLSTMModel_init_def init_config_def make_category_encoder_def
      BiLSTMModel_init_ops_def init_config_ops_def category_encoder_ops_def
    using f by (simp del: py_add.simps py_mul_nat.simps)
qed

lemma CustomDistilBertModel_init_performs:
  assumes "snd (CustomDistilBertModel_init env c) = Inr m"
  obtains cfg v b where "create_config env c = Inr cfg" and "cfg ''vocab_size'' = Some v"
    and "from_pretrained env ''distilbert-base-uncased'' = Inr b"
    and "fst (CustomDistilBertModel_init env c) =
           CustomDistilBertModel_init_ops (py_eq_int v 0) (length (bert_parameters b))"
proof -
  from assms obtain cfg lr b v cfg' lin drop cls where
    f: "create_config env c = Inr cfg" "cfg ''learning_rate'' = Some lr"
    "fails env ''super().__init__'' = None"
    "fails env ''self.save_hyperparameters'' = None"
    "fails env ''torchmetrics.F1'' = None"
    "fails env ''nn.ReLU'' = None" "fails env ''nn.Sequential'' = None"
    "from_pretrained env ''distilbert-base-uncased'' = Inr b"
    "cfg ''vocab_size'' = Some v"
    "nn_Linear env ''distilbert_tail.0''
           (PInt (dim (bert_config b))) (PInt (dim (bert_config b))) = Inr lin"
    "nn_Dropout (seq_classif_dropout (bert_config b)) = Inr drop"
    "nn_Linear env ''classifier'' (PInt (hidden_size (bert_config b))) (PInt 4) = Inr cls"
    by (rule CustomDistilBertModel_init_InrE)
  have "fst (CustomDistilBertModel_init env c) =
           CustomDistilBertModel_init_ops (py_eq_int v 0) (length (bert_parameters b))"
    unfolding CustomDistilBertModel_init_def init_config_def make_distilbert_tail_def
      CustomDistilBertModel_init_ops_def init_config_ops_def encoder_ops_def Let_def
    using f
    by (simp add: bind_exec_def fst_set_vocab_size snd_set_vocab_size)
  with f show thesis by (intro that[of cfg v b])
qed

lemma BiLSTMModel_init_ex2_eq: "snd (BiLSTMModel_init env_ex config_ex2) = Inr BiLSTMModel_ex2"
  by (simp add: BiLSTMModel_init_def init_eval' BiLSTMModel_ex_def BiLSTMModel_ex2_def
      config_ex2_def)

lemma BaseModel_forward_ex:
  "snd (BaseModel_forward BaseModel_ex (\<lambda>i. True) (Encoding encoded_ex) (FloatTensor cats_ex)) =
     Inr \<lparr>shape = [2, 1], data = [15 / 2, 15 / 2]\<rparr>"
  by code_simp

lemma BiLSTMModel_forward_ex:
  "snd (BiLSTMModel_forward env_ex BiLSTMModel_ex2 (\<lambda>i. True) (IntTensor ids_ex)
          (FloatTensor cats_ex)) =
     Inr \<lparr>shape = [2, 1], data = [5, 5]\<rparr>"
  by code_simp

lemma CustomDistilBertModel_forward_ex:
  "snd (CustomDistilBertModel_forward CustomDistilBertModel_ex (\<lambda>i. True) (Encoding encoded_ex)) =
     Inr \<lparr>shape = [2, 4], data = [7 / 2, 7 / 2, 7 / 2, 7 / 2, 7 / 2, 7 / 2, 7 / 2, 7 / 2]\<rparr>"
  by code_simp











lemma rows_0 [simp]: "rows 0 k xs = []"
  by (simp add: rows_def)

lemma rows_Suc: "rows (Suc n) k xs = take k xs # rows n k (drop k xs)"
proof -
  have "map (\<lambda>i. take k (drop (i * k) xs)) [0..<Suc n] =
        take k (drop (0 * k) xs) # map (\<lambda>i. take k (drop (Suc i * k) xs)) [0..<n]"
    by (simp add: upt_conv_Cons map_Suc_upt [symmetric] del: upt_Suc)
  also have "map (\<lambda>i. take k (drop (Suc i * k) xs)) [0..<n] =
        map (\<lambda>i. take k (drop (i * k) (drop k xs))) [0..<n]"
    by (simp add: add.commute)
  finally show ?thesis by (simp add: rows_def)
qed

lemma length_rows [simp]: "length (rows n k xs) = n"
  by (simp add: rows_def)

lemma concat_rows: "length xs = n * k \<Longrightarrow> concat (rows n k xs) = xs"
  by (induction n arbitrary: xs) (simp_all add: rows_Suc)

lemma rows_lengths:
  assumes "length xs = n * k" and "r \<in> set (rows n k xs)"
  shows "length r = k"
proof -
  from assms(2) obtain i where i: "i < n" and r: "r = take k (drop (i * k) xs)"
    by (auto simp: rows_def)
  from i have "Suc i * k \<le> n * k" by (intro mult_le_mono1) simp
  then have "k \<le> n * k - i * k" by simp
  with r assms(1) show ?thesis by simp
qed

lemma rows_concat:
  "length rs = n \<Longrightarrow> (\<And>r. r \<in> set rs \<Longrightarrow> length r = k) \<Longrightarrow> rows n k (concat rs) = rs"
  by (induction rs arbitrary: n) (auto simp: rows_Suc)

lemma broadcast_rev_same [simp]: "broadcast_rev s s = Some s"
  by (induction s) simp_all

lemma broadcast_shapes_same [simp]: "broadcast_shapes s s = Some s"
  by (simp add: broadcast_shapes_def)

lemma expand_data_same: "length xs = prod_list s \<Longrightarrow> expand_data s s xs = xs"
proof (induction s arbitrary: xs)
  case Nil
  then show ?case by simp
next
  case (Cons a s)
  then have len: "length xs = a * prod_list s" by simp
  have "map (expand_data s s) (rows a (prod_list s) xs) = rows a (prod_list s) xs"
    by (rule map_idI) (simp add: Cons.IH rows_lengths [OF len])
  then show ?case by (simp add: concat_rows [OF len])
qed

lemma expand_same: "wf_tensor x \<Longrightarrow> shape x = s \<Longrightarrow> data (expand s x) = data x"
  by (auto simp: expand_def wf_tensor_def expand_data_same)

lemma F_mse_loss_same_shape:
  assumes "shape x = shape y" and "wf_tensor x" and "wf_tensor y"
    and "0 < prod_list (shape x)"
  shows "F_mse_loss x y =
    Inr \<lparr>shape = [],
         data = [Num (sum_list (map2 (\<lambda>a b. (a - b) * (a - b)) (data x) (data y)) /
                      real (prod_list (shape x)))]\<rparr>"
proof -
  have "length (data x) = prod_list (shape x)" "length (data y) = prod_list (shape x)"
    using assms by (simp_all add: wf_tensor_def)
  then show ?thesis
    using assms by (auto simp: F_mse_loss_def expand_same Let_def)
qed

lemma F_mse_loss_no_element:
  assumes "shape x = shape y" and "wf_tensor x" and "wf_tensor y"
    and "prod_list (shape x) = 0"
  shows "F_mse_loss x y = Inr \<lparr>shape = [], data = [NaN]\<rparr>"
proof -
  have "data x = []" "data y = []"
    using assms by (simp_all add: wf_tensor_def)
  then show ?thesis
    using assms by (simp add: F_mse_loss_def expand_same Let_def)
qed

lemma log_Inr [simp]:
  "fails env ''self.log'' = None \<Longrightarrow>
   log env self name v = Inr (self\<lparr>logged := logged self @ [(name, v)]\<rparr>)"
  by (simp add: log_def)

lemma length_concat_map_const:
  "(\<And>x. x \<in> set xs \<Longrightarrow> length (f x) = k) \<Longrightarrow> length (concat (map f xs)) = length xs * k"
  by (induction xs) simp_all

lemma wf_new_param [simp]: "wf_tensor (pdata (new_param env name s))"
  by (simp add: wf_tensor_def)

text \<open>The linear layer: its result, the shape of the result, and the result by rows.\<close>

lemma F_linear_Inr:
  assumes "shape w = [out, inp]" and "shape b = [out]" and "shape x = s @ [inp]"
  shows "F_linear x w b =
    Inr \<lparr>shape = s @ [out],
         data = concat (map (\<lambda>r. map2 (\<lambda>wr bj. dot r wr + bj) (rows out inp (data w)) (data b))
                            (rows (prod_list s) inp (data x)))\<rparr>"
  using assms by (simp add: F_linear_def)

lemma F_linear_wf:
  assumes "shape w = [out, inp]" and "shape b = [out]" and "wf_tensor b"
    and "shape x = s @ [inp]"
  obtains r where "F_linear x w b = Inr r" and "shape r = s @ [out]" and "wf_tensor r"
proof -
  let ?r = "\<lparr>shape = s @ [out],
         data = concat (map (\<lambda>r. map2 (\<lambda>wr bj. dot r wr + bj) (rows out inp (data w)) (data b))
                            (rows (prod_list s) inp (data x)))\<rparr>"
  have "length (data b) = out" using assms by (simp add: wf_tensor_def)
  then have "length (data ?r) = prod_list s * out"
    by (simp add: length_concat_map_const)
  then have "wf_tensor ?r" by (simp add: wf_tensor_def)
  with F_linear_Inr [OF assms(1,2,4)] show thesis by (intro that[of ?r]) simp_all
qed

lemma shape_F_relu [simp]: "shape (F_relu x) = shape x"
  by (simp add: F_relu_def)

lemma wf_F_relu [simp]: "wf_tensor (F_relu x) = wf_tensor x"
  by (simp add: F_relu_def wf_tensor_def)

lemma shape_F_dropout [simp]: "shape (F_dropout p train keep x) = shape x"
  by (simp add: F_dropout_def)

lemma wf_F_dropout [simp]: "wf_tensor (F_dropout p train keep x) = wf_tensor x"
  by (simp add: F_dropout_def wf_tensor_def)

lemma F_linear_new_param:
  assumes "shape x = s @ [i]"
  obtains r where
    "F_linear x (pdata (new_param env n1 [out, i])) (pdata (new_param env n2 [out])) = Inr r"
    and "shape r = s @ [out]" and "wf_tensor r"
proof (rule F_linear_wf [of "pdata (new_param env n1 [out, i])" out i
      "pdata (new_param env n2 [out])" x s])
  show "shape (pdata (new_param env n1 [out, i])) = [out, i]" by simp
  show "shape (pdata (new_param env n2 [out])) = [out]" by simp
  show "wf_tensor (pdata (new_param env n2 [out]))" by simp
  show "shape x = s @ [i]" by fact
qed (rule that)

lemma distilbert_tail_wf:
  assumes "shape x = s @ [d]"
  obtains r where
    "layer_forward train keep
       (Sequential [Linear (new_param env n1 [d, d]) (new_param env n2 [d]), ReLU, Dropout p]) x
     = Inr r"
    and "shape r = s @ [d]" and "wf_tensor r"
proof -
  obtain y where y: "F_linear x (pdata (new_param env n1 [d, d])) (pdata (new_param env n2 [d]))
      = Inr y" "shape y = s @ [d]" "wf_tensor y"
    using assms by (rule F_linear_new_param)
  then show thesis
    by (intro that[of "F_dropout p train keep (F_relu y)"]) simp_all
qed

lemma category_encoder_wf:
  assumes "shape x = s @ [cel]"
  obtains r where
    "layer_forward train keep
       (Sequential [Linear (new_param env n1 [ceo, cel]) (new_param env n2 [ceo]), ReLU]) x
     = Inr r"
    and "shape r = s @ [ceo]" and "wf_tensor r"
proof -
  obtain y where y: "F_linear x (pdata (new_param env n1 [ceo, cel]))
      (pdata (new_param env n2 [ceo])) = Inr y" "shape y = s @ [ceo]" "wf_tensor y"
    using assms by (rule F_linear_new_param)
  then show thesis
    by (intro that[of "F_relu y"]) simp_all
qed

lemma classifier_wf:
  assumes "shape x = s @ [i]"
  obtains r where
    "layer_forward train keep (Linear (new_param env n1 [out, i]) (new_param env n2 [out])) x
     = Inr r"
    and "shape r = s @ [out]" and "wf_tensor r"
proof -
  obtain y where y: "F_linear x (pdata (new_param env n1 [out, i]))
      (pdata (new_param env n2 [out])) = Inr y" "shape y = s @ [out]" "wf_tensor y"
    using assms by (rule F_linear_new_param)
  then show thesis by (intro that[of y]) simp_all
qed

text \<open>Selecting a position of the sequence.\<close>

lemma select1_wf:
  assumes "shape x = [b, l, d]" and "wf_tensor x" and "0 \<le> j" and "j < int l"
  obtains r where "select1 x j = Inr r" and "shape r = [b, d]" and "wf_tensor r"
proof -
  let ?r = "\<lparr>shape = [b, d],
      data = concat (map (\<lambda>r. take d (drop (nat j * d) r)) (rows b (l * d) (data x)))\<rparr>"
  have sel: "select1 x j = Inr ?r"
    using assms by (simp add: select1_def)
  have len: "length (data x) = b * (l * d)"
    using assms by (simp add: wf_tensor_def)
  have "length (take d (drop (nat j * d) r)) = d" if "r \<in> set (rows b (l * d) (data x))" for r
  proof -
    have "length r = l * d" using len that by (rule rows_lengths)
    moreover have "Suc (nat j) * d \<le> l * d"
      using assms by (intro mult_le_mono1) linarith
    then have "d \<le> l * d - nat j * d" by simp
    ultimately show ?thesis by simp
  qed
  then have "length (data ?r) = b * d"
    by (simp add: length_concat_map_const)
  then have "wf_tensor ?r" by (simp add: wf_tensor_def)
  with sel show thesis by (intro that[of ?r]) simp_all
qed

text \<open>Concatenating two matrices along the feature dimension.\<close>

lemma cat1_Inr:
  assumes "shape x = [b, m]" and "shape y = [b, n]"
  shows "cat1 x y =
    Inr \<lparr>shape = [b, m + n],
         data = concat (map2 (@) (rows b m (data x)) (rows b n (data y)))\<rparr>"
  using assms by (simp add: cat1_def)

lemma length_concat_map2_append:
  "length xs = length ys \<Longrightarrow> (\<And>x. x \<in> set xs \<Longrightarrow> length x = m) \<Longrightarrow>
   (\<And>y. y \<in> set ys \<Longrightarrow> length y = n) \<Longrightarrow>
   length (concat (map2 (@) xs ys)) = length xs * (m + n)"
  by (induction xs ys rule: list_induct2) simp_all

lemma cat1_wf:
  assumes "shape x = [b, m]" and "wf_tensor x" and "shape y = [b, n]" and "wf_tensor y"
  obtains r where "cat1 x y = Inr r" and "shape r = [b, m + n]" and "wf_tensor r"
    and "data r = concat (map2 (@) (rows b m (data x)) (rows b n (data y)))"
proof -
  let ?r = "\<lparr>shape = [b, m + n],
         data = concat (map2 (@) (rows b m (data x)) (rows b n (data y)))\<rparr>"
  have lx: "length (data x) = b * m" and ly: "length (data y) = b * n"
    using assms by (simp_all add: wf_tensor_def)
  have "length (data ?r) = b * (m + n)"
    using rows_lengths [OF lx] rows_lengths [OF ly]
    by (simp add: length_concat_map2_append)
  then have "wf_tensor ?r" by (simp add: wf_tensor_def)
  with cat1_Inr [OF assms(1,3)] show thesis by (intro that[of ?r]) simp_all
qed

text \<open>Looking token ids up in the embedding table.\<close>

lemma F_embedding_wf:
  assumes "shape w = [v, d]" and "wf_tensor w" and "wf_tensor ids"
    and "\<forall>i\<in>set (data ids). 0 \<le> i \<and> i < int v"
  obtains r where "F_embedding ids w = Inr r" and "shape r = shape ids @ [d]" and "wf_tensor r"
proof -
  let ?r = "\<lparr>shape = shape ids @ [d],
      data = concat (map (\<lambda>i. take d (drop (nat i * d) (data w))) (data ids))\<rparr>"
  have emb: "F_embedding ids w = Inr ?r"
    using assms by (auto simp: F_embedding_def)
  have len: "length (data w) = v * d" using assms by (simp add: wf_tensor_def)
  have "length (take d (drop (nat i * d) (data w))) = d" if "i \<in> set (data ids)" for i
  proof -
    from that assms(4) have "Suc (nat i) \<le> v" by auto
    then have "Suc (nat i) * d \<le> v * d" by (rule mult_le_mono1)
    then have "d \<le> v * d - nat i * d" by simp
    with len show ?thesis by simp
  qed
  then have "length (data ?r) = length (data ids) * d"
    by (simp add: length_concat_map_const)
  then have "wf_tensor ?r" using assms(3) by (simp add: wf_tensor_def)
  with emb show thesis by (intro that[of ?r]) simp_all
qed

lemma snd_call_ret [simp]: "snd (call n r ret) = r"
  by (cases r) simp_all

lemma rows_one: "length xs = k \<Longrightarrow> rows (Suc 0) k xs = [xs]"
  by (simp add: rows_def)

lemma concat_map_singleton: "concat (map (\<lambda>x. [f x]) xs) = map f xs"
  by (induction xs) simp_all

text \<open>A linear layer with one output, row by row.\<close>

lemma F_linear_one_output:
  assumes w: "shape w = [1, k]" "wf_tensor w" and b: "shape b = [1]" "wf_tensor b"
    and x: "shape x = [n, k]"
  shows "F_linear x w b =
    Inr \<lparr>shape = [n, 1],
         data = map (\<lambda>r. dot r (data w) + hd (data b)) (rows n k (data x))\<rparr>"
proof -
  have lw: "length (data w) = k" using w by (simp add: wf_tensor_def)
  have "length (data b) = 1" using b by (simp add: wf_tensor_def)
  then have db: "data b = [hd (data b)]" by (cases "data b") simp_all
  have "map2 (\<lambda>wr bj. dot r wr + bj) (rows 1 k (data w)) (data b) =
      [dot r (data w) + hd (data b)]" for r
    by (subst db) (simp add: rows_one [OF lw])
  then show ?thesis
    using F_linear_Inr [of w 1 k b x "[n]"] w b x
    by (simp add: concat_map_singleton)
qed

text \<open>The forward pass of a constructed \<^verbatim>\<open>BaseModel\<close> on a well-shaped batch, step by
  step.\<close>

lemma BaseModel_forward_run:
  assumes init: "snd (BaseModel_init env c) = Inr m"
    and ii: "e ''input_ids'' = Some input_ids" and am: "e ''attention_mask'' = Some attention_mask"
    and bert: "bert_forward (BaseModel.bert m) input_ids attention_mask = Inr (h # rest)"
    and d: "dim (bert_config (BaseModel.bert m)) = int d"
    and h: "shape h = [bs, seq, d]" "wf_tensor h" "0 < seq"
    and cel: "config_size (config m) ''category_encoded_length'' = Some cel"
    and cv: "shape cv = [bs, cel]"
  obtains ceo cls pooled encoded features w b where
    "config_size (config m) ''category_encoder_out'' = Some ceo"
    and "select1 h 0 = Inr cls"
    and "layer_forward tr keep (BaseModel.distilbert_tail m) cls = Inr pooled"
    and "shape pooled = [bs, d]" and "wf_tensor pooled"
    and "layer_forward tr keep (BaseModel.category_encoder m) cv = Inr encoded"
    and "shape encoded = [bs, ceo]" and "wf_tensor encoded"
    and "cat1 pooled encoded = Inr features"
    and "shape features = [bs, d + ceo]" and "wf_tensor features"
    and "data features = concat (map2 (@) (rows bs d (data pooled)) (rows bs ceo (data encoded)))"
    and "BaseModel.classifier m = Linear w b"
    and "shape (pdata w) = [1, d + ceo]" and "wf_tensor (pdata w)"
    and "shape (pdata b) = [1]" and "wf_tensor (pdata b)"
    and "snd (BaseModel_forward (m\<lparr>training := tr\<rparr>) keep (Encoding e) (FloatTensor cv)) =
           F_linear features (pdata w) (pdata b)"
proof -
  from init obtain b0 d' cel' ceo where
    "from_pretrained env ''distilbert-base-uncased'' = Inr b0"
    and d': "dim (bert_config b0) = int d'"
    and cfg: "bert_config (BaseModel.bert m) = bert_config b0"
    and "bert_forward (BaseModel.bert m) = bert_forward b0"
    and cel': "config_size (config m) ''category_encoded_length'' = Some cel'"
    and ceo: "config_size (config m) ''category_encoder_out'' = Some ceo"
    and tail: "BaseModel.distilbert_tail m =
           Sequential [Linear (new_param env ''distilbert_tail.0.weight'' [d', d'])
                              (new_param env ''distilbert_tail.0.bias'' [d']),
                       ReLU, Dropout (seq_classif_dropout (bert_config b0))]"
    and enc: "BaseModel.category_encoder m =
           Sequential [Linear (new_param env ''category_encoder.0.weight'' [ceo, cel'])
                              (new_param env ''category_encoder.0.bias'' [ceo]), ReLU]"
    and cls: "BaseModel.classifier m =
           Linear (new_param env ''classifier.weight'' [1, d' + ceo])
                  (new_param env ''classifier.bias'' [1])"
    and "training m"
    by (rule BaseModel_init_layersE)
  from d d' cfg have dd: "d' = d" by simp
  from cel cel' have cc: "cel' = cel" by simp
  obtain x0 where x0: "select1 h 0 = Inr x0" "shape x0 = [bs, d]" "wf_tensor x0"
    by (rule select1_wf [OF h(1) h(2), of 0]) (use h(3) in auto)
  from x0(2) have "shape x0 = [bs] @ [d]" by simp
  then obtain pooled where pooled:
    "layer_forward tr keep (BaseModel.distilbert_tail m) x0 = Inr pooled"
    "shape pooled = [bs] @ [d]" "wf_tensor pooled"
    unfolding tail dd by (rule distilbert_tail_wf)
  from cv have "shape cv = [bs] @ [cel]" by simp
  then obtain encoded where encoded:
    "layer_forward tr keep (BaseModel.category_encoder m) cv = Inr encoded"
    "shape encoded = [bs] @ [ceo]" "wf_tensor encoded"
    unfolding enc cc by (rule category_encoder_wf)
  from pooled encoded obtain features where features:
    "cat1 pooled encoded = Inr features" "shape features = [bs, d + ceo]" "wf_tensor features"
    "data features = concat (map2 (@) (rows bs d (data pooled)) (rows bs ceo (data encoded)))"
    by (auto elim: cat1_wf [of pooled bs d encoded ceo])
  have fwd: "snd (BaseModel_forward (m\<lparr>training := tr\<rparr>) keep (Encoding e) (FloatTensor cv)) =
      F_linear features (pdata (new_param env ''classifier.weight'' [1, d + ceo]))
        (pdata (new_param env ''classifier.bias'' [1]))"
    using ii am bert x0(1) pooled(1) encoded(1) features(1) cls dd
    by (simp add: BaseModel_forward_def getitem_def first_output_def and_then_def
        split: sum.splits)
  show thesis
    using ceo x0(1) pooled encoded features cls dd fwd
    by (intro that [of ceo x0 pooled encoded features
          "new_param env ''classifier.weight'' [1, d + ceo]"
          "new_param env ''classifier.bias'' [1]"]) simp_all
qed

lemma with_no_grad_Inr: "snd body = Inr x \<Longrightarrow> snd (with_no_grad body k) = snd (k x)"
  by (simp add: with_no_grad_def)

text \<open>The forward pass of a constructed \<^verbatim>\<open>CustomDistilBertModel\<close> on a well-shaped batch.\<close>

lemma CustomDistilBertModel_forward_run:
  assumes init: "snd (CustomDistilBertModel_init env c) = Inr m"
    and ii: "e ''input_ids'' = Some input_ids"
    and am: "e ''attention_mask'' = Some attention_mask"
    and bert: "bert_forward (CustomDistilBertModel.bert m) input_ids attention_mask
                 = Inr (h # rest)"
    and d: "dim (bert_config (CustomDistilBertModel.bert m)) = int d"
    and h: "shape h = [bs, seq, d]" "wf_tensor h" "0 < seq"
  obtains out where
    "snd (CustomDistilBertModel_forward (m\<lparr>training := tr\<rparr>) keep (Encoding e)) = Inr out"
    and "shape out = [bs, 4]" and "wf_tensor out"
proof -
  from init obtain b0 d' where
    "from_pretrained env ''distilbert-base-uncased'' = Inr b0"
    and d': "dim (bert_config b0) = int d'"
    and cfg: "bert_config (CustomDistilBertModel.bert m) = bert_config b0"
    and "bert_forward (CustomDistilBertModel.bert m) = bert_forward b0"
    and tail: "CustomDistilBertModel.distilbert_tail m =
           Sequential [Linear (new_param env ''distilbert_tail.0.weight'' [d', d'])
                              (new_param env ''distilbert_tail.0.bias'' [d']),
                       ReLU, Dropout (seq_classif_dropout (bert_config b0))]"
    and cls: "CustomDistilBertModel.classifier m =
           Linear (new_param env ''classifier.weight'' [4, d'])
                  (new_param env ''classifier.bias'' [4])"
    and "num_classes m = 4"
    by (rule CustomDistilBertModel_init_layersE)
  from d d' cfg have dd: "d' = d" by simp
  obtain x0 where x0: "select1 h 0 = Inr x0" "shape x0 = [bs, d]" "wf_tensor x0"
    by (rule select1_wf [OF h(1) h(2), of 0]) (use h(3) in auto)
  from x0(2) have "shape x0 = [bs] @ [d]" by simp
  then obtain pooled where pooled:
    "layer_forward tr keep (CustomDistilBertModel.distilbert_tail m) x0 = Inr pooled"
    "shape pooled = [bs] @ [d]" "wf_tensor pooled"
    unfolding tail dd by (rule distilbert_tail_wf)
  from pooled(2) obtain out where out:
    "layer_forward tr keep (CustomDistilBertModel.classifier m) pooled = Inr out"
    "shape out = [bs] @ [4]" "wf_tensor out"
    unfolding cls dd by (rule classifier_wf)
  have body: "snd (call ''encoded_text[input_ids]'' (subscript (Encoding e) ''input_ids'')
      (\<lambda>input_ids.
        call ''encoded_text[attention_mask]'' (subscript (Encoding e) ''attention_mask'')
          (\<lambda>attention_mask.
        call ''self.bert''
          (bert_forward (CustomDistilBertModel.bert (m\<lparr>training := tr\<rparr>))
             input_ids attention_mask) ret))) = Inr (h # rest)"
    using ii am bert by (simp add: getitem_def)
  have "snd (CustomDistilBertModel_forward (m\<lparr>training := tr\<rparr>) keep (Encoding e)) = Inr out"
    unfolding CustomDistilBertModel_forward_def with_no_grad_Inr [OF body]
    using x0(1) pooled(1) out(1) by (simp add: first_output_def)
  with out show thesis by (intro that [of out]) simp_all
qed

text \<open>The forward pass of a constructed \<^verbatim>\<open>BiLSTMModel\<close> on a well-shaped batch, with an
  LSTM that returns an output sequence of shape \<open>(bs, seq, 2 * hidden)\<close>.\<close>

lemma BiLSTMModel_forward_run:
  assumes init: "snd (BiLSTMModel_init env c) = Inr m"
    and v: "config_size (config m) ''vocab_size'' = Some v"
    and ed: "config_size (config m) ''embedding_dim'' = Some ed"
    and hdm: "config_size (config m) ''bilstm_hidden_dim'' = Some hdim"
    and cel: "config_size (config m) ''category_encoded_length'' = Some cel"
    and ids: "shape input_ids = [bs, seq]" "wf_tensor input_ids"
      "\<forall>i\<in>set (data input_ids). 0 \<le> i \<and> i < int v" "0 < seq"
    and lstm: "\<And>x. shape x = [bs, seq, ed] \<Longrightarrow> wf_tensor x \<Longrightarrow>
        \<exists>out st. torch_lstm env (bilstm m) x = Inr (out, st) \<and>
                 shape out = [bs, seq, 2 * hdim] \<and> wf_tensor out"
    and cv: "shape cv = [bs, cel]"
  obtains out where
    "snd (BiLSTMModel_forward env (m\<lparr>training := tr\<rparr>) keep (IntTensor input_ids)
            (FloatTensor cv)) = Inr out"
    and "shape out = [bs, 1]" and "wf_tensor out"
proof -
  from init obtain v' ed' cel' ceo h' where
    v': "config_size (config m) ''vocab_size'' = Some v'"
    and ed': "config_size (config m) ''embedding_dim'' = Some ed'"
    and cel': "config_size (config m) ''category_encoded_length'' = Some cel'"
    and "config_size (config m) ''category_encoder_out'' = Some ceo"
    and h': "config_size (config m) ''bilstm_hidden_dim'' = Some h'"
    and emb: "embedding m = new_param env ''embedding.weight'' [v', ed']"
    and enc: "BiLSTMModel.category_encoder m =
           Sequential [Linear (new_param env ''category_encoder.0.weight'' [ceo, cel'])
                              (new_param env ''category_encoder.0.bias'' [ceo]), ReLU]"
    and "0 < h'"
    and cls: "BiLSTMModel.classifier m =
           Linear (new_param env ''classifier.weight'' [1, h' * 2 + ceo])
                  (new_param env ''classifier.bias'' [1])"
    by (rule BiLSTMModel_init_layersE)
  from v v' ed ed' hdm h' cel cel' have eqs: "v' = v" "ed' = ed" "h' = hdim" "cel' = cel"
    by simp_all
  obtain x where x: "F_embedding input_ids (pdata (embedding m)) = Inr x"
    "shape x = shape input_ids @ [ed]" "wf_tensor x"
    unfolding emb eqs
    by (rule F_embedding_wf [of "pdata (new_param env ''embedding.weight'' [v, ed])" v ed
          input_ids]) (use ids in simp_all)
  from x(2) ids(1) have "shape x = [bs, seq, ed]" by simp
  from lstm [OF this x(3)] obtain lstm_out st where
    lo: "torch_lstm env (bilstm m) x = Inr (lstm_out, st)"
    "shape lstm_out = [bs, seq, 2 * hdim]" "wf_tensor lstm_out"
    by blast
  from cv have "shape cv = [bs] @ [cel]" by simp
  then obtain encoded where encoded:
    "layer_forward tr keep (BiLSTMModel.category_encoder m) cv = Inr encoded"
    "shape encoded = [bs] @ [ceo]" "wf_tensor encoded"
    unfolding enc eqs by (rule category_encoder_wf)
  have n: "shape1 lstm_out = Inr (int seq)"
    using lo(2) by (simp add: shape1_def)
  obtain final where final: "select1 lstm_out (int seq - 1) = Inr final"
    "shape final = [bs, 2 * hdim]" "wf_tensor final"
    by (rule select1_wf [OF lo(2) lo(3), of "int seq - 1"]) (use ids(4) in auto)
  have final3: "select1_of3 lstm_out (int seq - 1) = Inr final"
    using final(1) lo(2) by (simp add: select1_of3_def)
  from final encoded obtain combined where combined:
    "cat1 final encoded = Inr combined" "shape combined = [bs, 2 * hdim + ceo]"
    "wf_tensor combined"
    by (auto elim: cat1_wf [of final bs "2 * hdim" encoded ceo])
  from combined(2) have "shape combined = [bs] @ [hdim * 2 + ceo]" by (simp add: mult.commute)
  then obtain out where out:
    "layer_forward tr keep (BiLSTMModel.classifier m) combined = Inr out"
    "shape out = [bs] @ [1]" "wf_tensor out"
    unfolding cls eqs by (rule classifier_wf)
  have "snd (BiLSTMModel_forward env (m\<lparr>training := tr\<rparr>) keep (IntTensor input_ids)
            (FloatTensor cv)) = Inr out"
    using x(1) lo(1) encoded(1) n final3 combined(1) out(1)
    by (simp add: BiLSTMModel_forward_def and_then_def)
  with out show thesis by (intro that [of out]) simp_all
qed

lemma select1_first:
  assumes "shape x = [b, l, d]" and "0 < l"
  shows "select1 x 0 = Inr \<lparr>shape = [b, d], data = concat (map (take d) (rows b (l * d) (data x)))\<rparr>"
  using assms by (simp add: select1_def)

lemma env_ex3_simps [simp]:
  "create_config env_ex3 = Inr" "from_pretrained env_ex3 name = Inr bert_ex3"
  "fails env_ex3 n = None"
  by (simp_all add: env_ex3_def env_ex_def)

lemma bert_ex3_simps [simp]:
  "bert_config bert_ex3 = \<lparr>vocab_size = 30522, dim = 2, seq_classif_dropout = 1 / 5\<rparr>"
  "bert_parameters bert_ex3 = [\<lparr>pdata = \<lparr>shape = [2], data = [1, 2]\<rparr>, requires_grad = True\<rparr>]"
  by (simp_all add: bert_ex3_def)

lemma BaseModel_init_ex3_eq: "snd (BaseModel_init env_ex3 config_ex) = Inr BaseModel_ex3"
  by (simp add: BaseModel_init_def init_eval' BaseModel_ex3_def)

lemma BaseModel_ex3_pooled:
  "layer_forward False (\<lambda>i. True) (BaseModel.distilbert_tail BaseModel_ex3)
     \<lparr>shape = [2, 2], data = [1, 1, 3, 1]\<rparr> = Inr \<lparr>shape = [2, 2], data = [4, 9, 6, 15]\<rparr>"
  by code_simp

lemma BaseModel_ex3_encoded:
  "layer_forward False (\<lambda>i. True) (BaseModel.category_encoder BaseModel_ex3) cats_ex =
     Inr \<lparr>shape = [2, 2], data = [2, 6, 3, 7]\<rparr>"
  by code_simp

lemma BaseModel_ex3_select: "select1 hidden_ex3 0 = Inr \<lparr>shape = [2, 2], data = [1, 1, 3, 1]\<rparr>"
  by code_simp

lemma BaseModel_ex3_classifier:
  "BaseModel.classifier BaseModel_ex3 = Linear w b \<Longrightarrow>
   data (pdata w) = [1, 2, 3, 4] \<and> data (pdata b) = [1]"
  by (auto simp: BaseModel_ex3_def new_param_def env_ex3_def upt_conv_Cons)

section \<open>The claims\<close>

text \<open>
  C1. After a successful construction of a \<^verbatim>\<open>BaseModel\<close> or of a
  \<^verbatim>\<open>CustomDistilBertModel\<close>, no parameter of the pretrained encoder \<^verbatim>\<open>self.bert\<close>
  requires gradients, and every parameter of the head layers (\<^verbatim>\<open>distilbert_tail\<close>,
  \<^verbatim>\<open>category_encoder\<close> where the class has one, and \<^verbatim>\<open>classifier\<close>) does.
\<close>

theorem init_freezes_encoder_only:
  "(snd (BaseModel_init env c) = Inr m \<longrightarrow>
      (\<forall>p\<in>set (bert_parameters (BaseModel.bert m)). \<not> requires_grad p) \<and>
      (\<forall>p\<in>set (layer_parameters (BaseModel.distilbert_tail m) @
                layer_parameters (BaseModel.category_encoder m) @
                layer_parameters (BaseModel.classifier m)). requires_grad p)) \<and>
   (snd (CustomDistilBertModel_init env c) = Inr m' \<longrightarrow>
      (\<forall>p\<in>set (bert_parameters (CustomDistilBertModel.bert m')). \<not> requires_grad p) \<and>
      (\<forall>p\<in>set (layer_parameters (CustomDistilBertModel.distilbert_tail m') @
                layer_parameters (CustomDistilBertModel.classifier m')). requires_grad p))"
proof (intro conjI impI)
  assume "snd (BaseModel_init env c) = Inr m"
  then show "\<forall>p\<in>set (bert_parameters (BaseModel.bert m)). \<not> requires_grad p"
    by (elim BaseModel_init_InrE) auto
next
  assume "snd (BaseModel_init env c) = Inr m"
  then show "\<forall>p\<in>set (layer_parameters (BaseModel.distilbert_tail m) @
                layer_parameters (BaseModel.category_encoder m) @
                layer_parameters (BaseModel.classifier m)). requires_grad p"
    by (elim BaseModel_init_InrE nn_Linear_InrE nn_Dropout_InrE) auto
next
  assume "snd (CustomDistilBertModel_init env c) = Inr m'"
  then show "\<forall>p\<in>set (bert_parameters (CustomDistilBertModel.bert m')). \<not> requires_grad p"
    by (elim CustomDistilBertModel_init_InrE) auto
next
  assume "snd (CustomDistilBertModel_init env c) = Inr m'"
  then show "\<forall>p\<in>set (layer_parameters (CustomDistilBertModel.distilbert_tail m') @
                layer_parameters (CustomDistilBertModel.classifier m')). requires_grad p"
    by (elim CustomDistilBertModel_init_InrE nn_Linear_InrE nn_Dropout_InrE) auto
qed

theorem init_freezes_encoder_only_witness:
  "\<exists>m m'. snd (BaseModel_init env_ex config_ex) = Inr m \<and>
     snd (CustomDistilBertModel_init env_ex config_ex) = Inr m' \<and>
     map requires_grad (bert_parameters bert_ex) = [True] \<and>
     map requires_grad (bert_parameters (BaseModel.bert m)) = [False] \<and>
     list_all requires_grad
       (layer_parameters (BaseModel.distilbert_tail m) @
        layer_parameters (BaseModel.category_encoder m) @
        layer_parameters (BaseModel.classifier m)) \<and>
     map requires_grad (bert_parameters (CustomDistilBertModel.bert m')) = [False] \<and>
     list_all requires_grad
       (layer_parameters (CustomDistilBertModel.distilbert_tail m') @
        layer_parameters (CustomDistilBertModel.classifier m'))"
proof -
  obtain m where m: "snd (BaseModel_init env_ex config_ex) = Inr m"
    using BaseModel_init_ex by blast
  obtain m' where m': "snd (CustomDistilBertModel_init env_ex config_ex) = Inr m'"
    using CustomDistilBertModel_init_ex by blast
  have len: "length (bert_parameters (BaseModel.bert m)) = 1"
    using m by (elim BaseModel_init_InrE) (simp add: env_ex_def bert_ex_def, auto)
  have len': "length (bert_parameters (CustomDistilBertModel.bert m')) = 1"
    using m' by (elim CustomDistilBertModel_init_InrE) (simp add: env_ex_def bert_ex_def, auto)
  note inst = init_freezes_encoder_only [of env_ex config_ex m m']
  have "map requires_grad (bert_parameters (BaseModel.bert m)) = [False]"
    using inst m len by (cases "bert_parameters (BaseModel.bert m)") auto
  moreover have "map requires_grad (bert_parameters (CustomDistilBertModel.bert m')) = [False]"
    using inst m' len' by (cases "bert_parameters (CustomDistilBertModel.bert m')") auto
  ultimately show ?thesis
    using inst m m' by (auto simp: list_all_iff bert_ex_def)
qed

text \<open>
  C10. During the construction of a \<^verbatim>\<open>BaseModel\<close> or of a \<^verbatim>\<open>CustomDistilBertModel\<close>,
  the entry \<^verbatim>\<open>config["vocab_size"]\<close> is overwritten with the vocabulary size of the
  pretrained encoder if and only if it was 0 (in the sense of Python's \<^verbatim>\<open>== 0\<close>); every
  other entry of the stored configuration is the one \<open>create_config\<close> produced.
\<close>

theorem init_overwrites_vocab_size_only:
  "(snd (BaseModel_init env c) = Inr m \<longrightarrow>
      (\<exists>cfg v b. create_config env c = Inr cfg \<and> cfg ''vocab_size'' = Some v \<and>
         from_pretrained env ''distilbert-base-uncased'' = Inr b \<and>
         (py_eq_int v 0 \<longrightarrow>
            config m ''vocab_size'' = Some (PInt (vocab_size (bert_config b)))) \<and>
         (\<not> py_eq_int v 0 \<longrightarrow> config m ''vocab_size'' = Some v) \<and>
         (\<forall>k. k \<noteq> ''vocab_size'' \<longrightarrow> config m k = cfg k))) \<and>
   (snd (CustomDistilBertModel_init env c) = Inr m' \<longrightarrow>
      (\<exists>cfg v b. create_config env c = Inr cfg \<and> cfg ''vocab_size'' = Some v \<and>
         from_pretrained env ''distilbert-base-uncased'' = Inr b \<and>
         (py_eq_int v 0 \<longrightarrow>
            config m' ''vocab_size'' = Some (PInt (vocab_size (bert_config b)))) \<and>
         (\<not> py_eq_int v 0 \<longrightarrow> config m' ''vocab_size'' = Some v) \<and>
         (\<forall>k. k \<noteq> ''vocab_size'' \<longrightarrow> config m' k = cfg k)))"
proof (intro conjI impI)
  assume "snd (BaseModel_init env c) = Inr m"
  then obtain cfg v b where "create_config env c = Inr cfg" "cfg ''vocab_size'' = Some v"
    "from_pretrained env ''distilbert-base-uncased'' = Inr b"
    "config m = (if py_eq_int v 0
                 then cfg(''vocab_size'' \<mapsto> PInt (vocab_size (bert_config b))) else cfg)"
    by (elim BaseModel_init_InrE) simp
  then show "\<exists>cfg v b. create_config env c = Inr cfg \<and> cfg ''vocab_size'' = Some v \<and>
         from_pretrained env ''distilbert-base-uncased'' = Inr b \<and>
         (py_eq_int v 0 \<longrightarrow>
            config m ''vocab_size'' = Some (PInt (vocab_size (bert_config b)))) \<and>
         (\<not> py_eq_int v 0 \<longrightarrow> config m ''vocab_size'' = Some v) \<and>
         (\<forall>k. k \<noteq> ''vocab_size'' \<longrightarrow> config m k = cfg k)"
    by (intro exI[of _ cfg] exI[of _ v] exI[of _ b]) simp
next
  assume "snd (CustomDistilBertModel_init env c) = Inr m'"
  then obtain cfg v b where "create_config env c = Inr cfg" "cfg ''vocab_size'' = Some v"
    "from_pretrained env ''distilbert-base-uncased'' = Inr b"
    "config m' = (if py_eq_int v 0
                 then cfg(''vocab_size'' \<mapsto> PInt (vocab_size (bert_config b))) else cfg)"
    by (elim CustomDistilBertModel_init_InrE) simp
  then show "\<exists>cfg v b. create_config env c = Inr cfg \<and> cfg ''vocab_size'' = Some v \<and>
         from_pretrained env ''distilbert-base-uncased'' = Inr b \<and>
         (py_eq_int v 0 \<longrightarrow>
            config m' ''vocab_size'' = Some (PInt (vocab_size (bert_config b)))) \<and>
         (\<not> py_eq_int v 0 \<longrightarrow> config m' ''vocab_size'' = Some v) \<and>
         (\<forall>k. k \<noteq> ''vocab_size'' \<longrightarrow> config m' k = cfg k)"
    by (intro exI[of _ cfg] exI[of _ v] exI[of _ b]) simp
qed

theorem init_overwrites_vocab_size_only_witness:
  "(\<exists>m m'. snd (BaseModel_init env_ex config_ex) = Inr m \<and>
      snd (CustomDistilBertModel_init env_ex config_ex) = Inr m' \<and>
      config_ex ''vocab_size'' = Some (PInt 0) \<and>
      config m ''vocab_size'' = Some (PInt 30522) \<and>
      config m' ''vocab_size'' = Some (PInt 30522) \<and>
      config m ''learning_rate'' = config_ex ''learning_rate'' \<and>
      config m' ''category_encoder_out'' = config_ex ''category_encoder_out'') \<and>
   (\<exists>m m'. snd (BaseModel_init env_ex config_ex2) = Inr m \<and>
      snd (CustomDistilBertModel_init env_ex config_ex2) = Inr m' \<and>
      config m ''vocab_size'' = Some (PInt 100) \<and>
      config m' ''vocab_size'' = Some (PInt 100))"
proof -
  obtain m1 where m1: "snd (BaseModel_init env_ex config_ex) = Inr m1"
    using BaseModel_init_ex by blast
  obtain m1' where m1': "snd (CustomDistilBertModel_init env_ex config_ex) = Inr m1'"
    using CustomDistilBertModel_init_ex by blast
  obtain m2 where m2: "snd (BaseModel_init env_ex config_ex2) = Inr m2"
    using BaseModel_init_ex2 by blast
  obtain m2' where m2': "snd (CustomDistilBertModel_init env_ex config_ex2) = Inr m2'"
    using CustomDistilBertModel_init_ex2 by blast
  have a: "config m1 ''vocab_size'' = Some (PInt 30522) \<and>
      config m1' ''vocab_size'' = Some (PInt 30522) \<and>
      config m1 ''learning_rate'' = config_ex ''learning_rate'' \<and>
      config m1' ''category_encoder_out'' = config_ex ''category_encoder_out''"
    using init_overwrites_vocab_size_only [of env_ex config_ex m1 m1'] m1 m1'
    by (auto simp: env_ex_def config_ex_def bert_ex_def py_eq_int_def)
  have b: "config m2 ''vocab_size'' = Some (PInt 100) \<and>
      config m2' ''vocab_size'' = Some (PInt 100)"
    using init_overwrites_vocab_size_only [of env_ex config_ex2 m2 m2'] m2 m2'
    by (auto simp: env_ex_def config_ex_def config_ex2_def bert_ex_def py_eq_int_def)
  have c: "config_ex ''vocab_size'' = Some (PInt 0)"
    by (simp add: config_ex_def)
  show ?thesis
    using a b c m1 m1' m2 m2' by blast
qed

text \<open>
  C8. For a constructed model of each class, \<^verbatim>\<open>configure_optimizers\<close> hands every
  parameter of the model to Adam, the frozen encoder parameters included (there is no
  filter on \<^verbatim>\<open>requires_grad\<close>), with the learning rate \<^verbatim>\<open>config["learning_rate"]\<close>.
  Adam returns the optimizer unless the learning rate is not a number (\<^verbatim>\<open>TypeError\<close>) or is
  negative (\<^verbatim>\<open>ValueError\<close>).
\<close>

theorem configure_optimizers_all_parameters:
  "(snd (BaseModel_init env c) = Inr m \<longrightarrow>
      (\<exists>rate. config m ''learning_rate'' = Some rate \<and>
         snd (BaseModel_configure_optimizers m) =
           (case py_num rate of
              None \<Rightarrow> Inl TypeError
            | Some r \<Rightarrow>
                if r < 0 then Inl ValueError
                else Inr \<lparr>param_groups = parameters (BaseModel_named_children m), lr = rate\<rparr>)) \<and>
      parameters (BaseModel_named_children m) =
        bert_parameters (BaseModel.bert m) @ layer_parameters (BaseModel.distilbert_tail m) @
        layer_parameters (BaseModel.category_encoder m) @
        layer_parameters (BaseModel.classifier m) \<and>
      (\<forall>p\<in>set (bert_parameters (BaseModel.bert m)).
         \<not> requires_grad p \<and> p \<in> set (parameters (BaseModel_named_children m)))) \<and>
   (snd (BiLSTMModel_init env c) = Inr m' \<longrightarrow>
      (\<exists>rate. config m' ''learning_rate'' = Some rate \<and>
         snd (BiLSTMModel_configure_optimizers m') =
           (case py_num rate of
              None \<Rightarrow> Inl TypeError
            | Some r \<Rightarrow>
                if r < 0 then Inl ValueError
                else Inr \<lparr>param_groups = parameters (BiLSTMModel_named_children m'),
                          lr = rate\<rparr>)) \<and>
      parameters (BiLSTMModel_named_children m') =
        embedding m' # layer_parameters (BiLSTMModel.category_encoder m') @ bilstm m' @
        layer_parameters (BiLSTMModel.classifier m')) \<and>
   (snd (CustomDistilBertModel_init env c) = Inr m'' \<longrightarrow>
      (\<exists>rate. config m'' ''learning_rate'' = Some rate \<and>
         snd (CustomDistilBertModel_configure_optimizers m'') =
           (case py_num rate of
              None \<Rightarrow> Inl TypeError
            | Some r \<Rightarrow>
                if r < 0 then Inl ValueError
                else Inr \<lparr>param_groups = parameters (CustomDistilBertModel_named_children m''),
                          lr = rate\<rparr>)) \<and>
      parameters (CustomDistilBertModel_named_children m'') =
        bert_parameters (CustomDistilBertModel.bert m'') @
        layer_parameters (CustomDistilBertModel.distilbert_tail m'') @
        layer_parameters (CustomDistilBertModel.classifier m'') \<and>
      (\<forall>p\<in>set (bert_parameters (CustomDistilBertModel.bert m'')).
         \<not> requires_grad p \<and>
         p \<in> set (parameters (CustomDistilBertModel_named_children m''))))"
proof (intro conjI impI)
  assume a: "snd (BaseModel_init env c) = Inr m"
  have ps: "parameters (BaseModel_named_children m) =
        bert_parameters (BaseModel.bert m) @ layer_parameters (BaseModel.distilbert_tail m) @
        layer_parameters (BaseModel.category_encoder m) @
        layer_parameters (BaseModel.classifier m)"
    by (simp add: parameters_def BaseModel_named_children_def)
  show "parameters (BaseModel_named_children m) =
        bert_parameters (BaseModel.bert m) @ layer_parameters (BaseModel.distilbert_tail m) @
        layer_parameters (BaseModel.category_encoder m) @
        layer_parameters (BaseModel.classifier m)"
    by (rule ps)
  from a have ne: "parameters (BaseModel_named_children m) \<noteq> []"
    unfolding ps by (elim BaseModel_init_InrE nn_Linear_InrE) simp
  from a obtain rate where r: "config m ''learning_rate'' = Some rate" "learning_rate m = rate"
    by (elim BaseModel_init_InrE) (simp split: if_splits)
  show "\<exists>rate. config m ''learning_rate'' = Some rate \<and>
         snd (BaseModel_configure_optimizers m) =
           (case py_num rate of
              None \<Rightarrow> Inl TypeError
            | Some r \<Rightarrow>
                if r < 0 then Inl ValueError
                else Inr \<lparr>param_groups = parameters (BaseModel_named_children m), lr = rate\<rparr>)"
    using r ne
    by (intro exI[of _ rate])
      (simp add: BaseModel_configure_optimizers_def torch_optim_Adam_nonempty
        split: option.splits)
  from a show "\<forall>p\<in>set (bert_parameters (BaseModel.bert m)).
         \<not> requires_grad p \<and> p \<in> set (parameters (BaseModel_named_children m))"
    unfolding ps by (elim BaseModel_init_InrE) auto
next
  assume a: "snd (BiLSTMModel_init env c) = Inr m'"
  have ps: "parameters (BiLSTMModel_named_children m') =
        embedding m' # layer_parameters (BiLSTMModel.category_encoder m') @ bilstm m' @
        layer_parameters (BiLSTMModel.classifier m')"
    by (simp add: parameters_def BiLSTMModel_named_children_def)
  show "parameters (BiLSTMModel_named_children m') =
        embedding m' # layer_parameters (BiLSTMModel.category_encoder m') @ bilstm m' @
        layer_parameters (BiLSTMModel.classifier m')"
    by (rule ps)
  have ne: "parameters (BiLSTMModel_named_children m') \<noteq> []"
    unfolding ps by simp
  from a obtain rate where r: "config m' ''learning_rate'' = Some rate" "learning_rate m' = rate"
    by (elim BiLSTMModel_init_InrE) simp
  show "\<exists>rate. config m' ''learning_rate'' = Some rate \<and>
         snd (BiLSTMModel_configure_optimizers m') =
           (case py_num rate of
              None \<Rightarrow> Inl TypeError
            | Some r \<Rightarrow>
                if r < 0 then Inl ValueError
                else Inr \<lparr>param_groups = parameters (BiLSTMModel_named_children m'),
                          lr = rate\<rparr>)"
    using r ne
    by (intro exI[of _ rate])
      (simp add: BiLSTMModel_configure_optimizers_def torch_optim_Adam_nonempty
        split: option.splits)
next
  assume a: "snd (CustomDistilBertModel_init env c) = Inr m''"
  have ps: "parameters (CustomDistilBertModel_named_children m'') =
        bert_parameters (CustomDistilBertModel.bert m'') @
        layer_parameters (CustomDistilBertModel.distilbert_tail m'') @
        layer_parameters (CustomDistilBertModel.classifier m'')"
    by (simp add: parameters_def CustomDistilBertModel_named_children_def)
  show "parameters (CustomDistilBertModel_named_children m'') =
        bert_parameters (CustomDistilBertModel.bert m'') @
        layer_parameters (CustomDistilBertModel.distilbert_tail m'') @
        layer_parameters (CustomDistilBertModel.classifier m'')"
    by (rule ps)
  from a have ne: "parameters (CustomDistilBertModel_named_children m'') \<noteq> []"
    unfolding ps by (elim CustomDistilBertModel_init_InrE nn_Linear_InrE) simp
  from a obtain rate where r: "config m'' ''learning_rate'' = Some rate"
    "learning_rate m'' = rate"
    by (elim CustomDistilBertModel_init_InrE) (simp split: if_splits)
  show "\<exists>rate. config m'' ''learning_rate'' = Some rate \<and>
         snd (CustomDistilBertModel_configure_optimizers m'') =
           (case py_num rate of
              None \<Rightarrow> Inl TypeError
            | Some r \<Rightarrow>
                if r < 0 then Inl ValueError
                else Inr \<lparr>param_groups = parameters (CustomDistilBertModel_named_children m''),
                          lr = rate\<rparr>)"
    using r ne
    by (intro exI[of _ rate])
      (simp add: CustomDistilBertModel_configure_optimizers_def torch_optim_Adam_nonempty
        split: option.splits)
  from a show "\<forall>p\<in>set (bert_parameters (CustomDistilBertModel.bert m'')).
         \<not> requires_grad p \<and>
         p \<in> set (parameters (CustomDistilBertModel_named_children m''))"
    unfolding ps by (elim CustomDistilBertModel_init_InrE) auto
qed

theorem configure_optimizers_all_parameters_witness:
  "\<exists>opt opt' opt''.
     snd (BaseModel_init env_ex config_ex) = Inr BaseModel_ex \<and>
     snd (BiLSTMModel_init env_ex config_ex) = Inr BiLSTMModel_ex \<and>
     snd (CustomDistilBertModel_init env_ex config_ex) = Inr CustomDistilBertModel_ex \<and>
     snd (BaseModel_configure_optimizers BaseModel_ex) = Inr opt \<and>
     snd (BiLSTMModel_configure_optimizers BiLSTMModel_ex) = Inr opt' \<and>
     snd (CustomDistilBertModel_configure_optimizers CustomDistilBertModel_ex) = Inr opt'' \<and>
     lr opt = PFloat (1 / 1000) \<and> lr opt' = PFloat (1 / 1000) \<and>
     lr opt'' = PFloat (1 / 1000) \<and>
     map requires_grad (param_groups opt) = [False, True, True, True, True, True, True] \<and>
     length (param_groups opt') = 13 \<and>
     map requires_grad (param_groups opt'') = [False, True, True, True, True]"
proof -
  note inst = configure_optimizers_all_parameters
    [of env_ex config_ex BaseModel_ex BiLSTMModel_ex CustomDistilBertModel_ex]
  have r: "config BaseModel_ex ''learning_rate'' = Some (PFloat (1 / 1000))"
    "config BiLSTMModel_ex ''learning_rate'' = Some (PFloat (1 / 1000))"
    "config CustomDistilBertModel_ex ''learning_rate'' = Some (PFloat (1 / 1000))"
    by (simp_all add: BaseModel_ex_def BiLSTMModel_ex_def CustomDistilBertModel_ex_def)
  have o: "snd (BaseModel_configure_optimizers BaseModel_ex) =
      Inr \<lparr>param_groups = parameters (BaseModel_named_children BaseModel_ex),
           lr = PFloat (1 / 1000)\<rparr>"
    using inst BaseModel_init_ex_eq r(1) by auto
  have o': "snd (BiLSTMModel_configure_optimizers BiLSTMModel_ex) =
      Inr \<lparr>param_groups = parameters (BiLSTMModel_named_children BiLSTMModel_ex),
           lr = PFloat (1 / 1000)\<rparr>"
    using inst BiLSTMModel_init_ex_eq r(2) by auto
  have o'': "snd (CustomDistilBertModel_configure_optimizers CustomDistilBertModel_ex) =
      Inr \<lparr>param_groups =
             parameters (CustomDistilBertModel_named_children CustomDistilBertModel_ex),
           lr = PFloat (1 / 1000)\<rparr>"
    using inst CustomDistilBertModel_init_ex_eq r(3) by auto
  have g: "map requires_grad (parameters (BaseModel_named_children BaseModel_ex)) =
      [False, True, True, True, True, True, True]"
    by (simp add: parameters_def BaseModel_named_children_def BaseModel_ex_def)
  have g': "length (parameters (BiLSTMModel_named_children BiLSTMModel_ex)) = 13"
    by (simp add: parameters_def BiLSTMModel_named_children_def BiLSTMModel_ex_def)
  have g'': "map requires_grad
       (parameters (CustomDistilBertModel_named_children CustomDistilBertModel_ex)) =
      [False, True, True, True, True]"
    by (simp add: parameters_def CustomDistilBertModel_named_children_def
        CustomDistilBertModel_ex_def)
  show ?thesis
    using o o' o'' g g' g'' BaseModel_init_ex_eq BiLSTMModel_init_ex_eq
      CustomDistilBertModel_init_ex_eq
    by simp
qed

text \<open>
  C6 as stated fails: the model \<^verbatim>\<open>CustomDistilBertModel\<close> builds from the example
  configuration has no submodule \<^verbatim>\<open>category_encoder\<close>, although the configuration gives a
  \<^verbatim>\<open>category_encoder_out\<close> of 2, and its classifier takes the 2 features of the text
  representation alone.
\<close>

theorem CustomDistilBertModel_has_no_category_encoder:
  "snd (CustomDistilBertModel_init env_ex config_ex) = Inr CustomDistilBertModel_ex \<and>
   map fst (CustomDistilBertModel_named_children CustomDistilBertModel_ex) =
     [''train_metric'', ''val_metric'', ''test_metric'', ''bert'', ''distilbert_tail'',
      ''classifier''] \<and>
   map_of (CustomDistilBertModel_named_children CustomDistilBertModel_ex) ''category_encoder''
     = None \<and>
   config CustomDistilBertModel_ex ''category_encoder_out'' = Some (PInt 2) \<and>
   hidden_size (bert_config (CustomDistilBertModel.bert CustomDistilBertModel_ex)) = 2 \<and>
   (\<exists>w b. CustomDistilBertModel.classifier CustomDistilBertModel_ex = Linear w b \<and>
      shape (pdata w) = [4, 2])"
  by (simp add: CustomDistilBertModel_init_ex_eq CustomDistilBertModel_named_children_def
      CustomDistilBertModel_ex_def hidden_size_def)

text \<open>
  C6, amended. A constructed \<^verbatim>\<open>BaseModel\<close> and a constructed \<^verbatim>\<open>BiLSTMModel\<close> pair their
  text encoder with a \<^verbatim>\<open>category_encoder\<close> (a linear layer from
  \<^verbatim>\<open>category_encoded_length\<close> to \<^verbatim>\<open>category_encoder_out\<close> features and a ReLU) and a
  linear \<^verbatim>\<open>classifier\<close> with one output whose input width is the width of the text
  representation (the encoder's hidden size, or twice the LSTM's hidden size) plus
  \<^verbatim>\<open>category_encoder_out\<close>. A constructed \<^verbatim>\<open>CustomDistilBertModel\<close> has no
  \<^verbatim>\<open>category_encoder\<close>: its linear \<^verbatim>\<open>classifier\<close> has four outputs and takes the text
  representation alone.
\<close>

theorem head_pattern_of_each_class:
  "(snd (BaseModel_init env c) = Inr m \<longrightarrow>
      map fst (BaseModel_named_children m) =
        [''train_metric'', ''val_metric'', ''test_metric'', ''bert'', ''distilbert_tail'',
         ''category_encoder'', ''classifier''] \<and>
      (\<exists>cel ceo h we be w b.
         config_size (config m) ''category_encoded_length'' = Some cel \<and>
         config_size (config m) ''category_encoder_out'' = Some ceo \<and>
         hidden_size (bert_config (BaseModel.bert m)) = int h \<and>
         BaseModel.category_encoder m = Sequential [Linear we be, ReLU] \<and>
         shape (pdata we) = [ceo, cel] \<and>
         BaseModel.classifier m = Linear w b \<and> shape (pdata w) = [1, h + ceo])) \<and>
   (snd (BiLSTMModel_init env c) = Inr m' \<longrightarrow>
      map fst (BiLSTMModel_named_children m') =
        [''train_metric'', ''val_metric'', ''embedding'', ''category_encoder'', ''bilstm'',
         ''classifier''] \<and>
      (\<exists>cel ceo h we be w b.
         config_size (config m') ''category_encoded_length'' = Some cel \<and>
         config_size (config m') ''category_encoder_out'' = Some ceo \<and>
         config_size (config m') ''bilstm_hidden_dim'' = Some h \<and>
         BiLSTMModel.category_encoder m' = Sequential [Linear we be, ReLU] \<and>
         shape (pdata we) = [ceo, cel] \<and>
         BiLSTMModel.classifier m' = Linear w b \<and> shape (pdata w) = [1, h * 2 + ceo])) \<and>
   (snd (CustomDistilBertModel_init env c) = Inr m'' \<longrightarrow>
      map fst (CustomDistilBertModel_named_children m'') =
        [''train_metric'', ''val_metric'', ''test_metric'', ''bert'', ''distilbert_tail'',
         ''classifier''] \<and>
      (\<exists>h w b.
         hidden_size (bert_config (CustomDistilBertModel.bert m'')) = int h \<and>
         CustomDistilBertModel.classifier m'' = Linear w b \<and> shape (pdata w) = [4, h]))"
proof (intro conjI impI)
  show "map fst (BaseModel_named_children m) =
        [''train_metric'', ''val_metric'', ''test_metric'', ''bert'', ''distilbert_tail'',
         ''category_encoder'', ''classifier'']"
    by (simp add: BaseModel_named_children_def)
  show "map fst (BiLSTMModel_named_children m') =
        [''train_metric'', ''val_metric'', ''embedding'', ''category_encoder'', ''bilstm'',
         ''classifier'']"
    by (simp add: BiLSTMModel_named_children_def)
  show "map fst (CustomDistilBertModel_named_children m'') =
        [''train_metric'', ''val_metric'', ''test_metric'', ''bert'', ''distilbert_tail'',
         ''classifier'']"
    by (simp add: CustomDistilBertModel_named_children_def)
next
  assume "snd (BaseModel_init env c) = Inr m"
  then show "\<exists>cel ceo h we be w b.
         config_size (config m) ''category_encoded_length'' = Some cel \<and>
         config_size (config m) ''category_encoder_out'' = Some ceo \<and>
         hidden_size (bert_config (BaseModel.bert m)) = int h \<and>
         BaseModel.category_encoder m = Sequential [Linear we be, ReLU] \<and>
         shape (pdata we) = [ceo, cel] \<and>
         BaseModel.classifier m = Linear w b \<and> shape (pdata w) = [1, h + ceo]"
  proof (rule BaseModel_init_layersE)
    fix b d cel ceo
    assume "dim (bert_config b) = int d" "bert_config (BaseModel.bert m) = bert_config b"
      "config_size (config m) ''category_encoded_length'' = Some cel"
      "config_size (config m) ''category_encoder_out'' = Some ceo"
      "BaseModel.category_encoder m =
           Sequential [Linear (new_param env ''category_encoder.0.weight'' [ceo, cel])
                              (new_param env ''category_encoder.0.bias'' [ceo]), ReLU]"
      "BaseModel.classifier m =
           Linear (new_param env ''classifier.weight'' [1, d + ceo])
                  (new_param env ''classifier.bias'' [1])"
    then show ?thesis
      by (intro exI[of _ cel] exI[of _ ceo] exI[of _ d]) (simp add: hidden_size_def)
  qed
next
  assume "snd (BiLSTMModel_init env c) = Inr m'"
  then show "\<exists>cel ceo h we be w b.
         config_size (config m') ''category_encoded_length'' = Some cel \<and>
         config_size (config m') ''category_encoder_out'' = Some ceo \<and>
         config_size (config m') ''bilstm_hidden_dim'' = Some h \<and>
         BiLSTMModel.category_encoder m' = Sequential [Linear we be, ReLU] \<and>
         shape (pdata we) = [ceo, cel] \<and>
         BiLSTMModel.classifier m' = Linear w b \<and> shape (pdata w) = [1, h * 2 + ceo]"
  proof (rule BiLSTMModel_init_layersE)
    fix v ed cel ceo h
    assume "config_size (config m') ''category_encoded_length'' = Some cel"
      "config_size (config m') ''category_encoder_out'' = Some ceo"
      "config_size (config m') ''bilstm_hidden_dim'' = Some h"
      "BiLSTMModel.category_encoder m' =
           Sequential [Linear (new_param env ''category_encoder.0.weight'' [ceo, cel])
                              (new_param env ''category_encoder.0.bias'' [ceo]), ReLU]"
      "BiLSTMModel.classifier m' =
           Linear (new_param env ''classifier.weight'' [1, h * 2 + ceo])
                  (new_param env ''classifier.bias'' [1])"
    then show ?thesis
      by (intro exI[of _ cel] exI[of _ ceo] exI[of _ h]) simp
  qed
next
  assume "snd (CustomDistilBertModel_init env c) = Inr m''"
  then show "\<exists>h w b.
         hidden_size (bert_config (CustomDistilBertModel.bert m'')) = int h \<and>
         CustomDistilBertModel.classifier m'' = Linear w b \<and> shape (pdata w) = [4, h]"
  proof (rule CustomDistilBertModel_init_layersE)
    fix b d
    assume "dim (bert_config b) = int d"
      "bert_config (CustomDistilBertModel.bert m'') = bert_config b"
      "CustomDistilBertModel.classifier m'' =
           Linear (new_param env ''classifier.weight'' [4, d])
                  (new_param env ''classifier.bias'' [4])"
    then show ?thesis
      by (intro exI[of _ d]) (simp add: hidden_size_def)
  qed
qed

theorem head_pattern_of_each_class_witness:
  "snd (BaseModel_init env_ex config_ex) = Inr BaseModel_ex \<and>
   snd (BiLSTMModel_init env_ex config_ex) = Inr BiLSTMModel_ex \<and>
   snd (CustomDistilBertModel_init env_ex config_ex) = Inr CustomDistilBertModel_ex \<and>
   (\<exists>w b. BaseModel.classifier BaseModel_ex = Linear w b \<and> shape (pdata w) = [1, 2 + 2]) \<and>
   (\<exists>w b. BiLSTMModel.classifier BiLSTMModel_ex = Linear w b \<and>
      shape (pdata w) = [1, 1 * 2 + 2]) \<and>
   (\<exists>w b. CustomDistilBertModel.classifier CustomDistilBertModel_ex = Linear w b \<and>
      shape (pdata w) = [4, 2])"
proof -
  note inst = head_pattern_of_each_class
    [of env_ex config_ex BaseModel_ex BiLSTMModel_ex CustomDistilBertModel_ex]
  have "\<exists>w b. BaseModel.classifier BaseModel_ex = Linear w b \<and> shape (pdata w) = [1, 2 + 2]"
    using inst BaseModel_init_ex_eq
    by (auto simp: BaseModel_ex_def hidden_size_def)
  moreover have "\<exists>w b. BiLSTMModel.classifier BiLSTMModel_ex = Linear w b \<and>
      shape (pdata w) = [1, 1 * 2 + 2]"
    using inst BiLSTMModel_init_ex_eq
    by (auto simp: BiLSTMModel_ex_def)
  moreover have "\<exists>w b. CustomDistilBertModel.classifier CustomDistilBertModel_ex = Linear w b \<and>
      shape (pdata w) = [4, 2]"
    using inst CustomDistilBertModel_init_ex_eq
    by (auto simp: CustomDistilBertModel_ex_def hidden_size_def)
  ultimately show ?thesis
    using BaseModel_init_ex_eq BiLSTMModel_init_ex_eq CustomDistilBertModel_init_ex_eq
    by blast
qed

text \<open>
  C7. No method of the three classes catches, replaces or recovers from an exception: in
  every execution of every method, a call that raises ends the method with exactly that
  exception, no second call raises, a method that returns normally has seen no exception,
  and nothing is assigned after the call that raised.
\<close>

theorem methods_propagate_exceptions:
  "propagates (BaseModel_init env c) \<and>
   propagates (BaseModel_forward mb keep a b) \<and>
   propagates (BaseModel_training_step env mb keep batch) \<and>
   propagates (BaseModel_training_epoch_end env mb outs) \<and>
   propagates (BaseModel_validation_step env mb keep batch) \<and>
   propagates (BaseModel_validation_epoch_end env mb outs) \<and>
   propagates (BaseModel_configure_optimizers mb) \<and>
   propagates (BiLSTMModel_init env c) \<and>
   propagates (BiLSTMModel_forward env ml keep a b) \<and>
   propagates (BiLSTMModel_training_step env ml keep batch') \<and>
   propagates (BiLSTMModel_training_epoch_end env ml outs) \<and>
   propagates (BiLSTMModel_validation_step env ml keep batch') \<and>
   propagates (BiLSTMModel_validation_epoch_end env ml outs) \<and>
   propagates (BiLSTMModel_configure_optimizers ml) \<and>
   propagates (CustomDistilBertModel_init env c) \<and>
   propagates (CustomDistilBertModel_forward mc keep a) \<and>
   propagates (CustomDistilBertModel_training_step env mc keep batch'') \<and>
   propagates (CustomDistilBertModel_training_epoch_end env mc outs) \<and>
   propagates (CustomDistilBertModel_validation_step env mc keep batch'') \<and>
   propagates (CustomDistilBertModel_validation_epoch_end env mc outs) \<and>
   propagates (CustomDistilBertModel_test_step env mc keep batch'') \<and>
   propagates (CustomDistilBertModel_test_epoch_end env mc outs) \<and>
   propagates (CustomDistilBertModel_configure_optimizers mc)"
proof (intro conjI)
  show "propagates (BaseModel_init env c)" by (rule propagates_BaseModel_init)
  show "propagates (BiLSTMModel_init env c)" by (rule propagates_BiLSTMModel_init)
  show "propagates (CustomDistilBertModel_init env c)"
    by (rule propagates_CustomDistilBertModel_init)
  show "propagates (BaseModel_forward mb keep a b)" by (rule propagates_BaseModel_forward)
  show "propagates (BiLSTMModel_forward env ml keep a b)"
    by (rule propagates_BiLSTMModel_forward)
  show "propagates (CustomDistilBertModel_forward mc keep a)"
    by (rule propagates_CustomDistilBertModel_forward)
  show "propagates (BaseModel_training_step env mb keep batch)"
    unfolding BaseModel_training_step_def
    by (intro propagates_step_intros)
  show "propagates (BaseModel_validation_step env mb keep batch)"
    unfolding BaseModel_validation_step_def
    by (intro propagates_step_intros)
  show "propagates (BiLSTMModel_training_step env ml keep batch')"
    unfolding BiLSTMModel_training_step_def
    by (intro propagates_step_intros)
  show "propagates (BiLSTMModel_validation_step env ml keep batch')"
    unfolding BiLSTMModel_validation_step_def
    by (intro propagates_step_intros)
  show "propagates (CustomDistilBertModel_training_step env mc keep batch'')"
    unfolding CustomDistilBertModel_training_step_def
    by (intro propagates_CustomDistilBertModel_step propagates_intros)
  show "propagates (CustomDistilBertModel_validation_step env mc keep batch'')"
    unfolding CustomDistilBertModel_validation_step_def
    by (intro propagates_CustomDistilBertModel_step propagates_intros)
  show "propagates (CustomDistilBertModel_test_step env mc keep batch'')"
    unfolding CustomDistilBertModel_test_step_def
    by (intro propagates_CustomDistilBertModel_step propagates_intros)
  show "propagates (BaseModel_training_epoch_end env mb outs)"
    unfolding BaseModel_training_epoch_end_def by (intro propagates_intros)
  show "propagates (BaseModel_validation_epoch_end env mb outs)"
    unfolding BaseModel_validation_epoch_end_def by (intro propagates_intros)
  show "propagates (BiLSTMModel_training_epoch_end env ml outs)"
    unfolding BiLSTMModel_training_epoch_end_def by (intro propagates_intros)
  show "propagates (BiLSTMModel_validation_epoch_end env ml outs)"
    unfolding BiLSTMModel_validation_epoch_end_def by (intro propagates_intros)
  show "propagates (CustomDistilBertModel_training_epoch_end env mc outs)"
    unfolding CustomDistilBertModel_training_epoch_end_def by (intro propagates_intros)
  show "propagates (CustomDistilBertModel_validation_epoch_end env mc outs)"
    unfolding CustomDistilBertModel_validation_epoch_end_def by (intro propagates_intros)
  show "propagates (CustomDistilBertModel_test_epoch_end env mc outs)"
    unfolding CustomDistilBertModel_test_epoch_end_def by (intro propagates_intros)
  show "propagates (BaseModel_configure_optimizers mb)"
    unfolding BaseModel_configure_optimizers_def by (intro propagates_intros)
  show "propagates (BiLSTMModel_configure_optimizers ml)"
    unfolding BiLSTMModel_configure_optimizers_def by (intro propagates_intros)
  show "propagates (CustomDistilBertModel_configure_optimizers mc)"
    unfolding CustomDistilBertModel_configure_optimizers_def by (intro propagates_intros)
qed

theorem methods_propagate_exceptions_witness:
  "snd (BaseModel_init env_no_weights config_ex) = Inl OSError \<and>
   raised (fst (BaseModel_init env_no_weights config_ex)) = [OSError] \<and>
   snd (BaseModel_training_step env_no_device BaseModel_ex (\<lambda>i. True)
          (y_ex, encoded_ex, cats_ex, ())) = Inl RuntimeError \<and>
   raised (fst (BaseModel_training_step env_no_device BaseModel_ex (\<lambda>i. True)
          (y_ex, encoded_ex, cats_ex, ()))) = [RuntimeError] \<and>
   raised (fst (BaseModel_init env_ex config_ex)) = []"
proof -
  have a: "snd (BaseModel_init env_no_weights config_ex) = Inl OSError"
    by (simp add: BaseModel_init_def init_eval')
  have b: "snd (BaseModel_training_step env_no_device BaseModel_ex (\<lambda>i. True)
          (y_ex, encoded_ex, cats_ex, ())) = Inl RuntimeError"
    by (simp add: BaseModel_training_step_def ext_def)
  note inst1 = methods_propagate_exceptions
    [of env_no_weights config_ex BaseModel_ex "\<lambda>i. True" "Encoding encoded_ex"
      "FloatTensor cats_ex" "(y_ex, encoded_ex, cats_ex, ())"]
  note inst2 = methods_propagate_exceptions
    [of env_no_device config_ex BaseModel_ex "\<lambda>i. True" "Encoding encoded_ex"
      "FloatTensor cats_ex" "(y_ex, encoded_ex, cats_ex, ())"]
  note inst3 = methods_propagate_exceptions
    [of env_ex config_ex BaseModel_ex "\<lambda>i. True" "Encoding encoded_ex"
      "FloatTensor cats_ex" "(y_ex, encoded_ex, cats_ex, ())"]
  from inst1 have p1: "propagates (BaseModel_init env_no_weights config_ex)"
    by (rule conjunct1)
  from inst2 have p2: "propagates (BaseModel_training_step env_no_device BaseModel_ex
          (\<lambda>i. True) (y_ex, encoded_ex, cats_ex, ()))"
    by (rule conjunct1 [OF conjunct2 [OF conjunct2]])
  from inst3 have p3: "propagates (BaseModel_init env_ex config_ex)"
    by (rule conjunct1)
  have "raised (fst (BaseModel_init env_no_weights config_ex)) = [OSError]"
    using a p1 by (simp add: propagates_def)
  moreover have "raised (fst (BaseModel_training_step env_no_device BaseModel_ex (\<lambda>i. True)
          (y_ex, encoded_ex, cats_ex, ()))) = [RuntimeError]"
    using b p2 by (simp add: propagates_def)
  moreover have "raised (fst (BaseModel_init env_ex config_ex)) = []"
    using BaseModel_init_ex_eq p3 by (simp add: propagates_def)
  ultimately show ?thesis using a b by simp
qed

text \<open>
  C5 as stated fails: with the same environment, the construction of a \<^verbatim>\<open>BaseModel\<close> from
  two configurations that differ only in \<^verbatim>\<open>vocab_size\<close> (0 and 100) performs different
  sequences of operations, because of the branch on \<^verbatim>\<open>self.config["vocab_size"] == 0\<close>.
\<close>

theorem construction_branches_on_vocab_size:
  "snd (BaseModel_init env_ex config_ex) = Inr BaseModel_ex \<and>
   (\<exists>m. snd (BaseModel_init env_ex config_ex2) = Inr m) \<and>
   config_ex2 = config_ex(''vocab_size'' \<mapsto> PInt 100) \<and>
   fst (BaseModel_init env_ex config_ex) = BaseModel_init_ops True 1 \<and>
   fst (BaseModel_init env_ex config_ex2) = BaseModel_init_ops False 1 \<and>
   fst (BaseModel_init env_ex config_ex) \<noteq> fst (BaseModel_init env_ex config_ex2)"
proof -
  have a: "fst (BaseModel_init env_ex config_ex) = BaseModel_init_ops True 1"
    using BaseModel_init_ex_eq
    by (rule BaseModel_init_performs) (auto simp: py_eq_int_def)
  obtain m where m: "snd (BaseModel_init env_ex config_ex2) = Inr m"
    using BaseModel_init_ex2 by blast
  then have b: "fst (BaseModel_init env_ex config_ex2) = BaseModel_init_ops False 1"
    by (rule BaseModel_init_performs) (auto simp: py_eq_int_def config_ex2_def)
  have "length (BaseModel_init_ops True 1) \<noteq> length (BaseModel_init_ops False 1)"
    by (simp add: BaseModel_init_ops_def encoder_ops_def)
  then have "BaseModel_init_ops True 1 \<noteq> BaseModel_init_ops False 1" by auto
  with a b m BaseModel_init_ex_eq show ?thesis by (auto simp: config_ex2_def)
qed

text \<open>
  C5, amended. Every forward pass that returns has performed one fixed sequence of calls,
  whatever its inputs, and so has every construction of a \<^verbatim>\<open>BiLSTMModel\<close>. A
  construction of a \<^verbatim>\<open>BaseModel\<close> or of a \<^verbatim>\<open>CustomDistilBertModel\<close> that returns has
  performed a sequence that is fixed but for two things: the assignment to
  \<^verbatim>\<open>config["vocab_size"]\<close> is performed exactly when the entry was 0, and the freezing loop
  assigns once per parameter of the encoder. No operation is performed twice as a retry.
\<close>

theorem operations_of_construction_and_forward:
  "(snd (BaseModel_init env c) = Inr m \<longrightarrow>
      (\<exists>cfg v b. create_config env c = Inr cfg \<and> cfg ''vocab_size'' = Some v \<and>
         from_pretrained env ''distilbert-base-uncased'' = Inr b \<and>
         fst (BaseModel_init env c) =
           BaseModel_init_ops (py_eq_int v 0) (length (bert_parameters b)))) \<and>
   (snd (BiLSTMModel_init env c) = Inr m' \<longrightarrow>
      fst (BiLSTMModel_init env c) = BiLSTMModel_init_ops) \<and>
   (snd (CustomDistilBertModel_init env c) = Inr m'' \<longrightarrow>
      (\<exists>cfg v b. create_config env c = Inr cfg \<and> cfg ''vocab_size'' = Some v \<and>
         from_pretrained env ''distilbert-base-uncased'' = Inr b \<and>
         fst (CustomDistilBertModel_init env c) =
           CustomDistilBertModel_init_ops (py_eq_int v 0) (length (bert_parameters b)))) \<and>
   (snd (BaseModel_forward mb keep a b) = Inr out \<longrightarrow>
      fst (BaseModel_forward mb keep a b) = BaseModel_forward_ops) \<and>
   (snd (BiLSTMModel_forward env ml keep a b) = Inr out' \<longrightarrow>
      fst (BiLSTMModel_forward env ml keep a b) = BiLSTMModel_forward_ops) \<and>
   (snd (CustomDistilBertModel_forward mc keep a) = Inr out'' \<longrightarrow>
      fst (CustomDistilBertModel_forward mc keep a) = CustomDistilBertModel_forward_ops)"
proof (intro conjI impI)
  assume "snd (BaseModel_init env c) = Inr m"
  then show "\<exists>cfg v b. create_config env c = Inr cfg \<and> cfg ''vocab_size'' = Some v \<and>
         from_pretrained env ''distilbert-base-uncased'' = Inr b \<and>
         fst (BaseModel_init env c) =
           BaseModel_init_ops (py_eq_int v 0) (length (bert_parameters b))"
    by (rule BaseModel_init_performs) blast
next
  assume "snd (BiLSTMModel_init env c) = Inr m'"
  then show "fst (BiLSTMModel_init env c) = BiLSTMModel_init_ops"
    by (rule BiLSTMModel_init_performs)
next
  assume "snd (CustomDistilBertModel_init env c) = Inr m''"
  then show "\<exists>cfg v b. create_config env c = Inr cfg \<and> cfg ''vocab_size'' = Some v \<and>
         from_pretrained env ''distilbert-base-uncased'' = Inr b \<and>
         fst (CustomDistilBertModel_init env c) =
           CustomDistilBertModel_init_ops (py_eq_int v 0) (length (bert_parameters b))"
    by (rule CustomDistilBertModel_init_performs) blast
next
  assume "snd (BaseModel_forward mb keep a b) = Inr out"
  then show "fst (BaseModel_forward mb keep a b) = BaseModel_forward_ops"
    using performs_BaseModel_forward [of mb keep a b] by (simp add: performs_def)
next
  assume "snd (BiLSTMModel_forward env ml keep a b) = Inr out'"
  then show "fst (BiLSTMModel_forward env ml keep a b) = BiLSTMModel_forward_ops"
    using performs_BiLSTMModel_forward [of env ml keep a b] by (simp add: performs_def)
next
  assume "snd (CustomDistilBertModel_forward mc keep a) = Inr out''"
  then show "fst (CustomDistilBertModel_forward mc keep a) = CustomDistilBertModel_forward_ops"
    using performs_CustomDistilBertModel_forward [of mc keep a] by (simp add: performs_def)
qed

theorem operations_of_construction_and_forward_witness:
  "fst (BaseModel_init env_ex config_ex) = BaseModel_init_ops True 1 \<and>
   fst (BiLSTMModel_init env_ex config_ex) = BiLSTMModel_init_ops \<and>
   fst (CustomDistilBertModel_init env_ex config_ex) = CustomDistilBertModel_init_ops True 1 \<and>
   fst (BaseModel_forward BaseModel_ex (\<lambda>i. True) (Encoding encoded_ex) (FloatTensor cats_ex)) =
     BaseModel_forward_ops \<and>
   fst (BiLSTMModel_forward env_ex BiLSTMModel_ex2 (\<lambda>i. True) (IntTensor ids_ex)
          (FloatTensor cats_ex)) = BiLSTMModel_forward_ops \<and>
   fst (CustomDistilBertModel_forward CustomDistilBertModel_ex (\<lambda>i. True) (Encoding encoded_ex)) =
     CustomDistilBertModel_forward_ops"
proof -
  note inst1 = operations_of_construction_and_forward
    [of env_ex config_ex BaseModel_ex BiLSTMModel_ex CustomDistilBertModel_ex
      BaseModel_ex "\<lambda>i. True" "Encoding encoded_ex" "FloatTensor cats_ex"
      "\<lparr>shape = [2, 1], data = [15 / 2, 15 / 2]\<rparr>" BiLSTMModel_ex2 _
      CustomDistilBertModel_ex
      "\<lparr>shape = [2, 4], data = [7 / 2, 7 / 2, 7 / 2, 7 / 2, 7 / 2, 7 / 2, 7 / 2, 7 / 2]\<rparr>"]
  note inst2 = operations_of_construction_and_forward
    [of env_ex config_ex BaseModel_ex BiLSTMModel_ex CustomDistilBertModel_ex
      BaseModel_ex "\<lambda>i. True" "IntTensor ids_ex" "FloatTensor cats_ex"
      _ BiLSTMModel_ex2 "\<lparr>shape = [2, 1], data = [5, 5]\<rparr>"]
  have "fst (BaseModel_init env_ex config_ex) = BaseModel_init_ops True 1"
    using BaseModel_init_ex_eq inst1 by (auto simp: py_eq_int_def)
  moreover have "fst (BiLSTMModel_init env_ex config_ex) = BiLSTMModel_init_ops"
    using BiLSTMModel_init_ex_eq inst1 by simp
  moreover have "fst (CustomDistilBertModel_init env_ex config_ex) =
      CustomDistilBertModel_init_ops True 1"
    using CustomDistilBertModel_init_ex_eq inst1 by (auto simp: py_eq_int_def)
  moreover have "fst (BaseModel_forward BaseModel_ex (\<lambda>i. True) (Encoding encoded_ex)
      (FloatTensor cats_ex)) = BaseModel_forward_ops"
    using BaseModel_forward_ex inst1 by simp
  moreover have "fst (BiLSTMModel_forward env_ex BiLSTMModel_ex2 (\<lambda>i. True) (IntTensor ids_ex)
          (FloatTensor cats_ex)) = BiLSTMModel_forward_ops"
    using BiLSTMModel_forward_ex inst2 by simp
  moreover have "fst (CustomDistilBertModel_forward CustomDistilBertModel_ex (\<lambda>i. True)
      (Encoding encoded_ex)) = CustomDistilBertModel_forward_ops"
    using CustomDistilBertModel_forward_ex inst1 by simp
  ultimately show ?thesis by simp
qed




text \<open>
  C9. In \<^verbatim>\<open>BaseModel\<close> the training loss and the validation loss are computed by
  equivalent formulas: for predictions \<open>y_hat\<close> of shape \<open>(bs, 1)\<close> and targets \<open>y\<close> of
  shape \<open>(bs)\<close>, \<^verbatim>\<open>F.mse_loss(y_hat.view(-1), y.view(-1))\<close> of \<^verbatim>\<open>training_step\<close> and
  \<^verbatim>\<open>F.mse_loss(y_hat, y.unsqueeze(1))\<close> of \<^verbatim>\<open>validation_step\<close> are the same value, the
  mean of the squared differences; and where the model returns such predictions and no
  framework call fails, the two steps return that same loss. The batch is not empty,
  \<open>0 < bs\<close>: on an empty batch both steps compute the mean of no element, \<^verbatim>\<open>nan\<close>, which
  is equal to no number, itself included.
\<close>

theorem training_and_validation_loss_agree:
  assumes "shape y_hat = [bs, 1]" and "shape y = [bs]"
    and "wf_tensor y_hat" and "wf_tensor y" and "0 < bs"
  shows "and_then (view_flat y_hat) (\<lambda>a. and_then (view_flat y) (\<lambda>b. F_mse_loss a b)) =
           and_then (unsqueeze1 y) (\<lambda>t. F_mse_loss y_hat t) \<and>
         and_then (unsqueeze1 y) (\<lambda>t. F_mse_loss y_hat t) =
           Inr \<lparr>shape = [],
                data = [Num (sum_list (map2 (\<lambda>a b. (a - b) * (a - b)) (data y_hat) (data y)) /
                             real bs)]\<rparr> \<and>
         (snd (BaseModel_call self keep [Encoding encoded_texts, FloatTensor category_vectors])
            = Inr y_hat \<and> (\<forall>n. fails env n = None) \<longrightarrow>
          (\<exists>loss self' self''.
             and_then (unsqueeze1 y) (\<lambda>t. F_mse_loss y_hat t) = Inr loss \<and>
             snd (BaseModel_training_step env self keep
                    (y, encoded_texts, category_vectors, u)) = Inr ([(''loss'', loss)], self') \<and>
             snd (BaseModel_validation_step env self keep
                    (y, encoded_texts, category_vectors, u)) =
               Inr ([(''val_loss'', loss)], self'')))"
proof -
  let ?loss = "\<lparr>shape = [],
                data = [Num (sum_list (map2 (\<lambda>a b. (a - b) * (a - b)) (data y_hat) (data y)) /
                             real bs)]\<rparr>"
  have v1: "view_flat y_hat = Inr \<lparr>shape = [bs], data = data y_hat\<rparr>"
    and v2: "view_flat y = Inr \<lparr>shape = [bs], data = data y\<rparr>"
    and u: "unsqueeze1 y = Inr \<lparr>shape = [bs, 1], data = data y\<rparr>"
    using assms by (simp_all add: view_flat_def unsqueeze1_def)
  have t: "F_mse_loss \<lparr>shape = [bs], data = data y_hat\<rparr> \<lparr>shape = [bs], data = data y\<rparr> = Inr ?loss"
    using F_mse_loss_same_shape [of "\<lparr>shape = [bs], data = data y_hat\<rparr>"
        "\<lparr>shape = [bs], data = data y\<rparr>"] assms
    by (simp add: wf_tensor_def)
  have w: "F_mse_loss y_hat \<lparr>shape = [bs, 1], data = data y\<rparr> = Inr ?loss"
    using F_mse_loss_same_shape [of y_hat "\<lparr>shape = [bs, 1], data = data y\<rparr>"] assms
    by (simp add: wf_tensor_def)
  have w': "F_mse_loss y_hat \<lparr>shape = [bs, Suc 0], data = data y\<rparr> = Inr ?loss"
    using w by simp
  have train: "and_then (view_flat y_hat) (\<lambda>a. and_then (view_flat y) (\<lambda>b. F_mse_loss a b)) =
      Inr ?loss"
    by (simp add: and_then_def v1 v2 t)
  have val: "and_then (unsqueeze1 y) (\<lambda>t. F_mse_loss y_hat t) = Inr ?loss"
    by (simp add: and_then_def u w')
  have steps: "\<exists>loss self' self''.
             and_then (unsqueeze1 y) (\<lambda>t. F_mse_loss y_hat t) = Inr loss \<and>
             snd (BaseModel_training_step env self keep
                    (y, encoded_texts, category_vectors, u)) = Inr ([(''loss'', loss)], self') \<and>
             snd (BaseModel_validation_step env self keep
                    (y, encoded_texts, category_vectors, u)) =
               Inr ([(''val_loss'', loss)], self'')"
    if c: "snd (BaseModel_call self keep [Encoding encoded_texts, FloatTensor category_vectors])
            = Inr y_hat" and f: "\<forall>n. fails env n = None"
  proof -
    have "snd (BaseModel_training_step env self keep (y, encoded_texts, category_vectors, u)) =
        Inr ([(''loss'', ?loss)],
             self\<lparr>BaseModel.train_metric :=
                    BaseModel.train_metric self @ [(y_hat, \<lparr>shape = [bs, 1], data = data y\<rparr>)],
                  logged := logged self @ [(''train_loss'', ?loss)]\<rparr>)"
      using f assms(1)
      by (simp add: BaseModel_training_step_def bind_exec_Inr [OF c] v1 v2 t u metric_update_def)
    moreover
    have "snd (BaseModel_validation_step env self keep (y, encoded_texts, category_vectors, u)) =
        Inr ([(''val_loss'', ?loss)],
             self\<lparr>BaseModel.val_metric :=
                    BaseModel.val_metric self @ [(y_hat, \<lparr>shape = [bs, 1], data = data y\<rparr>)],
                  logged := logged self @ [(''val_loss'', ?loss)]\<rparr>)"
      using f assms(1)
      by (simp add: BaseModel_validation_step_def bind_exec_Inr [OF c] w' u
          metric_update_def)
    ultimately show ?thesis using val by blast
  qed
  from train val steps show ?thesis by simp
qed

theorem training_and_validation_loss_agree_witness:
  "shape \<lparr>shape = [2, 1], data = [15 / 2, 15 / 2 :: real]\<rparr> = [2, 1] \<and> shape y_ex = [2] \<and>
   wf_tensor \<lparr>shape = [2, 1], data = [15 / 2, 15 / 2 :: real]\<rparr> \<and> wf_tensor y_ex \<and>
   0 < (2 :: nat) \<and>
   and_then (view_flat \<lparr>shape = [2, 1], data = [15 / 2, 15 / 2]\<rparr>)
     (\<lambda>a. and_then (view_flat y_ex) (\<lambda>b. F_mse_loss a b)) =
     Inr \<lparr>shape = [], data = [Num (277 / 8)]\<rparr> \<and>
   and_then (unsqueeze1 y_ex) (\<lambda>t. F_mse_loss \<lparr>shape = [2, 1], data = [15 / 2, 15 / 2]\<rparr> t) =
     Inr \<lparr>shape = [], data = [Num (277 / 8)]\<rparr> \<and>
   (\<exists>self' self''.
      snd (BaseModel_training_step env_ex BaseModel_ex (\<lambda>i. True)
             (y_ex, encoded_ex, cats_ex, ())) =
        Inr ([(''loss'', \<lparr>shape = [], data = [Num (277 / 8)]\<rparr>)], self') \<and>
      snd (BaseModel_validation_step env_ex BaseModel_ex (\<lambda>i. True)
             (y_ex, encoded_ex, cats_ex, ())) =
        Inr ([(''val_loss'', \<lparr>shape = [], data = [Num (277 / 8)]\<rparr>)], self''))"
proof -
  let ?y_hat = "\<lparr>shape = [2, 1], data = [15 / 2, 15 / 2]\<rparr> :: real tensor"
  have h: "shape ?y_hat = [2, 1]" "shape y_ex = [2]" "wf_tensor ?y_hat" "wf_tensor y_ex"
    "0 < (2 :: nat)"
    by (simp_all add: y_ex_def wf_tensor_def)
  have c: "snd (BaseModel_call BaseModel_ex (\<lambda>i. True) [Encoding encoded_ex, FloatTensor cats_ex])
      = Inr ?y_hat"
    by (simp add: BaseModel_call_def BaseModel_forward_ex)
  have v: "[Num (sum_list (map2 (\<lambda>a b. (a - b) * (a - b)) (data ?y_hat) (data y_ex)) / real 2)] =
      [Num (277 / 8)]"
    by (simp add: y_ex_def)
  note inst = training_and_validation_loss_agree
    [OF h, of BaseModel_ex "\<lambda>i. True" encoded_ex cats_ex env_ex "()"]
  from inst c show ?thesis
    unfolding v using h by auto
qed

text \<open>
  C3. On a batch of \<open>bs\<close> texts the forward pass returns a tensor of shape \<open>(bs, 1)\<close> in a
  constructed \<^verbatim>\<open>BaseModel\<close> and \<^verbatim>\<open>BiLSTMModel\<close>, and of shape \<open>(bs, 4)\<close>, one logit for
  each of the \<open>num_classes = 4\<close> classes, in a constructed \<^verbatim>\<open>CustomDistilBertModel\<close>; in
  training mode and in evaluation mode, whatever the dropout mask. The batch is well
  shaped:

    \<^item> for the two DistilBERT models the encoding has the entries \<^verbatim>\<open>input_ids\<close> and
      \<^verbatim>\<open>attention_mask\<close>, and on them the encoder returns a first output, the hidden
      state, of shape \<open>(bs, seq, dim)\<close> with \<open>0 < seq\<close>;
    \<^item> for \<^verbatim>\<open>BiLSTMModel\<close> the token ids have shape \<open>(bs, seq)\<close> with \<open>0 < seq\<close> and are
      indices of the embedding table, and the LSTM returns, for an input of shape
      \<open>(bs, seq, embedding_dim)\<close>, an output sequence of shape
      \<open>(bs, seq, 2 * bilstm_hidden_dim)\<close>;
    \<^item> the categorical vectors have shape \<open>(bs, category_encoded_length)\<close>.
\<close>

theorem forward_output_shapes:
  "(snd (BaseModel_init env c) = Inr m \<and>
    e ''input_ids'' = Some input_ids \<and> e ''attention_mask'' = Some attention_mask \<and>
    bert_forward (BaseModel.bert m) input_ids attention_mask = Inr (hs # rest) \<and>
    dim (bert_config (BaseModel.bert m)) = int d \<and>
    shape hs = [bs, seq, d] \<and> wf_tensor hs \<and> 0 < seq \<and>
    config_size (config m) ''category_encoded_length'' = Some cel \<and>
    shape cv = [bs, cel] \<longrightarrow>
    (\<exists>out. snd (BaseModel_forward (m\<lparr>training := tr\<rparr>) keep (Encoding e) (FloatTensor cv))
             = Inr out \<and>
           shape out = [bs, 1] \<and> wf_tensor out)) \<and>
   (snd (BiLSTMModel_init env c') = Inr m' \<and>
    config_size (config m') ''vocab_size'' = Some v \<and>
    config_size (config m') ''embedding_dim'' = Some ed \<and>
    config_size (config m') ''bilstm_hidden_dim'' = Some hdim \<and>
    config_size (config m') ''category_encoded_length'' = Some cel \<and>
    shape token_ids = [bs, seq] \<and> wf_tensor token_ids \<and> 0 < seq \<and>
    (\<forall>i\<in>set (data token_ids). 0 \<le> i \<and> i < int v) \<and>
    (\<forall>x. shape x = [bs, seq, ed] \<and> wf_tensor x \<longrightarrow>
       (\<exists>out st. torch_lstm env (bilstm m') x = Inr (out, st) \<and>
                 shape out = [bs, seq, 2 * hdim] \<and> wf_tensor out)) \<and>
    shape cv = [bs, cel] \<longrightarrow>
    (\<exists>out. snd (BiLSTMModel_forward env (m'\<lparr>training := tr\<rparr>) keep (IntTensor token_ids)
                  (FloatTensor cv)) = Inr out \<and>
           shape out = [bs, 1] \<and> wf_tensor out)) \<and>
   (snd (CustomDistilBertModel_init env c'') = Inr m'' \<and>
    e ''input_ids'' = Some input_ids \<and> e ''attention_mask'' = Some attention_mask \<and>
    bert_forward (CustomDistilBertModel.bert m'') input_ids attention_mask = Inr (hs # rest) \<and>
    dim (bert_config (CustomDistilBertModel.bert m'')) = int d \<and>
    shape hs = [bs, seq, d] \<and> wf_tensor hs \<and> 0 < seq \<longrightarrow>
    num_classes m'' = 4 \<and>
    (\<exists>out. snd (CustomDistilBertModel_forward (m''\<lparr>training := tr\<rparr>) keep (Encoding e))
             = Inr out \<and>
           shape out = [bs, 4] \<and> wf_tensor out))"
proof (intro conjI impI; (elim conjE)?)
  assume a: "snd (BaseModel_init env c) = Inr m"
    "e ''input_ids'' = Some input_ids" "e ''attention_mask'' = Some attention_mask"
    "bert_forward (BaseModel.bert m) input_ids attention_mask = Inr (hs # rest)"
    "dim (bert_config (BaseModel.bert m)) = int d"
    "shape hs = [bs, seq, d]" "wf_tensor hs" "0 < seq"
    "config_size (config m) ''category_encoded_length'' = Some cel"
    "shape cv = [bs, cel]"
  show "\<exists>out. snd (BaseModel_forward (m\<lparr>training := tr\<rparr>) keep (Encoding e) (FloatTensor cv))
             = Inr out \<and> shape out = [bs, 1] \<and> wf_tensor out"
  proof (rule BaseModel_forward_run [OF a, where tr = tr and keep = keep])
    fix ceo features w b
    assume w: "shape (pdata w) = [1, d + ceo]" "wf_tensor (pdata w)"
      and b: "shape (pdata b) = [1]" "wf_tensor (pdata b)"
      and f: "shape features = [bs, d + ceo]"
      and out: "snd (BaseModel_forward (m\<lparr>training := tr\<rparr>) keep (Encoding e)
                  (FloatTensor cv)) = F_linear features (pdata w) (pdata b)"
    show ?thesis
      unfolding out F_linear_one_output [OF w b f]
      by (simp add: wf_tensor_def)
  qed
next
  assume i: "snd (BiLSTMModel_init env c') = Inr m'"
    and v: "config_size (config m') ''vocab_size'' = Some v"
    and ed: "config_size (config m') ''embedding_dim'' = Some ed"
    and hdim: "config_size (config m') ''bilstm_hidden_dim'' = Some hdim"
    and cel: "config_size (config m') ''category_encoded_length'' = Some cel"
    and ids: "shape token_ids = [bs, seq]" "wf_tensor token_ids"
    and pos: "0 < seq"
    and rng: "\<forall>i\<in>set (data token_ids). 0 \<le> i \<and> i < int v"
    and l: "\<forall>x. shape x = [bs, seq, ed] \<and> wf_tensor x \<longrightarrow>
       (\<exists>out st. torch_lstm env (bilstm m') x = Inr (out, st) \<and>
                 shape out = [bs, seq, 2 * hdim] \<and> wf_tensor out)"
    and cv: "shape cv = [bs, cel]"
  have lstm: "\<exists>out st. torch_lstm env (bilstm m') x = Inr (out, st) \<and>
                 shape out = [bs, seq, 2 * hdim] \<and> wf_tensor out"
    if "shape x = [bs, seq, ed]" "wf_tensor x" for x
    using l that by blast
  show "\<exists>out. snd (BiLSTMModel_forward env (m'\<lparr>training := tr\<rparr>) keep (IntTensor token_ids)
                  (FloatTensor cv)) = Inr out \<and> shape out = [bs, 1] \<and> wf_tensor out"
    by (rule BiLSTMModel_forward_run [OF i v ed hdim cel ids rng pos lstm cv,
          where tr = tr and keep = keep]) auto
next
  assume "snd (CustomDistilBertModel_init env c'') = Inr m''"
  then show "num_classes m'' = 4"
    by (rule CustomDistilBertModel_init_layersE)
next
  assume a: "snd (CustomDistilBertModel_init env c'') = Inr m''"
    "e ''input_ids'' = Some input_ids" "e ''attention_mask'' = Some attention_mask"
    "bert_forward (CustomDistilBertModel.bert m'') input_ids attention_mask = Inr (hs # rest)"
    "dim (bert_config (CustomDistilBertModel.bert m'')) = int d"
    "shape hs = [bs, seq, d]" "wf_tensor hs" "0 < seq"
  show "\<exists>out. snd (CustomDistilBertModel_forward (m''\<lparr>training := tr\<rparr>) keep (Encoding e))
             = Inr out \<and> shape out = [bs, 4] \<and> wf_tensor out"
    by (rule CustomDistilBertModel_forward_run [OF a, where tr = tr and keep = keep]) auto
qed

theorem forward_output_shapes_witness:
  "snd (BaseModel_init env_ex config_ex) = Inr BaseModel_ex \<and>
   snd (BiLSTMModel_init env_ex config_ex2) = Inr BiLSTMModel_ex2 \<and>
   snd (CustomDistilBertModel_init env_ex config_ex) = Inr CustomDistilBertModel_ex \<and>
   shape cats_ex = [2, 3] \<and> shape ids_ex = [2, 3] \<and> set (data ids_ex) \<subseteq> {0..<100} \<and>
   (\<exists>out. snd (BaseModel_forward BaseModel_ex (\<lambda>i. True) (Encoding encoded_ex)
                 (FloatTensor cats_ex)) = Inr out \<and> shape out = [2, 1]) \<and>
   (\<exists>out. snd (BiLSTMModel_forward env_ex BiLSTMModel_ex2 (\<lambda>i. True) (IntTensor ids_ex)
                 (FloatTensor cats_ex)) = Inr out \<and> shape out = [2, 1]) \<and>
   num_classes CustomDistilBertModel_ex = 4 \<and>
   (\<exists>out. snd (CustomDistilBertModel_forward CustomDistilBertModel_ex (\<lambda>i. True)
                 (Encoding encoded_ex)) = Inr out \<and> shape out = [2, 4])"
proof -
  note inst = forward_output_shapes
    [where env = env_ex and c = config_ex and m = BaseModel_ex and e = encoded_ex
       and input_ids = "\<lparr>shape = [2, 3], data = [101, 7, 102, 101, 8, 102]\<rparr>"
       and attention_mask = "\<lparr>shape = [2, 3], data = [1, 1, 1, 1, 1, 1]\<rparr>"
       and hs = "zeros [2, 3, 2]" and rest = "[]" and d = 2 and bs = 2 and seq = 3
       and cel = 3 and cv = cats_ex and tr = True and keep = "\<lambda>i. True"
       and c' = config_ex2 and m' = BiLSTMModel_ex2 and v = 100 and ed = 2 and hdim = 1
       and token_ids = ids_ex and c'' = config_ex and m'' = CustomDistilBertModel_ex]
  have upd: "BaseModel_ex\<lparr>training := True\<rparr> = BaseModel_ex"
    "BiLSTMModel_ex2\<lparr>training := True\<rparr> = BiLSTMModel_ex2"
    "CustomDistilBertModel_ex\<lparr>training := True\<rparr> = CustomDistilBertModel_ex"
    by (simp_all add: BaseModel_ex_def BiLSTMModel_ex2_def BiLSTMModel_ex_def
        CustomDistilBertModel_ex_def)
  have enc: "encoded_ex ''input_ids'' = Some \<lparr>shape = [2, 3], data = [101, 7, 102, 101, 8, 102]\<rparr>"
    "encoded_ex ''attention_mask'' = Some \<lparr>shape = [2, 3], data = [1, 1, 1, 1, 1, 1]\<rparr>"
    by (simp_all add: encoded_ex_def)
  have hs: "shape (zeros [2, 3, 2]) = [2, 3, 2]" "wf_tensor (zeros [2, 3, 2])"
    by (simp_all add: zeros_def wf_tensor_def)
  have base: "bert_forward (BaseModel.bert BaseModel_ex)
       \<lparr>shape = [2, 3], data = [101, 7, 102, 101, 8, 102]\<rparr>
       \<lparr>shape = [2, 3], data = [1, 1, 1, 1, 1, 1]\<rparr> = Inr [zeros [2, 3, 2]]"
    "dim (bert_config (BaseModel.bert BaseModel_ex)) = int 2"
    "config_size (config BaseModel_ex) ''category_encoded_length'' = Some 3"
    by (simp_all add: BaseModel_ex_def bert_ex_def config_size_def config_ex_def)
  have custom: "bert_forward (CustomDistilBertModel.bert CustomDistilBertModel_ex)
       \<lparr>shape = [2, 3], data = [101, 7, 102, 101, 8, 102]\<rparr>
       \<lparr>shape = [2, 3], data = [1, 1, 1, 1, 1, 1]\<rparr> = Inr [zeros [2, 3, 2]]"
    "dim (bert_config (CustomDistilBertModel.bert CustomDistilBertModel_ex)) = int 2"
    by (simp_all add: CustomDistilBertModel_ex_def bert_ex_def)
  have bilstm: "config_size (config BiLSTMModel_ex2) ''vocab_size'' = Some 100"
    "config_size (config BiLSTMModel_ex2) ''embedding_dim'' = Some 2"
    "config_size (config BiLSTMModel_ex2) ''bilstm_hidden_dim'' = Some 1"
    "config_size (config BiLSTMModel_ex2) ''category_encoded_length'' = Some 3"
    by (simp_all add: BiLSTMModel_ex2_def BiLSTMModel_ex_def config_size_def config_ex2_def
        config_ex_def)
  have ids: "shape ids_ex = [2, 3]" "wf_tensor ids_ex"
    "\<forall>i\<in>set (data ids_ex). 0 \<le> i \<and> i < int 100" "set (data ids_ex) \<subseteq> {0..<100}"
    by (simp_all add: ids_ex_def wf_tensor_def)
  have lstm: "\<forall>x. shape x = [2, 3, 2] \<and> wf_tensor x \<longrightarrow>
       (\<exists>out st. torch_lstm env_ex (bilstm BiLSTMModel_ex2) x = Inr (out, st) \<and>
                 shape out = [2, 3, 2 * 1] \<and> wf_tensor out)"
    by (simp add: env_ex_def zeros_def wf_tensor_def)
  have cats: "shape cats_ex = [2, 3]"
    by (simp add: cats_ex_def)
  have one: "\<exists>out. snd (BaseModel_forward BaseModel_ex (\<lambda>i. True) (Encoding encoded_ex)
                 (FloatTensor cats_ex)) = Inr out \<and> shape out = [2, 1]"
    using inst [THEN conjunct1] BaseModel_init_ex_eq enc hs base cats
    unfolding upd by auto
  have two: "\<exists>out. snd (BiLSTMModel_forward env_ex BiLSTMModel_ex2 (\<lambda>i. True) (IntTensor ids_ex)
                 (FloatTensor cats_ex)) = Inr out \<and> shape out = [2, 1]"
    using inst [THEN conjunct2, THEN conjunct1] BiLSTMModel_init_ex2_eq bilstm ids(1-3) lstm cats
    unfolding upd by auto
  have three: "num_classes CustomDistilBertModel_ex = 4 \<and>
     (\<exists>out. snd (CustomDistilBertModel_forward CustomDistilBertModel_ex (\<lambda>i. True)
                 (Encoding encoded_ex)) = Inr out \<and> shape out = [2, 4])"
    using inst [THEN conjunct2, THEN conjunct2] CustomDistilBertModel_init_ex_eq enc hs custom
    unfolding upd by auto
  from one two three BaseModel_init_ex_eq BiLSTMModel_init_ex2_eq
    CustomDistilBertModel_init_ex_eq cats ids
  show ?thesis by simp
qed

text \<open>
  C4. \<^verbatim>\<open>BaseModel.forward\<close> yields the result of the single linear layer \<^verbatim>\<open>classifier\<close> on
  the concatenation, along the feature dimension, of the pooled transformer output and
  the encoded categorical vector. On a well-shaped batch of \<open>bs\<close> texts (as in C3):

    \<^item> \<open>cls\<close> is the hidden state at sequence position 0: of each text's \<open>seq * dim\<close>
      numbers the first \<open>dim\<close>;
    \<^item> \<open>pooled\<close>, of shape \<open>(bs, dim)\<close>, is \<open>cls\<close> after the \<^verbatim>\<open>distilbert_tail\<close> layers;
    \<^item> \<open>encoded\<close>, of shape \<open>(bs, category_encoder_out)\<close>, is \<^verbatim>\<open>category_encoder\<close> applied
      to the categorical vectors;
    \<^item> \<open>features\<close>, of shape \<open>(bs, dim + category_encoder_out)\<close>, is their concatenation:
      its row for a text is the text's row of \<open>pooled\<close> followed by its row of
      \<open>encoded\<close>;
    \<^item> the result is the linear layer \<^verbatim>\<open>classifier\<close>, with the one row \<open>w\<close> of weights and
      the bias \<open>b\<close>, applied to \<open>features\<close>: for each text the number
      \<open>w \<cdot> (pooled row @ encoded row) + b\<close>.
\<close>

theorem BaseModel_forward_classifies_concatenation:
  assumes "snd (BaseModel_init env c) = Inr m"
    and "e ''input_ids'' = Some input_ids" and "e ''attention_mask'' = Some attention_mask"
    and "bert_forward (BaseModel.bert m) input_ids attention_mask = Inr (hs # rest)"
    and "dim (bert_config (BaseModel.bert m)) = int d"
    and "shape hs = [bs, seq, d]" and "wf_tensor hs" and "0 < seq"
    and "config_size (config m) ''category_encoded_length'' = Some cel"
    and "shape cv = [bs, cel]"
  shows "\<exists>ceo cls pooled encoded features w b.
    config_size (config m) ''category_encoder_out'' = Some ceo \<and>
    select1 hs 0 = Inr cls \<and>
    data cls = concat (map (take d) (rows bs (seq * d) (data hs))) \<and>
    layer_forward tr keep (BaseModel.distilbert_tail m) cls = Inr pooled \<and>
    shape pooled = [bs, d] \<and>
    layer_forward tr keep (BaseModel.category_encoder m) cv = Inr encoded \<and>
    shape encoded = [bs, ceo] \<and>
    cat1 pooled encoded = Inr features \<and>
    shape features = [bs, d + ceo] \<and>
    rows bs (d + ceo) (data features) =
      map2 (@) (rows bs d (data pooled)) (rows bs ceo (data encoded)) \<and>
    BaseModel.classifier m = Linear w b \<and>
    shape (pdata w) = [1, d + ceo] \<and> shape (pdata b) = [1] \<and>
    snd (BaseModel_forward (m\<lparr>training := tr\<rparr>) keep (Encoding e) (FloatTensor cv)) =
      layer_forward tr keep (BaseModel.classifier m) features \<and>
    snd (BaseModel_forward (m\<lparr>training := tr\<rparr>) keep (Encoding e) (FloatTensor cv)) =
      Inr \<lparr>shape = [bs, 1],
           data = map2 (\<lambda>p c. dot (p @ c) (data (pdata w)) + hd (data (pdata b)))
                    (rows bs d (data pooled)) (rows bs ceo (data encoded))\<rparr>"
proof (rule BaseModel_forward_run [OF assms, where tr = tr and keep = keep])
  fix ceo cls pooled encoded features w b
  assume ceo: "config_size (config m) ''category_encoder_out'' = Some ceo"
    and cls: "select1 hs 0 = Inr cls"
    and pooled: "layer_forward tr keep (BaseModel.distilbert_tail m) cls = Inr pooled"
      "shape pooled = [bs, d]" "wf_tensor pooled"
    and encoded: "layer_forward tr keep (BaseModel.category_encoder m) cv = Inr encoded"
      "shape encoded = [bs, ceo]" "wf_tensor encoded"
    and features: "cat1 pooled encoded = Inr features" "shape features = [bs, d + ceo]"
      "data features = concat (map2 (@) (rows bs d (data pooled)) (rows bs ceo (data encoded)))"
    and classifier: "BaseModel.classifier m = Linear w b"
    and w: "shape (pdata w) = [1, d + ceo]" "wf_tensor (pdata w)"
    and b: "shape (pdata b) = [1]" "wf_tensor (pdata b)"
    and out: "snd (BaseModel_forward (m\<lparr>training := tr\<rparr>) keep (Encoding e) (FloatTensor cv)) =
           F_linear features (pdata w) (pdata b)"
  have dcls: "data cls = concat (map (take d) (rows bs (seq * d) (data hs)))"
    using select1_first [OF assms(6) assms(8)] cls by auto
  have lp: "length (data pooled) = bs * d" and le: "length (data encoded) = bs * ceo"
    using pooled encoded by (simp_all add: wf_tensor_def)
  have "length r = d + ceo"
    if "r \<in> set (map2 (@) (rows bs d (data pooled)) (rows bs ceo (data encoded)))" for r
  proof -
    from that obtain p q where pq: "(p, q) \<in> set (zip (rows bs d (data pooled))
        (rows bs ceo (data encoded)))" and r: "r = p @ q"
      by auto
    from pq have "p \<in> set (rows bs d (data pooled))" "q \<in> set (rows bs ceo (data encoded))"
      by (auto dest: set_zip_leftD set_zip_rightD)
    then have "length p = d" "length q = ceo"
      using rows_lengths [OF lp] rows_lengths [OF le] by simp_all
    with r show ?thesis by simp
  qed
  then have rows: "rows bs (d + ceo) (data features) =
      map2 (@) (rows bs d (data pooled)) (rows bs ceo (data encoded))"
    unfolding features(3) by (intro rows_concat) simp_all
  have layer: "layer_forward tr keep (BaseModel.classifier m) features =
      F_linear features (pdata w) (pdata b)"
    by (simp add: classifier)
  have val: "F_linear features (pdata w) (pdata b) =
      Inr \<lparr>shape = [bs, 1],
           data = map2 (\<lambda>p c. dot (p @ c) (data (pdata w)) + hd (data (pdata b)))
                    (rows bs d (data pooled)) (rows bs ceo (data encoded))\<rparr>"
    unfolding F_linear_one_output [OF w b features(2)] rows
    by (simp add: case_prod_unfold comp_def)
  show ?thesis
    using ceo cls dcls pooled(1,2) encoded(1,2) features(1,2) rows classifier w(1) b(1)
      out layer val
    by (intro exI [of _ ceo] exI [of _ cls] exI [of _ pooled] exI [of _ encoded]
        exI [of _ features] exI [of _ w] exI [of _ b]) simp
qed

theorem BaseModel_forward_classifies_concatenation_witness:
  "snd (BaseModel_init env_ex3 config_ex) = Inr BaseModel_ex3 \<and>
   bert_forward (BaseModel.bert BaseModel_ex3)
     \<lparr>shape = [2, 3], data = [1, 7, 2, 3, 8, 2]\<rparr>
     \<lparr>shape = [2, 3], data = [1, 1, 1, 1, 1, 1]\<rparr> = Inr [hidden_ex3] \<and>
   layer_forward False (\<lambda>i. True) (BaseModel.distilbert_tail BaseModel_ex3)
     \<lparr>shape = [2, 2], data = [1, 1, 3, 1]\<rparr> = Inr \<lparr>shape = [2, 2], data = [4, 9, 6, 15]\<rparr> \<and>
   layer_forward False (\<lambda>i. True) (BaseModel.category_encoder BaseModel_ex3) cats_ex =
     Inr \<lparr>shape = [2, 2], data = [2, 6, 3, 7]\<rparr> \<and>
   snd (BaseModel_forward (BaseModel_ex3\<lparr>training := False\<rparr>) (\<lambda>i. True)
          (Encoding encoded_ex3) (FloatTensor cats_ex)) =
     Inr \<lparr>shape = [2, 1],
          data = [dot ([4, 9] @ [2, 6]) [1, 2, 3, 4] + 1, dot ([6, 15] @ [3, 7]) [1, 2, 3, 4] + 1]\<rparr> \<and>
   snd (BaseModel_forward (BaseModel_ex3\<lparr>training := False\<rparr>) (\<lambda>i. True)
          (Encoding encoded_ex3) (FloatTensor cats_ex)) =
     Inr \<lparr>shape = [2, 1], data = [53, 74]\<rparr>"
proof -
  have enc: "encoded_ex3 ''input_ids'' = Some \<lparr>shape = [2, 3], data = [1, 7, 2, 3, 8, 2]\<rparr>"
    "encoded_ex3 ''attention_mask'' = Some \<lparr>shape = [2, 3], data = [1, 1, 1, 1, 1, 1]\<rparr>"
    by (simp_all add: encoded_ex3_def)
  have bert: "bert_forward (BaseModel.bert BaseModel_ex3)
       \<lparr>shape = [2, 3], data = [1, 7, 2, 3, 8, 2]\<rparr>
       \<lparr>shape = [2, 3], data = [1, 1, 1, 1, 1, 1]\<rparr> = Inr [hidden_ex3]"
    by (simp add: BaseModel_ex3_def bert_ex3_def bert_ex_def hidden_ex3_def)
  have d: "dim (bert_config (BaseModel.bert BaseModel_ex3)) = int 2"
    by (simp add: BaseModel_ex3_def)
  have hs: "shape hidden_ex3 = [2, 3, 2]" "wf_tensor hidden_ex3" "0 < (3 :: nat)"
    by (simp_all add: hidden_ex3_def wf_tensor_def)
  have cel: "config_size (config BaseModel_ex3) ''category_encoded_length'' = Some 3"
    by (simp add: BaseModel_ex3_def config_size_def config_ex_def)
  have cats: "shape cats_ex = [2, 3]"
    by (simp add: cats_ex_def)
  from BaseModel_forward_classifies_concatenation
    [OF BaseModel_init_ex3_eq enc bert d hs cel cats, of False "\<lambda>i. True"]
  obtain ceo cls pooled encoded w b where
    ceo: "config_size (config BaseModel_ex3) ''category_encoder_out'' = Some ceo"
    and cls: "select1 hidden_ex3 0 = Inr cls"
    and pooled: "layer_forward False (\<lambda>i. True) (BaseModel.distilbert_tail BaseModel_ex3) cls
      = Inr pooled"
    and encoded: "layer_forward False (\<lambda>i. True) (BaseModel.category_encoder BaseModel_ex3)
      cats_ex = Inr encoded"
    and classifier: "BaseModel.classifier BaseModel_ex3 = Linear w b"
    and out: "snd (BaseModel_forward (BaseModel_ex3\<lparr>training := False\<rparr>) (\<lambda>i. True)
          (Encoding encoded_ex3) (FloatTensor cats_ex)) =
      Inr \<lparr>shape = [2, 1],
           data = map2 (\<lambda>p c. dot (p @ c) (data (pdata w)) + hd (data (pdata b)))
                    (rows 2 2 (data pooled)) (rows 2 ceo (data encoded))\<rparr>"
    by (elim exE conjE) (rule that)
  from ceo have ceo': "ceo = 2"
    by (simp add: BaseModel_ex3_def config_size_def config_ex_def)
  from cls have cls': "cls = \<lparr>shape = [2, 2], data = [1, 1, 3, 1]\<rparr>"
    by (simp add: BaseModel_ex3_select)
  from pooled have pooled': "pooled = \<lparr>shape = [2, 2], data = [4, 9, 6, 15]\<rparr>"
    by (simp add: cls' BaseModel_ex3_pooled)
  from encoded have encoded': "encoded = \<lparr>shape = [2, 2], data = [2, 6, 3, 7]\<rparr>"
    by (simp add: BaseModel_ex3_encoded)
  have r: "rows 2 2 [4, 9, 6, 15 :: real] = [[4, 9], [6, 15]]"
    "rows 2 2 [2, 6, 3, 7 :: real] = [[2, 6], [3, 7]]"
    by (simp_all add: rows_def upt_conv_Cons)
  note wb = BaseModel_ex3_classifier [OF classifier]
  have out': "snd (BaseModel_forward (BaseModel_ex3\<lparr>training := False\<rparr>) (\<lambda>i. True)
          (Encoding encoded_ex3) (FloatTensor cats_ex)) =
     Inr \<lparr>shape = [2, 1],
          data = [dot ([4, 9] @ [2, 6]) [1, 2, 3, 4] + 1, dot ([6, 15] @ [3, 7]) [1, 2, 3, 4] + 1]\<rparr>"
    unfolding out pooled' encoded' ceo' by (simp add: r wb)
  show ?thesis
    using BaseModel_init_ex3_eq bert BaseModel_ex3_pooled BaseModel_ex3_encoded out'
    by (simp add: dot_def)
qed

end
